theory Spec2Isabelle
  imports Complex_Main "HOL-Library.Sublist"
begin

section \<open>Overview\<close>

text \<open>
  A shallow embedding of the processing pipeline of the interview assistant: the response
  parser of \<open>ProcessingHelper.ts\<close> with its regular expressions, the prompt templates the
  helper selects by interview mode, the OpenAI and Claude adapters with the factory and the
  configuration they are built from, and the helper's runs on the two screenshot queues,
  with cancellation. The definitions come first, each beside the construct of the source
  it stands for; the properties follow.
\<close>

section \<open>JavaScript strings\<close>

text \<open>
  A JavaScript string is a sequence of UTF-16 code units. A code unit is modelled as a
  natural number, so that characters outside ASCII (the bullet U+2022 of the parser's
  bullet class, the no-break space that \<open>trim\<close> removes) are ordinary values.
  String literals of the source are written \<open>js ''...''\<close>.
\<close>

type_synonym jsstring = "nat list"

definition js :: "string \<Rightarrow> jsstring" where
  "js s = map of_char s"

text \<open>The white space and line terminators of ECMAScript: the class \<open>\s\<close> of a regular
  expression, and what \<open>String.prototype.trim\<close> removes at both ends.\<close>

definition cls_s :: "nat \<Rightarrow> bool" where
  "cls_s c = (c = 9 \<or> c = 10 \<or> c = 11 \<or> c = 12 \<or> c = 13 \<or> c = 32 \<or> c = 160 \<or> c = 5760
     \<or> (8192 \<le> c \<and> c \<le> 8202) \<or> c = 8232 \<or> c = 8233 \<or> c = 8239 \<or> c = 8287
     \<or> c = 12288 \<or> c = 65279)"

definition trim :: "jsstring \<Rightarrow> jsstring" where
  "trim s = rev (dropWhile cls_s (rev (dropWhile cls_s s)))"

text \<open>Comparison of two code units, exact or ignoring case. Under the flag \<open>i\<close> a
  regular expression without the flag \<open>u\<close> compares the upper-case forms, and never maps
  a code unit outside ASCII to one inside: for the ASCII patterns of this program, ignoring
  case is the folding of \<open>a-z\<close> to \<open>A-Z\<close>.\<close>

definition upper :: "nat \<Rightarrow> nat" where
  "upper c = (if 97 \<le> c \<and> c \<le> 122 then c - 32 else c)"

definition lower :: "nat \<Rightarrow> nat" where
  "lower c = (if 65 \<le> c \<and> c \<le> 90 then c + 32 else c)"

definition same_unit :: "bool \<Rightarrow> nat \<Rightarrow> nat \<Rightarrow> bool" where
  "same_unit ci a b = (if ci then upper a = upper b else a = b)"

fun starts_with :: "bool \<Rightarrow> jsstring \<Rightarrow> jsstring \<Rightarrow> bool" where
  "starts_with ci [] t = True"
| "starts_with ci (a # l) [] = False"
| "starts_with ci (a # l) (c # t) = (same_unit ci a c \<and> starts_with ci l t)"

text \<open>\<open>String.prototype.includes(sub)\<close>.\<close>

fun js_includes :: "jsstring \<Rightarrow> jsstring \<Rightarrow> bool" where
  "js_includes [] sub = (sub = [])"
| "js_includes (c # t) sub = (starts_with False sub (c # t) \<or> js_includes t sub)"

text \<open>\<open>String.prototype.replace(pattern, replacement)\<close> with a string pattern: the first
  occurrence of the pattern is replaced, and a string without the pattern is returned
  unchanged.\<close>

fun replace_first :: "jsstring \<Rightarrow> jsstring \<Rightarrow> jsstring \<Rightarrow> jsstring" where
  "replace_first pat rep [] = (if pat = [] then rep else [])"
| "replace_first pat rep (c # t) =
     (if starts_with False pat (c # t) then rep @ drop (length pat) (c # t)
      else c # replace_first pat rep t)"

text \<open>\<open>Array.prototype.join(sep)\<close> on an array of strings.\<close>

fun join :: "jsstring \<Rightarrow> jsstring list \<Rightarrow> jsstring" where
  "join sep [] = []"
| "join sep [x] = x"
| "join sep (x # y # ys) = x @ sep @ join sep (y # ys)"

text \<open>\<open>String.prototype.split(sep)\<close> for a separator that is not empty (the program
  splits at \<open>\n\<close> and at \<open>\n\n\<close>): \<open>acc\<close> is the piece being read, reversed, and
  \<open>skip\<close> counts the code units of a separator still to pass over.\<close>

fun split_go :: "jsstring \<Rightarrow> nat \<Rightarrow> jsstring \<Rightarrow> jsstring \<Rightarrow> jsstring list" where
  "split_go sep skip acc [] = [rev acc]"
| "split_go sep (Suc k) acc (c # t) = split_go sep k acc t"
| "split_go sep 0 acc (c # t) =
     (if starts_with False sep (c # t) then rev acc # split_go sep (length sep - 1) [] t
      else split_go sep 0 (c # acc) t)"

definition js_split :: "jsstring \<Rightarrow> jsstring \<Rightarrow> jsstring list" where
  "js_split sep s = split_go sep 0 [] s"

text \<open>\<open>.filter(Boolean)\<close> on an array of strings keeps the strings that are not empty.\<close>

definition filter_Boolean :: "jsstring list \<Rightarrow> jsstring list" where
  "filter_Boolean xs = filter (\<lambda>s. s \<noteq> []) xs"

section \<open>Regular expressions\<close>

text \<open>
  The regular expressions of the source are kept as syntax trees and run by one
  backtracking matcher with the priorities of ECMAScript: the alternatives of \<open>|\<close> from
  left to right, a greedy quantifier the longest repetition first, a lazy one the shortest
  first. \<open>Chr f\<close> is a character class and \<open>NChr f\<close> a negated class \<open>[^...]\<close>, \<open>Str\<close> a
  literal, \<open>Star\<close> is \<open>*\<close> and \<open>Lazy\<close> is \<open>*?\<close>, \<open>Grp\<close> the capturing group (no pattern of
  the program has two), \<open>Ahead\<close> the lookahead \<open>(?=...)\<close>, \<open>Bol\<close> and \<open>Eol\<close> the
  anchors \<open>^\<close> and \<open>$\<close> (no pattern has the flag \<open>m\<close>).
\<close>

datatype rx =
    Eps
  | Chr "nat \<Rightarrow> bool"
  | NChr "nat \<Rightarrow> bool"
  | Str jsstring
  | Seq rx rx
  | Alt rx rx
  | Star rx
  | Lazy rx
  | Grp rx
  | Ahead rx
  | Bol
  | Eol

text \<open>\<open>r+\<close>, \<open>r?\<close>, a sequence and an alternation of several parts.\<close>

definition Many1 :: "rx \<Rightarrow> rx" where
  "Many1 r = Seq r (Star r)"

definition Opt :: "rx \<Rightarrow> rx" where
  "Opt r = Alt r Eps"

fun seqs :: "rx list \<Rightarrow> rx" where
  "seqs [] = Eps"
| "seqs [r] = r"
| "seqs (r # r' # rs) = Seq r (seqs (r' # rs))"

fun alts :: "rx list \<Rightarrow> rx" where
  "alts [] = Eps"
| "alts [r] = r"
| "alts (r # r' # rs) = Alt r (alts (r' # rs))"

text \<open>A state of the matcher: whether the position is the start of the input, the text
  captured by the group so far, and the input that remains.\<close>

type_synonym mstate = "bool \<times> jsstring option \<times> jsstring"

text \<open>Membership of a code unit in a class; under the flag \<open>i\<close> a member of the class may
  also equal the code unit up to case.\<close>

definition in_class :: "bool \<Rightarrow> (nat \<Rightarrow> bool) \<Rightarrow> nat \<Rightarrow> bool" where
  "in_class ci f c = (f c \<or> (ci \<and> (f (upper c) \<or> f (lower c))))"

text \<open>\<open>ms ci r s\<close> lists the states in which a match of \<open>r\<close> from \<open>s\<close> can end, in the
  order in which a backtracking matcher tries them. An iteration of a quantifier that
  consumes nothing is rejected, as in ECMAScript.\<close>

function (sequential) ms :: "bool \<Rightarrow> rx \<Rightarrow> mstate \<Rightarrow> mstate list" where
  "ms ci Eps s = [s]"
| "ms ci (Chr f) (b, cap, []) = []"
| "ms ci (Chr f) (b, cap, c # t) = (if in_class ci f c then [(False, cap, t)] else [])"
| "ms ci (NChr f) (b, cap, []) = []"
| "ms ci (NChr f) (b, cap, c # t) = (if in_class ci f c then [] else [(False, cap, t)])"
| "ms ci (Str l) (b, cap, t) =
     (if starts_with ci l t then [(b \<and> l = [], cap, drop (length l) t)] else [])"
| "ms ci (Seq r1 r2) s = concat (map (ms ci r2) (ms ci r1 s))"
| "ms ci (Alt r1 r2) s = ms ci r1 s @ ms ci r2 s"
| "ms ci (Star r) s =
     concat (map (\<lambda>s'. if length (snd (snd s')) < length (snd (snd s))
                        then ms ci (Star r) s' else []) (ms ci r s)) @ [s]"
| "ms ci (Lazy r) s =
     s # concat (map (\<lambda>s'. if length (snd (snd s')) < length (snd (snd s))
                            then ms ci (Lazy r) s' else []) (ms ci r s))"
| "ms ci (Grp r) (b, cap, t) =
     map (\<lambda>s'. (fst s', Some (take (length t - length (snd (snd s'))) t), snd (snd s')))
       (ms ci r (b, cap, t))"
| "ms ci (Ahead r) s = (case ms ci r s of [] \<Rightarrow> [] | _ # _ \<Rightarrow> [s])"
| "ms ci Bol (b, cap, t) = (if b then [(b, cap, t)] else [])"
| "ms ci Eol (b, cap, t) = (if t = [] then [(b, cap, t)] else [])"
  by pat_completeness auto
termination
  by (relation "inv_image (measure size <*lex*> measure (\<lambda>s. length (snd (snd s))))
        (\<lambda>(ci, r, s). (r, s))") auto

declare ms.simps [simp del]

text \<open>The match a backtracking matcher finds from a state: the first one.\<close>

definition first_match :: "bool \<Rightarrow> rx \<Rightarrow> mstate \<Rightarrow> mstate option" where
  "first_match ci r s = (case ms ci r s of [] \<Rightarrow> None | s' # _ \<Rightarrow> Some s')"

text \<open>The result of \<open>RegExp.prototype.exec\<close>: the text before the match, the match
  (element 0 of the result array), the capture (element 1, \<open>None\<close> for undefined) and the
  text after the match.\<close>

record rmatch =
  before :: jsstring
  matched :: jsstring
  capture :: "jsstring option"
  after :: jsstring

text \<open>The leftmost match: the start positions are tried from left to right; \<open>pre\<close> is
  the input already passed over.\<close>

fun search :: "bool \<Rightarrow> rx \<Rightarrow> bool \<Rightarrow> jsstring \<Rightarrow> jsstring \<Rightarrow> rmatch option" where
  "search ci r b pre [] =
     (case first_match ci r (b, None, []) of
        None \<Rightarrow> None
      | Some s' \<Rightarrow>
          Some \<lparr>before = pre, matched = [], capture = fst (snd s'), after = snd (snd s')\<rparr>)"
| "search ci r b pre (c # t) =
     (case first_match ci r (b, None, c # t) of
        None \<Rightarrow> search ci r False (pre @ [c]) t
      | Some s' \<Rightarrow>
          Some \<lparr>before = pre,
                matched = take (length (c # t) - length (snd (snd s'))) (c # t),
                capture = fst (snd s'), after = snd (snd s')\<rparr>)"

declare search.simps [simp del]

text \<open>\<open>str.match(re)\<close> for a pattern without the flag \<open>g\<close>; \<open>ci\<close> is the flag \<open>i\<close>.\<close>

definition rx_exec :: "bool \<Rightarrow> rx \<Rightarrow> jsstring \<Rightarrow> rmatch option" where
  "rx_exec ci r t = search ci r True [] t"

text \<open>\<open>str.replace(re, rep)\<close> for a pattern without the flag \<open>g\<close> and a replacement
  without \<open>$\<close>: the first match is replaced.\<close>

definition rx_replace :: "bool \<Rightarrow> rx \<Rightarrow> jsstring \<Rightarrow> jsstring \<Rightarrow> jsstring" where
  "rx_replace ci r rep t =
     (case rx_exec ci r t of None \<Rightarrow> t | Some m \<Rightarrow> before m @ rep @ after m)"

text \<open>\<open>str.match(re)\<close> for a pattern with the flag \<open>g\<close>: all the matches from left to
  right, each search starting where the last match ended, one code unit further after an
  empty match. The empty list stands for the result \<open>null\<close>, which the source tests.\<close>

function match_all :: "bool \<Rightarrow> rx \<Rightarrow> bool \<Rightarrow> jsstring \<Rightarrow> jsstring list" where
  "match_all ci r b t =
     (case first_match ci r (b, None, t) of
        None \<Rightarrow> (case t of [] \<Rightarrow> [] | c # t' \<Rightarrow> match_all ci r False t')
      | Some s' \<Rightarrow>
          if length (snd (snd s')) < length t
          then take (length t - length (snd (snd s'))) t # match_all ci r False (snd (snd s'))
          else [] # (case t of [] \<Rightarrow> [] | c # t' \<Rightarrow> match_all ci r False t'))"
  by pat_completeness auto
termination
  by (relation "measure (\<lambda>(ci, r, b, t). length t)") auto

declare match_all.simps [simp del]

definition rx_match_g :: "bool \<Rightarrow> rx \<Rightarrow> jsstring \<Rightarrow> jsstring list" where
  "rx_match_g ci r t = match_all ci r True t"

text \<open>\<open>str.replace(re, '')\<close> for a pattern with the flag \<open>g\<close>: every match is removed.\<close>

function remove_all :: "bool \<Rightarrow> rx \<Rightarrow> bool \<Rightarrow> jsstring \<Rightarrow> jsstring" where
  "remove_all ci r b t =
     (case first_match ci r (b, None, t) of
        None \<Rightarrow> (case t of [] \<Rightarrow> [] | c # t' \<Rightarrow> c # remove_all ci r False t')
      | Some s' \<Rightarrow>
          if length (snd (snd s')) < length t then remove_all ci r False (snd (snd s'))
          else (case t of [] \<Rightarrow> [] | c # t' \<Rightarrow> c # remove_all ci r False t'))"
  by pat_completeness auto
termination
  by (relation "measure (\<lambda>(ci, r, b, t). length t)") auto

declare remove_all.simps [simp del]

definition rx_remove_g :: "bool \<Rightarrow> rx \<Rightarrow> jsstring \<Rightarrow> jsstring" where
  "rx_remove_g ci r t = remove_all ci r True t"

text \<open>The character classes of the patterns: \<open>\w\<close>, \<open>\d\<close>, \<open>[\s\S]\<close> (a class and its
  complement: every code unit), \<open>[-*\<bullet>]\<close> with the
  bullet U+2022, the space of \<open>[ ]\<close>, \<open>[A-Z]\<close>, \<open>[a-zA-Z]\<close>, and the line terminators that
  \<open>.\<close> excludes.\<close>

definition cls_w :: "nat \<Rightarrow> bool" where
  "cls_w c = ((48 \<le> c \<and> c \<le> 57) \<or> (65 \<le> c \<and> c \<le> 90) \<or> c = 95 \<or> (97 \<le> c \<and> c \<le> 122))"

definition cls_d :: "nat \<Rightarrow> bool" where
  "cls_d c = (48 \<le> c \<and> c \<le> 57)"

definition cls_any :: "nat \<Rightarrow> bool" where
  "cls_any c = True"

definition cls_bullet :: "nat \<Rightarrow> bool" where
  "cls_bullet c = (c = 45 \<or> c = 42 \<or> c = 8226)"

definition cls_space :: "nat \<Rightarrow> bool" where
  "cls_space c = (c = 32)"

definition cls_AZ :: "nat \<Rightarrow> bool" where
  "cls_AZ c = (65 \<le> c \<and> c \<le> 90)"

definition cls_alpha :: "nat \<Rightarrow> bool" where
  "cls_alpha c = ((97 \<le> c \<and> c \<le> 122) \<or> (65 \<le> c \<and> c \<le> 90))"

definition cls_line_end :: "nat \<Rightarrow> bool" where
  "cls_line_end c = (c = 10 \<or> c = 13 \<or> c = 8232 \<or> c = 8233)"

definition any_unit :: rx where
  "any_unit = Chr cls_any"

definition not_newline :: rx where
  "not_newline = NChr (\<lambda>c. c = 10)"

definition dot :: rx where
  "dot = NChr cls_line_end"

section \<open>Response parser (ProcessingHelper.ts)\<close>

text \<open>The data of a parsed solution. Every mode fills \<open>code\<close>, \<open>thoughts\<close>,
  \<open>time_complexity\<close> and \<open>space_complexity\<close>; the fields that only some modes add
  (\<open>diagram\<close>, \<open>architecture\<close>, \<open>answer\<close>, ...) are listed in \<open>extras\<close> by name. A
  processing result is \<open>{success: true, data}\<close>, here \<open>Inr data\<close>, or
  \<open>{success: false, error}\<close>, here \<open>Inl error\<close>.\<close>

record solution_data =
  code :: jsstring
  thoughts :: "jsstring list"
  time_complexity :: jsstring
  space_complexity :: jsstring
  extras :: "(string \<times> jsstring) list"

type_synonym processing_result = "jsstring + solution_data"

text \<open>Element 1 of a match array. The group takes part in every match of the patterns
  below, each of which has it outside any alternative and any quantifier
  (\<open>capture_present\<close>, \<open>patterns_set_capture\<close>), so that \<open>m[1]\<close> is never undefined where
  the source calls \<open>m[1].trim()\<close>.\<close>

definition capture1 :: "rmatch \<Rightarrow> jsstring" where
  "capture1 m = (case capture m of None \<Rightarrow> [] | Some g \<Rightarrow> g)"

text \<open>The test \<open>m && m[1]\<close> of the source, and the section it guards: a match whose
  capture is not empty.\<close>

definition section_of :: "rmatch option \<Rightarrow> jsstring option" where
  "section_of m =
     (case m of
        None \<Rightarrow> None
      | Some r \<Rightarrow> (case capture r of
                    None \<Rightarrow> None
                  | Some g \<Rightarrow> if g = [] then None else Some g))"

subsection \<open>Bullet lists\<close>

text \<open>\<open>/(?:^|\n)\s*(?:[-*\<bullet>]|\d+\.)\s*(.*)/g\<close> and \<open>/^\s*(?:[-*\<bullet>]|\d+\.)\s*/\<close>.\<close>

definition bullet_marker :: rx where
  "bullet_marker = Alt (Chr cls_bullet) (Seq (Many1 (Chr cls_d)) (Str (js ''.'')))"

definition bullet_rx :: rx where
  "bullet_rx =
     seqs [Alt Bol (Str (js ''\<newline>'')), Star (Chr cls_s), bullet_marker, Star (Chr cls_s),
           Grp (Star dot)]"

definition bullet_prefix_rx :: rx where
  "bullet_prefix_rx = seqs [Bol, Star (Chr cls_s), bullet_marker, Star (Chr cls_s)]"

text \<open>The items of a section, as the source computes them four times over: the bullet or
  numbered items without their markers when there is one, the lines otherwise; trimmed,
  and without the empty ones.\<close>

definition bullet_items :: "jsstring \<Rightarrow> jsstring list" where
  "bullet_items sec =
     (case rx_match_g False bullet_rx sec of
        [] \<Rightarrow> filter_Boolean (map trim (js_split (js ''\<newline>'') sec))
      | p # ps \<Rightarrow>
          filter_Boolean
            (map (\<lambda>point. trim (rx_replace False bullet_prefix_rx [] point)) (p # ps)))"

definition section_items :: "rmatch option \<Rightarrow> jsstring list" where
  "section_items m = (case section_of m of None \<Rightarrow> [] | Some sec \<Rightarrow> bullet_items sec)"

text \<open>The paragraphs of a section: \<open>m[1].split('\n\n').filter(Boolean)\<close>, each trimmed.\<close>

definition section_paragraphs :: "rmatch option \<Rightarrow> jsstring list" where
  "section_paragraphs m =
     (case section_of m of
        None \<Rightarrow> []
      | Some sec \<Rightarrow> map trim (filter_Boolean (js_split (js ''\<newline>\<newline>'') sec)))"

text \<open>\<open>m ? m[1].trim() : ""\<close>.\<close>

definition section_text :: "rmatch option \<Rightarrow> jsstring" where
  "section_text m = (case m of None \<Rightarrow> [] | Some r \<Rightarrow> trim (capture1 r))"

subsection \<open>Coding mode\<close>

text \<open>\<open>/```(?:\w+)?\s*([\s\S]*?)```/\<close>\<close>

definition code_fence_rx :: rx where
  "code_fence_rx =
     seqs [Str (js ''```''), Opt (Many1 (Chr cls_w)), Star (Chr cls_s), Grp (Lazy any_unit),
           Str (js ''```'')]"

text \<open>\<open>/(?:Thoughts:|Key Insights:|Reasoning:|Approach:)([\s\S]*?)(?:Time complexity:|$)/i\<close>\<close>

definition thoughts_rx :: rx where
  "thoughts_rx =
     seqs [alts [Str (js ''Thoughts:''), Str (js ''Key Insights:''), Str (js ''Reasoning:''),
                 Str (js ''Approach:'')],
           Grp (Lazy any_unit),
           Alt (Str (js ''Time complexity:'')) Eol]"

text \<open>\<open>/Time complexity:?\s*([^\n]+(?:\n[^\n]+)*?)(?=\n\s*(?:Space complexity|$))/i\<close>\<close>

definition timeComplexityPattern :: rx where
  "timeComplexityPattern =
     seqs [Str (js ''Time complexity''), Opt (Str (js '':'')), Star (Chr cls_s),
           Grp (Seq (Many1 not_newline) (Lazy (Seq (Str (js ''\<newline>'')) (Many1 not_newline)))),
           Ahead (seqs [Str (js ''\<newline>''), Star (Chr cls_s),
                        Alt (Str (js ''Space complexity'')) Eol])]"

text \<open>\<open>/Space complexity:?\s*([^\n]+(?:\n[^\n]+)*?)(?=\n\s*(?:[A-Z]|$))/i\<close>\<close>

definition spaceComplexityPattern :: rx where
  "spaceComplexityPattern =
     seqs [Str (js ''Space complexity''), Opt (Str (js '':'')), Star (Chr cls_s),
           Grp (Seq (Many1 not_newline) (Lazy (Seq (Str (js ''\<newline>'')) (Many1 not_newline)))),
           Ahead (seqs [Str (js ''\<newline>''), Star (Chr cls_s), Alt (Chr cls_AZ) Eol])]"

text \<open>\<open>/O\([^)]+\)/i\<close>\<close>

definition big_o_rx :: rx where
  "big_o_rx = seqs [Str (js ''O(''), Many1 (NChr (\<lambda>c. c = 41)), Str (js '')'')]"

definition default_time_complexity :: jsstring where
  "default_time_complexity = js ''O(n) - Linear time complexity because we only iterate through the array once. Each element is processed exactly one time, and the hashmap lookups are O(1) operations.''"

definition default_space_complexity :: jsstring where
  "default_space_complexity = js ''O(n) - Linear space complexity because we store elements in the hashmap. In the worst case, we might need to store all elements before finding the solution pair.''"

text \<open>What the source does, once for the time and once for the space complexity, with the
  text its pattern captured: trim it; without an \<open>O(...)\<close> in it, put \<open>O(n) - \<close> before
  it; with one, but with neither a dash nor the word \<open>because\<close>, put the notation first,
  then \<open> - \<close>, then the text without (the first occurrence of) the notation, trimmed.\<close>

definition complexity_statement :: "jsstring \<Rightarrow> jsstring" where
  "complexity_statement captured =
     (let c = trim captured in
      case rx_exec True big_o_rx c of
        None \<Rightarrow> js ''O(n) - '' @ c
      | Some _ \<Rightarrow>
          if \<not> js_includes c (js ''-'') \<and> \<not> js_includes c (js ''because'') then
            (case rx_exec True big_o_rx c of
               None \<Rightarrow> c
             | Some notationMatch \<Rightarrow>
                 (let notation = matched notationMatch;
                      rest = trim (replace_first notation [] c)
                  in notation @ js '' - '' @ rest))
          else c)"

definition complexity_of :: "rx \<Rightarrow> jsstring \<Rightarrow> jsstring \<Rightarrow> jsstring" where
  "complexity_of pattern dflt responseContent =
     (case section_of (rx_exec True pattern responseContent) of
        None \<Rightarrow> dflt
      | Some captured \<Rightarrow> complexity_statement captured)"

definition processCodingSolution :: "jsstring \<Rightarrow> processing_result" where
  "processCodingSolution responseContent =
     (let codeMatch = rx_exec False code_fence_rx responseContent;
          code = (case codeMatch of None \<Rightarrow> responseContent | Some m \<Rightarrow> trim (capture1 m));
          thoughts = section_items (rx_exec True thoughts_rx responseContent);
          timeComplexity =
            complexity_of timeComplexityPattern default_time_complexity responseContent;
          spaceComplexity =
            complexity_of spaceComplexityPattern default_space_complexity responseContent
      in Inr \<lparr>code = code,
              thoughts = (if length thoughts > 0 then thoughts
                          else [js ''Solution approach based on efficiency and readability'']),
              time_complexity = timeComplexity,
              space_complexity = spaceComplexity,
              extras = []\<rparr>)"

subsection \<open>System design mode\<close>

text \<open>A label \<open>L[^:]*:\<close>, as in \<open>/Scalability[^:]*:.../\<close>.\<close>

definition label_to_colon :: "string \<Rightarrow> rx" where
  "label_to_colon l = seqs [Str (js l), Star (NChr (\<lambda>c. c = 58)), Str (js '':'')]"

text \<open>
  \<open>/(?:System Architecture|Architecture|High-level design):([\s\S]*?)(?:(?:Key|Major) Components:|$)/i\<close>,
  \<open>/(?:Key|Major) Components:([\s\S]*?)(?:Data Model:|$)/i\<close>,
  \<open>/Data Model:([\s\S]*?)(?:Scalability|$)/i\<close>,
  \<open>/Scalability[^:]*:([\s\S]*?)(?:Tradeoffs|$)/i\<close> and
  \<open>/Tradeoffs[^:]*:([\s\S]*?)$/i\<close>.
\<close>

definition key_components :: rx where
  "key_components = Seq (Alt (Str (js ''Key'')) (Str (js ''Major''))) (Str (js '' Components:''))"

definition architecture_rx :: rx where
  "architecture_rx =
     seqs [alts [Str (js ''System Architecture''), Str (js ''Architecture''),
                 Str (js ''High-level design'')],
           Str (js '':''), Grp (Lazy any_unit), Alt key_components Eol]"

definition components_rx :: rx where
  "components_rx = seqs [key_components, Grp (Lazy any_unit), Alt (Str (js ''Data Model:'')) Eol]"

definition data_model_rx :: rx where
  "data_model_rx =
     seqs [Str (js ''Data Model:''), Grp (Lazy any_unit), Alt (Str (js ''Scalability'')) Eol]"

definition scalability_rx :: rx where
  "scalability_rx =
     seqs [label_to_colon ''Scalability'', Grp (Lazy any_unit), Alt (Str (js ''Tradeoffs'')) Eol]"

definition tradeoffs_rx :: rx where
  "tradeoffs_rx = seqs [label_to_colon ''Tradeoffs'', Grp (Lazy any_unit), Eol]"

definition processSystemDesignSolution :: "jsstring \<Rightarrow> processing_result" where
  "processSystemDesignSolution responseContent =
     (let architecture = section_text (rx_exec True architecture_rx responseContent);
          components = section_items (rx_exec True components_rx responseContent);
          dataModel = section_text (rx_exec True data_model_rx responseContent);
          scalability = section_text (rx_exec True scalability_rx responseContent);
          tradeoffs = section_text (rx_exec True tradeoffs_rx responseContent)
      in Inr \<lparr>code = [],
              thoughts = (if length components > 0 then components
                          else [js ''System design approach based on requirements'']),
              time_complexity = js ''N/A for system design'',
              space_complexity = js ''N/A for system design'',
              extras = [(''diagram'', architecture), (''architecture'', architecture),
                        (''data_model'', dataModel), (''scalability'', scalability),
                        (''tradeoffs'', tradeoffs)]\<rparr>)"

subsection \<open>React mode\<close>

text \<open>
  \<open>/```(?:jsx|tsx|javascript|js|react)?\s*([\s\S]*?)```/\<close>,
  \<open>/Component Structure:([\s\S]*?)(?:State Management:|$)/i\<close>,
  \<open>/State Management:([\s\S]*?)(?:Key Features:|$)/i\<close> and
  \<open>/Key Features:([\s\S]*?)(?:Potential Improvements:|$)/i\<close>.
\<close>

definition react_fence_rx :: rx where
  "react_fence_rx =
     seqs [Str (js ''```''),
           Opt (alts [Str (js ''jsx''), Str (js ''tsx''), Str (js ''javascript''), Str (js ''js''),
                      Str (js ''react'')]),
           Star (Chr cls_s), Grp (Lazy any_unit), Str (js ''```'')]"

definition structure_rx :: rx where
  "structure_rx =
     seqs [Str (js ''Component Structure:''), Grp (Lazy any_unit),
           Alt (Str (js ''State Management:'')) Eol]"

definition state_rx :: rx where
  "state_rx =
     seqs [Str (js ''State Management:''), Grp (Lazy any_unit), Alt (Str (js ''Key Features:'')) Eol]"

definition features_rx :: rx where
  "features_rx =
     seqs [Str (js ''Key Features:''), Grp (Lazy any_unit),
           Alt (Str (js ''Potential Improvements:'')) Eol]"

definition processReactSolution :: "jsstring \<Rightarrow> processing_result" where
  "processReactSolution responseContent =
     (let codeMatch = rx_exec False react_fence_rx responseContent;
          code = (case codeMatch of None \<Rightarrow> [] | Some m \<Rightarrow> trim (capture1 m));
          structure = section_items (rx_exec True structure_rx responseContent);
          stateManagement = section_text (rx_exec True state_rx responseContent);
          features = section_items (rx_exec True features_rx responseContent)
      in Inr \<lparr>code = code,
              thoughts = (if length structure > 0 then structure
                          else if length features > 0 then features
                          else [js ''React component design based on requirements'']),
              time_complexity = js ''N/A for React components'',
              space_complexity = js ''N/A for React components'',
              extras = [(''component_structure'', join (js ''\<newline>'') structure),
                        (''state_management'', stateManagement)]\<rparr>)"

subsection \<open>SQL mode\<close>

text \<open>
  \<open>/```(?:sql)?\s*([\s\S]*?)```/\<close>, \<open>/Explanation:([\s\S]*?)(?:Performance|$)/i\<close>,
  \<open>/Performance[^:]*:([\s\S]*?)(?:Alternative|$)/i\<close> and \<open>/Alternative[^:]*:([\s\S]*?)$/i\<close>.
\<close>

definition sql_fence_rx :: rx where
  "sql_fence_rx =
     seqs [Str (js ''```''), Opt (Str (js ''sql'')), Star (Chr cls_s), Grp (Lazy any_unit),
           Str (js ''```'')]"

definition sql_explanation_rx :: rx where
  "sql_explanation_rx =
     seqs [Str (js ''Explanation:''), Grp (Lazy any_unit), Alt (Str (js ''Performance'')) Eol]"

definition performance_rx :: rx where
  "performance_rx =
     seqs [label_to_colon ''Performance'', Grp (Lazy any_unit), Alt (Str (js ''Alternative'')) Eol]"

definition alternatives_rx :: rx where
  "alternatives_rx = seqs [label_to_colon ''Alternative'', Grp (Lazy any_unit), Eol]"

definition processSQLSolution :: "jsstring \<Rightarrow> processing_result" where
  "processSQLSolution responseContent =
     (let sqlMatch = rx_exec False sql_fence_rx responseContent;
          sql = (case sqlMatch of None \<Rightarrow> [] | Some m \<Rightarrow> trim (capture1 m));
          explanation = section_paragraphs (rx_exec True sql_explanation_rx responseContent);
          performance = section_text (rx_exec True performance_rx responseContent);
          alternatives = section_text (rx_exec True alternatives_rx responseContent)
      in Inr \<lparr>code = sql,
              thoughts = (if length explanation > 0 then explanation
                          else [js ''SQL query design based on requirements'']),
              time_complexity =
                (if performance \<noteq> [] then performance
                 else js ''Depends on database indexes and query execution plan''),
              space_complexity = js ''Depends on result set size and temporary tables used'',
              extras = [(''alternatives'', alternatives)]\<rparr>)"

subsection \<open>Linux mode\<close>

text \<open>
  \<open>/(?:Solution Commands|Commands|Command):([\s\S]*?)(?:Explanation:|$)/i\<close>,
  \<open>/Explanation:([\s\S]*?)(?:Verification:|$)/i\<close>,
  \<open>/Verification:([\s\S]*?)(?:Alternative|$)/i\<close> and \<open>/Alternative[^:]*:([\s\S]*?)$/i\<close>.
\<close>

definition commands_rx :: rx where
  "commands_rx =
     seqs [alts [Str (js ''Solution Commands''), Str (js ''Commands''), Str (js ''Command'')],
           Str (js '':''), Grp (Lazy any_unit), Alt (Str (js ''Explanation:'')) Eol]"

definition linux_explanation_rx :: rx where
  "linux_explanation_rx =
     seqs [Str (js ''Explanation:''), Grp (Lazy any_unit), Alt (Str (js ''Verification:'')) Eol]"

definition verification_rx :: rx where
  "verification_rx =
     seqs [Str (js ''Verification:''), Grp (Lazy any_unit), Alt (Str (js ''Alternative'')) Eol]"

definition processLinuxSolution :: "jsstring \<Rightarrow> processing_result" where
  "processLinuxSolution responseContent =
     (let commands = section_text (rx_exec True commands_rx responseContent);
          explanation = section_items (rx_exec True linux_explanation_rx responseContent);
          verification = section_text (rx_exec True verification_rx responseContent);
          alternatives = section_text (rx_exec True alternatives_rx responseContent)
      in Inr \<lparr>code = commands,
              thoughts = (if length explanation > 0 then explanation
                          else [js ''Linux commands based on requirements'']),
              time_complexity = js ''N/A for Linux commands'',
              space_complexity = js ''N/A for Linux commands'',
              extras = [(''verification'', verification), (''alternatives'', alternatives)]\<rparr>)"

subsection \<open>Certification mode\<close>

text \<open>
  \<open>/(?:Answer|Correct Answer|Solution):([\s\S]*?)(?:Explanation:|$)/i\<close>,
  \<open>/Explanation:([\s\S]*?)(?:Additional Context:|$)/i\<close> and
  \<open>/Additional Context:([\s\S]*?)$/i\<close>.
\<close>

definition answer_rx :: rx where
  "answer_rx =
     seqs [alts [Str (js ''Answer''), Str (js ''Correct Answer''), Str (js ''Solution'')],
           Str (js '':''), Grp (Lazy any_unit), Alt (Str (js ''Explanation:'')) Eol]"

definition cert_explanation_rx :: rx where
  "cert_explanation_rx =
     seqs [Str (js ''Explanation:''), Grp (Lazy any_unit),
           Alt (Str (js ''Additional Context:'')) Eol]"

definition context_rx :: rx where
  "context_rx = seqs [Str (js ''Additional Context:''), Grp (Lazy any_unit), Eol]"

definition processCertificationSolution :: "jsstring \<Rightarrow> processing_result" where
  "processCertificationSolution responseContent =
     (let answer = section_text (rx_exec True answer_rx responseContent);
          explanation = section_paragraphs (rx_exec True cert_explanation_rx responseContent);
          additionalContext = section_text (rx_exec True context_rx responseContent)
      in Inr \<lparr>code = answer,
              thoughts = (if length explanation > 0 then explanation
                          else [js ''Certification answer based on knowledge'']),
              time_complexity = js ''N/A for certification exam'',
              space_complexity = js ''N/A for certification exam'',
              extras = [(''answer'', answer), (''additional_context'', additionalContext)]\<rparr>)"

subsection \<open>Dispatch on the mode\<close>

definition processSolutionResponse :: "jsstring \<Rightarrow> jsstring \<Rightarrow> processing_result" where
  "processSolutionResponse responseContent mode =
     (if mode = js ''coding'' then processCodingSolution responseContent
      else if mode = js ''system_design'' then processSystemDesignSolution responseContent
      else if mode = js ''react'' then processReactSolution responseContent
      else if mode = js ''sql'' then processSQLSolution responseContent
      else if mode = js ''linux'' then processLinuxSolution responseContent
      else if mode = js ''certification'' then processCertificationSolution responseContent
      else processCodingSolution responseContent)"

subsection \<open>Debug responses\<close>

text \<open>
  \<open>/```(?:[a-zA-Z]+)?([\s\S]*?)```/\<close>,
  \<open>/(?:^|\n)[ ]*(?:[-*\<bullet>]|\d+\.)[ ]+([^\n]+)/g\<close> and \<open>/^[ ]*(?:[-*\<bullet>]|\d+\.)[ ]+/\<close>.
\<close>

definition debug_fence_rx :: rx where
  "debug_fence_rx =
     seqs [Str (js ''```''), Opt (Many1 (Chr cls_alpha)), Grp (Lazy any_unit), Str (js ''```'')]"

definition debug_bullet_rx :: rx where
  "debug_bullet_rx =
     seqs [Alt Bol (Str (js ''\<newline>'')), Star (Chr cls_space), bullet_marker,
           Many1 (Chr cls_space), Grp (Many1 not_newline)]"

definition debug_prefix_rx :: rx where
  "debug_prefix_rx = seqs [Bol, Star (Chr cls_space), bullet_marker, Many1 (Chr cls_space)]"

text \<open>The part of \<open>processExtraScreenshotsHelper\<close> after the adapter's answer: the data
  of the debug result for the text \<open>debugContent\<close> of the answer. \<open>slice(0, 5)\<close> keeps the
  first five items.\<close>

definition debug_thoughts :: "jsstring \<Rightarrow> jsstring list" where
  "debug_thoughts debugContent =
     (case rx_match_g False debug_bullet_rx debugContent of
        [] \<Rightarrow> [js ''Debug analysis based on your screenshots'']
      | p # ps \<Rightarrow>
          take 5 (map (\<lambda>point. trim (rx_replace False debug_prefix_rx [] point)) (p # ps)))"

definition debug_response :: "jsstring \<Rightarrow> solution_data" where
  "debug_response debugContent =
     (let extractedCode =
            (case section_of (rx_exec False debug_fence_rx debugContent) of
               None \<Rightarrow> js ''// Debug mode - see analysis below''
             | Some c \<Rightarrow> trim c)
      in \<lparr>code = extractedCode,
          thoughts = debug_thoughts debugContent,
          time_complexity = js ''N/A - Debug mode'',
          space_complexity = js ''N/A - Debug mode'',
          extras = [(''debug_analysis'', debugContent)]\<rparr>)"

section \<open>Prompt templates (ProcessingHelper.ts)\<close>

text \<open>The problem information that the extraction pass parses from the model's JSON:
  named string fields. In a template literal a field that is missing reads
  \<open>undefined\<close>, and \<open>field || "default"\<close> is the default when the field is missing or
  empty.\<close>

type_synonym problem_info = "string \<rightharpoonup> jsstring"

definition tpl :: "problem_info \<Rightarrow> string \<Rightarrow> jsstring" where
  "tpl problemInfo field = (case problemInfo field of None \<Rightarrow> js ''undefined'' | Some v \<Rightarrow> v)"

definition tpl_or :: "problem_info \<Rightarrow> string \<Rightarrow> jsstring \<Rightarrow> jsstring" where
  "tpl_or problemInfo field dflt =
     (case problemInfo field of None \<Rightarrow> dflt | Some v \<Rightarrow> if v = [] then dflt else v)"

text \<open>The four functions that choose a template by the mode: a \<open>switch\<close> on the mode
  string with a \<open>default\<close> branch.\<close>

definition createSystemPromptByMode :: "jsstring \<Rightarrow> jsstring" where
  \<open>createSystemPromptByMode mode =
     (if mode = js ''coding'' then
        js ''You are a coding challenge interpreter. Analyze the screenshot of the coding problem and extract all relevant information. Return the information in JSON format with these fields: problem_statement, constraints, example_input, example_output. Just return the structured JSON without any other text.''
      else if mode = js ''system_design'' then
        js ''You are a system design interview assistant. Analyze the screenshot of the system design problem and extract all relevant information. Return the information in JSON format with these fields: problem_statement, requirements, constraints, scale, additional_context. Just return the structured JSON without any other text.''
      else if mode = js ''react'' then
        js ''You are a React coding interview assistant. Analyze the screenshot of the React frontend problem and extract all relevant information. Return the information in JSON format with these fields: problem_statement, ui_requirements, functionality, constraints, sample_data. Just return the structured JSON without any other text.''
      else if mode = js ''sql'' then
        js ''You are a SQL interview assistant. Analyze the screenshot of the SQL problem and extract all relevant information. Return the information in JSON format with these fields: problem_statement, table_schemas, sample_data, expected_output, constraints. Just return the structured JSON without any other text.''
      else if mode = js ''linux'' then
        js ''You are a Linux/kernel interview assistant. Analyze the screenshot of the Linux/kernel problem and extract all relevant information. Return the information in JSON format with these fields: problem_statement, environment, command_requirements, expected_behavior, constraints. Just return the structured JSON without any other text.''
      else if mode = js ''certification'' then
        js ''You are a certification exam assistant. Analyze the screenshot of the exam question and extract all relevant information. First determine the question type (multiple_choice, fill_in_blank, matching, arrange, other). Return the information in JSON format with these fields: question_type, question_text, options (if applicable), context. Just return the structured JSON without any other text.''
      else
        js ''You are a coding challenge interpreter. Analyze the screenshot of the coding problem and extract all relevant information. Return the information in JSON format with these fields: problem_statement, constraints, example_input, example_output. Just return the structured JSON without any other text.'')\<close>

definition createSolutionPromptByMode :: "jsstring \<Rightarrow> problem_info \<Rightarrow> jsstring \<Rightarrow> jsstring" where
  \<open>createSolutionPromptByMode mode problemInfo language =
     (if mode = js ''coding'' then
        js ''\<newline>Generate a detailed solution for the following coding problem:\<newline>\<newline>PROBLEM STATEMENT:\<newline>''
          @ tpl problemInfo ''problem_statement''
          @ js ''\<newline>\<newline>CONSTRAINTS:\<newline>''
          @ tpl_or problemInfo ''constraints'' (js ''No specific constraints provided.'')
          @ js ''\<newline>\<newline>EXAMPLE INPUT:\<newline>''
          @ tpl_or problemInfo ''example_input'' (js ''No example input provided.'')
          @ js ''\<newline>\<newline>EXAMPLE OUTPUT:\<newline>''
          @ tpl_or problemInfo ''example_output'' (js ''No example output provided.'')
          @ js ''\<newline>\<newline>LANGUAGE: ''
          @ language
          @ js ''\<newline>\<newline>I need the response in the following format:\<newline>1. Code: A clean, optimized implementation in ''
          @ language
          @ js ''\<newline>2. Your Thoughts: A list of key insights and reasoning behind your approach\<newline>3. Time complexity: O(X) with a detailed explanation (at least 2 sentences)\<newline>4. Space complexity: O(X) with a detailed explanation (at least 2 sentences)\<newline>\<newline>For complexity explanations, please be thorough. For example: "Time complexity: O(n) because we iterate through the array only once. This is optimal as we need to examine each element at least once to find the solution." or "Space complexity: O(n) because in the worst case, we store all elements in the hashmap. The additional space scales linearly with the input size."\<newline>\<newline>Your solution should be efficient, well-commented, and handle edge cases.\<newline>''
      else if mode = js ''system_design'' then
        js ''\<newline>Generate a detailed solution for the following system design problem:\<newline>\<newline>PROBLEM STATEMENT:\<newline>''
          @ tpl problemInfo ''problem_statement''
          @ js ''\<newline>\<newline>REQUIREMENTS:\<newline>''
          @ tpl_or problemInfo ''requirements'' (js ''No specific requirements provided.'')
          @ js ''\<newline>\<newline>CONSTRAINTS:\<newline>''
          @ tpl_or problemInfo ''constraints'' (js ''No specific constraints provided.'')
          @ js ''\<newline>\<newline>SCALE:\<newline>''
          @ tpl_or problemInfo ''scale'' (js ''No specific scale information provided.'')
          @ js ''\<newline>\<newline>ADDITIONAL CONTEXT:\<newline>''
          @ tpl_or problemInfo ''additional_context'' (js ''No additional context provided.'')
          @ js ''\<newline>\<newline>I need the response in the following format:\<newline>1. System Architecture: High-level architecture with key components\<newline>2. Key Components: List each major component and its responsibility\<newline>3. Data Model: Describe the data schemas and storage choices\<newline>4. Scalability Considerations: How this design scales to handle growth\<newline>5. Tradeoffs: List of the key tradeoffs in your design\<newline>\<newline>Your solution should be clear, efficient, and address all the requirements and constraints.\<newline>''
      else if mode = js ''react'' then
        js ''\<newline>Generate a detailed solution for the following React frontend coding problem:\<newline>\<newline>PROBLEM STATEMENT:\<newline>''
          @ tpl problemInfo ''problem_statement''
          @ js ''\<newline>\<newline>UI REQUIREMENTS:\<newline>''
          @ tpl_or problemInfo ''ui_requirements'' (js ''No specific UI requirements provided.'')
          @ js ''\<newline>\<newline>FUNCTIONALITY:\<newline>''
          @ tpl_or problemInfo ''functionality'' (js ''No specific functionality details provided.'')
          @ js ''\<newline>\<newline>CONSTRAINTS:\<newline>''
          @ tpl_or problemInfo ''constraints'' (js ''No specific constraints provided.'')
          @ js ''\<newline>\<newline>SAMPLE DATA:\<newline>''
          @ tpl_or problemInfo ''sample_data'' (js ''No sample data provided.'')
          @ js ''\<newline>\<newline>I need the response in the following format:\<newline>1. Code: A clean, optimized React implementation\<newline>2. Component Structure: Description of the component hierarchy\<newline>3. State Management: How state is handled in the solution\<newline>4. Key Features: Highlight of important implementation details\<newline>5. Potential Improvements: How the solution could be extended\<newline>\<newline>Your solution should use modern React practices, be performant, and meet all requirements.\<newline>''
      else if mode = js ''sql'' then
        js ''\<newline>Generate a detailed solution for the following SQL problem:\<newline>\<newline>PROBLEM STATEMENT:\<newline>''
          @ tpl problemInfo ''problem_statement''
          @ js ''\<newline>\<newline>TABLE SCHEMAS:\<newline>''
          @ tpl_or problemInfo ''table_schemas'' (js ''No specific table schemas provided.'')
          @ js ''\<newline>\<newline>SAMPLE DATA:\<newline>''
          @ tpl_or problemInfo ''sample_data'' (js ''No sample data provided.'')
          @ js ''\<newline>\<newline>EXPECTED OUTPUT:\<newline>''
          @ tpl_or problemInfo ''expected_output'' (js ''No specific expected output provided.'')
          @ js ''\<newline>\<newline>CONSTRAINTS:\<newline>''
          @ tpl_or problemInfo ''constraints'' (js ''No specific constraints provided.'')
          @ js ''\<newline>\<newline>I need the response in the following format:\<newline>1. SQL Query: A clean, optimized SQL solution\<newline>2. Explanation: Step-by-step explanation of how the query works\<newline>3. Performance Considerations: Any indexes or optimizations to consider\<newline>4. Alternative Approaches: Other ways to solve this problem\<newline>\<newline>Your solution should be efficient, follow best practices, and produce the expected output.\<newline>''
      else if mode = js ''linux'' then
        js ''\<newline>Generate a detailed solution for the following Linux/kernel problem:\<newline>\<newline>PROBLEM STATEMENT:\<newline>''
          @ tpl problemInfo ''problem_statement''
          @ js ''\<newline>\<newline>ENVIRONMENT:\<newline>''
          @ tpl_or problemInfo ''environment'' (js ''No specific environment details provided.'')
          @ js ''\<newline>\<newline>COMMAND REQUIREMENTS:\<newline>''
          @ tpl_or problemInfo ''command_requirements'' (js ''No specific command requirements provided.'')
          @ js ''\<newline>\<newline>EXPECTED BEHAVIOR:\<newline>''
          @ tpl_or problemInfo ''expected_behavior'' (js ''No specific expected behavior provided.'')
          @ js ''\<newline>\<newline>CONSTRAINTS:\<newline>''
          @ tpl_or problemInfo ''constraints'' (js ''No specific constraints provided.'')
          @ js ''\<newline>\<newline>I need the response in the following format:\<newline>1. Solution Commands: The exact commands to solve the problem\<newline>2. Explanation: Step-by-step explanation of what each command does\<newline>3. Verification: How to verify the solution works correctly\<newline>4. Alternative Approaches: Other ways to solve this problem\<newline>\<newline>Your solution should be efficient, follow best practices, and meet all requirements.\<newline>''
      else if mode = js ''certification'' then
        js ''\<newline>Generate a detailed solution for the following certification exam question:\<newline>\<newline>QUESTION TYPE:\<newline>''
          @ tpl_or problemInfo ''question_type'' (js ''Unknown'')
          @ js ''\<newline>\<newline>QUESTION TEXT:\<newline>''
          @ tpl problemInfo ''question_text''
          @ js ''\<newline>\<newline>OPTIONS:\<newline>''
          @ tpl_or problemInfo ''options'' (js ''No options provided.'')
          @ js ''\<newline>\<newline>CONTEXT:\<newline>''
          @ tpl_or problemInfo ''context'' (js ''No specific context provided.'')
          @ js ''\<newline>\<newline>I need both the answer and a detailed explanation:\<newline>1. Answer: Clear, direct answer to the question\<newline>2. Explanation: Detailed explanation of why this is the correct answer\<newline>3. Additional Context: Any important information that helps understand the topic\<newline>\<newline>Your solution should be accurate and comprehensive.\<newline>''
      else
        js ''\<newline>Generate a detailed solution for the following problem:\<newline>\<newline>PROBLEM STATEMENT:\<newline>''
          @ tpl problemInfo ''problem_statement''
          @ js ''\<newline>\<newline>I need a comprehensive solution with clear explanations.\<newline>'')\<close>

definition createDebugSystemPromptByMode :: "jsstring \<Rightarrow> jsstring" where
  \<open>createDebugSystemPromptByMode mode =
     (if mode = js ''coding'' then
        js ''You are a coding interview assistant helping debug and improve solutions. Analyze these screenshots which include either error messages, incorrect outputs, or test cases, and provide detailed debugging help.\<newline>\<newline>Your response MUST follow this exact structure with these section headers (use ### for headers):\<newline>### Issues Identified\<newline>- List each issue as a bullet point with clear explanation\<newline>\<newline>### Specific Improvements and Corrections\<newline>- List specific code changes needed as bullet points\<newline>\<newline>### Optimizations\<newline>- List any performance optimizations if applicable\<newline>\<newline>### Explanation of Changes Needed\<newline>Here provide a clear explanation of why the changes are needed\<newline>\<newline>### Key Points\<newline>- Summary bullet points of the most important takeaways\<newline>\<newline>If you include code examples, use proper markdown code blocks with language specification (e.g. ```java).''
      else if mode = js ''system_design'' then
        js ''You are a system design interview assistant helping improve design solutions. Analyze these screenshots which include either system design diagrams, potential issues, or requirements, and provide detailed improvement suggestions.\<newline>\<newline>Your response MUST follow this exact structure with these section headers (use ### for headers):\<newline>### Design Issues Identified\<newline>- List each issue as a bullet point with clear explanation\<newline>\<newline>### Architecture Improvements\<newline>- List specific architecture changes needed as bullet points\<newline>\<newline>### Scalability Enhancements\<newline>- Suggest ways to improve scalability\<newline>\<newline>### Data Flow Optimizations\<newline>- Suggest improvements to data flow and processing\<newline>\<newline>### Key Points\<newline>- Summary bullet points of the most important takeaways''
      else if mode = js ''react'' then
        js ''You are a React interview assistant helping debug and improve frontend solutions. Analyze these screenshots which include React code, UI issues, or requirements, and provide detailed debugging help.\<newline>\<newline>Your response MUST follow this exact structure with these section headers (use ### for headers):\<newline>### UI/UX Issues Identified\<newline>- List each issue as a bullet point with clear explanation\<newline>\<newline>### Component Structure Improvements\<newline>- Suggest better component organization if applicable\<newline>\<newline>### State Management Optimizations\<newline>- Suggest improvements to how state is managed\<newline>\<newline>### Performance Enhancements\<newline>- List ways to improve React performance\<newline>\<newline>### Key Points\<newline>- Summary bullet points of the most important takeaways\<newline>\<newline>If you include code examples, use proper markdown code blocks with language specification (e.g. ```jsx).''
      else if mode = js ''sql'' then
        js ''You are a SQL interview assistant helping debug and improve database queries. Analyze these screenshots which include SQL queries, error messages, or requirements, and provide detailed debugging help.\<newline>\<newline>Your response MUST follow this exact structure with these section headers (use ### for headers):\<newline>### Query Issues Identified\<newline>- List each issue as a bullet point with clear explanation\<newline>\<newline>### Query Improvements\<newline>- List specific SQL changes needed as bullet points\<newline>\<newline>### Performance Optimizations\<newline>- Suggest indexes or query rewrites for better performance\<newline>\<newline>### Alternative Approaches\<newline>- Suggest alternative query strategies if applicable\<newline>\<newline>### Key Points\<newline>- Summary bullet points of the most important takeaways\<newline>\<newline>If you include code examples, use proper markdown code blocks with language specification (e.g. ```sql).''
      else if mode = js ''linux'' then
        js ''You are a Linux/kernel interview assistant helping debug and improve command-line solutions. Analyze these screenshots which include commands, error messages, or requirements, and provide detailed debugging help.\<newline>\<newline>Your response MUST follow this exact structure with these section headers (use ### for headers):\<newline>### Command Issues Identified\<newline>- List each issue as a bullet point with clear explanation\<newline>\<newline>### Command Improvements\<newline>- List specific command changes needed as bullet points\<newline>\<newline>### Alternative Commands\<newline>- Suggest alternative commands that might work better\<newline>\<newline>### Verification Steps\<newline>- Suggest how to verify the solution works correctly\<newline>\<newline>### Key Points\<newline>- Summary bullet points of the most important takeaways\<newline>\<newline>If you include code examples, use proper markdown code blocks with language specification (e.g. ```bash).''
      else if mode = js ''certification'' then
        js ''You are a certification exam assistant helping clarify answers and explanations. Analyze these screenshots which include exam questions, answers, or explanations, and provide detailed help.\<newline>\<newline>Your response MUST follow this exact structure with these section headers (use ### for headers):\<newline>### Answer Analysis\<newline>- Explain if the answer is correct or incorrect and why\<newline>\<newline>### Correct Solution\<newline>- Provide the correct answer with explanation\<newline>\<newline>### Key Concepts\<newline>- List the important concepts being tested in this question\<newline>\<newline>### Related Knowledge\<newline>- Provide additional relevant information about the topic\<newline>\<newline>### Study Resources\<newline>- Suggest what to study further on this topic\<newline>\<newline>Ensure your explanations are clear, accurate, and educational.''
      else
        js ''You are a coding interview assistant helping debug and improve solutions. Analyze these screenshots which include either error messages, incorrect outputs, or test cases, and provide detailed debugging help.\<newline>\<newline>Your response MUST follow this exact structure with these section headers (use ### for headers):\<newline>### Issues Identified\<newline>- List each issue as a bullet point with clear explanation\<newline>\<newline>### Specific Improvements and Corrections\<newline>- List specific code changes needed as bullet points\<newline>\<newline>### Optimizations\<newline>- List any performance optimizations if applicable\<newline>\<newline>### Explanation of Changes Needed\<newline>Here provide a clear explanation of why the changes are needed\<newline>\<newline>### Key Points\<newline>- Summary bullet points of the most important takeaways\<newline>\<newline>If you include code examples, use proper markdown code blocks with language specification (e.g. ```java).'')\<close>

definition createDebugUserPromptByMode :: "jsstring \<Rightarrow> problem_info \<Rightarrow> jsstring \<Rightarrow> jsstring" where
  \<open>createDebugUserPromptByMode mode problemInfo language =
     (if mode = js ''coding'' then
        js ''I\'m solving this coding problem: "''
          @ tpl problemInfo ''problem_statement''
          @ js ''" in ''
          @ language
          @ js ''. I need help with debugging or improving my solution. Here are screenshots of my code, the errors or test cases. Please provide a detailed analysis with:\<newline>1. What issues you found in my code\<newline>2. Specific improvements and corrections\<newline>3. Any optimizations that would make the solution better\<newline>4. A clear explanation of the changes needed''
      else if mode = js ''system_design'' then
        js ''I\'m working on this system design problem: "''
          @ tpl problemInfo ''problem_statement''
          @ js ''". I need help with improving my design solution. Here are screenshots of my current design, potential issues, or additional requirements. Please provide a detailed analysis with:\<newline>1. What design issues you identified\<newline>2. Specific architecture improvements\<newline>3. How to enhance scalability\<newline>4. Data flow optimizations''
      else if mode = js ''react'' then
        js ''I\'m implementing this React frontend problem: "''
          @ tpl problemInfo ''problem_statement''
          @ js ''". I need help with debugging or improving my solution. Here are screenshots of my React code, UI issues, or requirements. Please provide a detailed analysis with:\<newline>1. What UI/UX issues you identified\<newline>2. How to improve component structure\<newline>3. Better state management approaches\<newline>4. Performance enhancements''
      else if mode = js ''sql'' then
        js ''I\'m solving this SQL problem: "''
          @ tpl problemInfo ''problem_statement''
          @ js ''". I need help with debugging or improving my query. Here are screenshots of my SQL code, error messages, or requirements. Please provide a detailed analysis with:\<newline>1. What issues you found in my query\<newline>2. Specific improvements and corrections\<newline>3. Any performance optimizations\<newline>4. Alternative query approaches''
      else if mode = js ''linux'' then
        js ''I\'m working on this Linux/kernel problem: "''
          @ tpl problemInfo ''problem_statement''
          @ js ''". I need help with debugging or improving my command-line solution. Here are screenshots of my commands, error messages, or requirements. Please provide a detailed analysis with:\<newline>1. What issues you found in my commands\<newline>2. Specific command improvements\<newline>3. Alternative commands that might work better\<newline>4. How to verify the solution works''
      else if mode = js ''certification'' then
        js ''I\'m studying for a certification exam and encountered this question: "''
          @ tpl problemInfo ''question_text''
          @ js ''". I need help understanding the correct answer. Here are screenshots of the question, answer choices, or my attempt. Please provide a detailed analysis with:\<newline>1. Whether my answer is correct or not and why\<newline>2. The correct solution with explanation\<newline>3. Key concepts being tested\<newline>4. Related knowledge I should know\<newline>5. What I should study further on this topic''
      else
        js ''I need help with debugging or improving my solution. Here are screenshots of my code, the errors or test cases. Please provide a detailed analysis with:\<newline>1. What issues you found\<newline>2. Specific improvements and corrections\<newline>3. Any optimizations that would make the solution better\<newline>4. A clear explanation of the changes needed'')\<close>

section \<open>Model messages (ModelInterface.ts)\<close>

datatype role = System | User | Assistant

text \<open>\<open>MessageContent = TextContent | ImageContent\<close>: a text part carries its text, an
  image part the url of its \<open>image_url\<close>.\<close>

datatype message_content = TextContent jsstring | ImageContent jsstring

text \<open>The \<open>content\<close> field of a message is \<open>string | MessageContent[]\<close>.\<close>

datatype content = Plain jsstring | Parts "message_content list"

record model_message =
  role :: role
  content :: content

text \<open>\<open>ModelRequestOptions\<close>: every field is optional. The signal is the handle of the
  abort controller it belongs to.\<close>

record model_request_options =
  signal :: "nat option"
  maxTokens :: "nat option"
  temperature :: "real option"

record token_usage =
  promptTokens :: "nat option"
  completionTokens :: "nat option"
  totalTokens :: "nat option"

record model_response =
  response_content :: jsstring
  usage :: token_usage

text \<open>What an adapter or a provider's client throws: the message of the error, its
  \<open>status\<close>, the \<open>status\<close> of its \<open>response\<close>, and whether \<open>axios.isCancel\<close> holds of
  it. \<open>new Error(message)\<close> has the message alone.\<close>

record js_error =
  err_message :: jsstring
  err_status :: "nat option"
  err_response_status :: "nat option"
  err_cancel :: bool

definition new_Error :: "jsstring \<Rightarrow> js_error" where
  "new_Error msg =
     \<lparr>err_message = msg, err_status = None, err_response_status = None, err_cancel = False\<rparr>"

section \<open>Provider clients\<close>

text \<open>The two vendor libraries are outside the repository. A client's one operation is
  modelled as a function from the request to what the call yields, an error thrown or a
  reply; an adapter call returns, with its result, the requests it sent, in order.\<close>

record openai_request =
  oa_model :: jsstring
  oa_messages :: "model_message list"
  oa_max_tokens :: "nat option"
  oa_temperature :: real

record openai_reply =
  oa_content :: "jsstring option"
  oa_prompt_tokens :: "nat option"
  oa_completion_tokens :: "nat option"
  oa_total_tokens :: "nat option"

datatype claude_block =
    ClaudeText jsstring
  | ClaudeImage jsstring jsstring jsstring

record claude_message =
  cm_role :: jsstring
  cm_content :: "claude_block list"

record claude_request =
  cl_model :: jsstring
  cl_system :: jsstring
  cl_messages :: "claude_message list"
  cl_max_tokens :: nat
  cl_temperature :: real

record claude_reply =
  cl_text :: jsstring
  cl_input_tokens :: nat
  cl_output_tokens :: nat

record network =
  openai_create :: "openai_request \<Rightarrow> js_error + openai_reply"
  claude_create :: "claude_request \<Rightarrow> js_error + claude_reply"

datatype sent_request = ToOpenAI openai_request | ToClaude claude_request

type_synonym adapter_result = "(js_error + model_response) \<times> sent_request list"

section \<open>Adapters (OpenAIAdapter.ts, ClaudeAdapter.ts)\<close>

text \<open>The tables \<open>OPENAI_MODELS\<close> and \<open>CLAUDE_MODELS\<close>: the model, its \<open>maxTokens\<close> and
  its \<open>supportsVision\<close>.\<close>

definition OPENAI_MODELS :: "(jsstring \<times> nat \<times> bool) list" where
  "OPENAI_MODELS =
     [(js ''gpt-4o'', 128000, True),
      (js ''gpt-4o-mini'', 128000, True),
      (js ''gpt-4-turbo'', 128000, True),
      (js ''gpt-3.5-turbo'', 16385, False)]"

definition CLAUDE_MODELS :: "(jsstring \<times> nat \<times> bool) list" where
  "CLAUDE_MODELS =
     [(js ''claude-3-opus-20240229'', 200000, True),
      (js ''claude-3-sonnet-20240229'', 200000, True),
      (js ''claude-3-haiku-20240307'', 200000, True),
      (js ''claude-3-5-sonnet-20240620'', 200000, True)]"

datatype provider = OpenAI | Claude

text \<open>An adapter object: its class, its key, its model, and whether it has a client
  (\<open>this.client\<close> is not \<open>null\<close>).\<close>

record adapter =
  provider :: provider
  apiKey :: jsstring
  model :: jsstring
  client :: bool

definition models_of :: "provider \<Rightarrow> (jsstring \<times> nat \<times> bool) list" where
  "models_of p = (case p of OpenAI \<Rightarrow> OPENAI_MODELS | Claude \<Rightarrow> CLAUDE_MODELS)"

definition default_model :: "provider \<Rightarrow> jsstring" where
  "default_model p =
     (case p of OpenAI \<Rightarrow> js ''gpt-4o'' | Claude \<Rightarrow> js ''claude-3-sonnet-20240229'')"

definition validateModel :: "provider \<Rightarrow> jsstring \<Rightarrow> jsstring" where
  "validateModel p m = (if m \<in> set (map fst (models_of p)) then m else default_model p)"

text \<open>\<open>initializeClient\<close>: no client without a key. The constructor of the vendor's
  client is taken not to throw for a key that is not empty.\<close>

definition initializeClient :: "adapter \<Rightarrow> adapter" where
  "initializeClient a = a\<lparr>client := (apiKey a \<noteq> [])\<rparr>"

definition new_adapter :: "provider \<Rightarrow> jsstring \<Rightarrow> jsstring \<Rightarrow> adapter" where
  "new_adapter p key m =
     initializeClient \<lparr>provider = p, apiKey = key, model = validateModel p m, client = False\<rparr>"

definition setModel :: "jsstring \<Rightarrow> adapter \<Rightarrow> adapter" where
  "setModel m a = a\<lparr>model := validateModel (provider a) m\<rparr>"

definition setApiKey :: "jsstring \<Rightarrow> adapter \<Rightarrow> adapter" where
  "setApiKey key a = initializeClient (a\<lparr>apiKey := key\<rparr>)"

definition supportsVision :: "adapter \<Rightarrow> bool" where
  "supportsVision a =
     (case map_of (models_of (provider a)) (model a) of
        None \<Rightarrow> False
      | Some info \<Rightarrow> snd info)"

text \<open>The error handler shared by the calls of both adapters: \<open>status\<close> 401 and 429
  become new errors, any other error is thrown again as it is.\<close>

definition rethrow :: "js_error \<Rightarrow> js_error" where
  "rethrow e =
     (if err_status e = Some 401 then new_Error (js ''Invalid API key'')
      else if err_status e = Some 429 then new_Error (js ''Rate limit exceeded or insufficient quota'')
      else e)"

definition unsupported_vision :: "adapter \<Rightarrow> js_error" where
  "unsupported_vision a =
     new_Error (js ''Model '' @ model a @ js '' does not support vision capabilities'')"

subsection \<open>OpenAI\<close>

text \<open>The request that \<open>complete\<close> and \<open>vision\<close> both send, and what they make of the
  reply; the signal of the options is not passed on.\<close>

definition openai_send ::
  "network \<Rightarrow> adapter \<Rightarrow> model_message list \<Rightarrow> model_request_options \<Rightarrow> adapter_result" where
  "openai_send net a msgs options =
     (let req = \<lparr>oa_model = model a, oa_messages = msgs, oa_max_tokens = maxTokens options,
                 oa_temperature = (case temperature options of None \<Rightarrow> 0.7 | Some t \<Rightarrow> t)\<rparr>
      in case openai_create net req of
           Inl e \<Rightarrow> (Inl (rethrow e), [ToOpenAI req])
         | Inr reply \<Rightarrow>
             (Inr \<lparr>response_content = (case oa_content reply of None \<Rightarrow> [] | Some t \<Rightarrow> t),
                   usage = \<lparr>promptTokens = oa_prompt_tokens reply,
                             completionTokens = oa_completion_tokens reply,
                             totalTokens = oa_total_tokens reply\<rparr>\<rparr>,
              [ToOpenAI req]))"

definition openai_complete ::
  "network \<Rightarrow> adapter \<Rightarrow> model_message list \<Rightarrow> model_request_options \<Rightarrow> adapter_result" where
  "openai_complete net a msgs options =
     (if \<not> client a then (Inl (new_Error (js ''OpenAI client not initialized'')), [])
      else openai_send net a msgs options)"

definition openai_vision ::
  "network \<Rightarrow> adapter \<Rightarrow> model_message list \<Rightarrow> model_request_options \<Rightarrow> adapter_result" where
  "openai_vision net a msgs options =
     (if \<not> client a then (Inl (new_Error (js ''OpenAI client not initialized'')), [])
      else if \<not> supportsVision a then (Inl (unsupported_vision a), [])
      else openai_send net a msgs options)"

subsection \<open>Claude\<close>

definition is_text :: "message_content \<Rightarrow> bool" where
  "is_text item = (case item of TextContent _ \<Rightarrow> True | ImageContent _ \<Rightarrow> False)"

definition item_text :: "message_content \<Rightarrow> jsstring" where
  "item_text item = (case item of TextContent t \<Rightarrow> t | ImageContent _ \<Rightarrow> [])"

text \<open>The system prompt taken from a system message: the string itself, or the text
  parts joined by a line break.\<close>

definition system_text :: "content \<Rightarrow> jsstring" where
  "system_text c =
     (case c of
        Plain s \<Rightarrow> s
      | Parts items \<Rightarrow> join (js ''\<newline>'') (map item_text (filter is_text items)))"

definition convert_item :: "message_content \<Rightarrow> claude_block" where
  "convert_item item =
     (case item of
        TextContent t \<Rightarrow> ClaudeText t
      | ImageContent url \<Rightarrow>
          ClaudeImage (js ''base64'') (js ''image/png'')
            (replace_first (js ''data:image/png;base64,'') [] url))"

definition convert_content :: "content \<Rightarrow> claude_block list" where
  "convert_content c =
     (case c of
        Parts items \<Rightarrow> map convert_item items
      | Plain s \<Rightarrow> [ClaudeText s])"

definition convert_message :: "model_message \<Rightarrow> claude_message" where
  "convert_message msg =
     \<lparr>cm_role = (if role msg = Assistant then js ''assistant'' else js ''user''),
      cm_content = convert_content (content msg)\<rparr>"

text \<open>\<open>convertToClaudeMessages\<close> returns \<open>{messages, system}\<close>.\<close>

record claude_conversion =
  messages :: "claude_message list"
  system :: jsstring

definition convertToClaudeMessages :: "model_message list \<Rightarrow> claude_conversion" where
  "convertToClaudeMessages msgs =
     (let systemMessages = filter (\<lambda>msg. role msg = System) msgs;
          systemPrompt = (case systemMessages of
                            [] \<Rightarrow> []
                          | m # _ \<Rightarrow> system_text (content m));
          nonSystemMessages = filter (\<lambda>msg. role msg \<noteq> System) msgs
      in \<lparr>messages = map convert_message nonSystemMessages, system = systemPrompt\<rparr>)"

definition claude_complete ::
  "network \<Rightarrow> adapter \<Rightarrow> model_message list \<Rightarrow> model_request_options \<Rightarrow> adapter_result" where
  "claude_complete net a msgs options =
     (if \<not> client a then (Inl (new_Error (js ''Claude client not initialized'')), [])
      else
        (let conv = convertToClaudeMessages msgs;
             req = \<lparr>cl_model = model a, cl_system = system conv, cl_messages = messages conv,
                    cl_max_tokens = (case maxTokens options of
                                       None \<Rightarrow> 4000
                                     | Some n \<Rightarrow> if n = 0 then 4000 else n),
                    cl_temperature = (case temperature options of None \<Rightarrow> 0.7 | Some t \<Rightarrow> t)\<rparr>
         in case claude_create net req of
              Inl e \<Rightarrow> (Inl (rethrow e), [ToClaude req])
            | Inr reply \<Rightarrow>
                (Inr \<lparr>response_content = cl_text reply,
                      usage = \<lparr>promptTokens = Some (cl_input_tokens reply),
                                completionTokens = Some (cl_output_tokens reply),
                                totalTokens =
                                  Some (cl_input_tokens reply + cl_output_tokens reply)\<rparr>\<rparr>,
                 [ToClaude req])))"

definition claude_vision ::
  "network \<Rightarrow> adapter \<Rightarrow> model_message list \<Rightarrow> model_request_options \<Rightarrow> adapter_result" where
  "claude_vision net a msgs options =
     (if \<not> supportsVision a then (Inl (unsupported_vision a), [])
      else claude_complete net a msgs options)"

subsection \<open>The methods of the interface, by the class of the adapter\<close>

definition complete ::
  "network \<Rightarrow> adapter \<Rightarrow> model_message list \<Rightarrow> model_request_options \<Rightarrow> adapter_result" where
  "complete net a msgs options =
     (case provider a of
        OpenAI \<Rightarrow> openai_complete net a msgs options
      | Claude \<Rightarrow> claude_complete net a msgs options)"

definition vision ::
  "network \<Rightarrow> adapter \<Rightarrow> model_message list \<Rightarrow> model_request_options \<Rightarrow> adapter_result" where
  "vision net a msgs options =
     (case provider a of
        OpenAI \<Rightarrow> openai_vision net a msgs options
      | Claude \<Rightarrow> claude_vision net a msgs options)"

section \<open>Adapter factory and configuration (ModelFactory.ts, ConfigHelper.ts)\<close>

text \<open>\<open>createModelAdapter\<close>: a \<open>switch\<close> on the provider of the configuration, which
  throws for a provider it does not know.\<close>

definition createModelAdapter :: "jsstring \<Rightarrow> jsstring \<Rightarrow> jsstring \<Rightarrow> js_error + adapter" where
  "createModelAdapter prov key m =
     (if prov = js ''openai'' then Inr (new_adapter OpenAI key m)
      else if prov = js ''claude'' then Inr (new_adapter Claude key m)
      else Inl (new_Error (js ''Unsupported model provider: '' @ prov)))"

record provider_config =
  pc_apiKey :: jsstring
  pc_model :: jsstring

text \<open>The configuration as \<open>loadConfig\<close> returns it, with the fields the pipeline
  reads.\<close>

record config =
  activeProvider :: jsstring
  providers :: "jsstring \<rightharpoonup> provider_config"
  language :: jsstring
  interviewMode :: jsstring

text \<open>\<open>ConfigHelper.getInterviewMode\<close> and, on top of it, the one of the processing
  helper: \<open>config.interviewMode || "coding"\<close>, then \<open>... || "coding"\<close> again.\<close>

definition config_getInterviewMode :: "config \<Rightarrow> jsstring" where
  "config_getInterviewMode cfg = (if interviewMode cfg = [] then js ''coding'' else interviewMode cfg)"

definition getInterviewMode :: "config \<Rightarrow> jsstring" where
  "getInterviewMode cfg =
     (if config_getInterviewMode cfg = [] then js ''coding'' else config_getInterviewMode cfg)"

section \<open>Processing helper (ProcessingHelper.ts)\<close>

datatype view = Queue | Solutions

text \<open>What the helper sends to the window: the events of \<open>PROCESSING_EVENTS\<close>, and
  \<open>processing-status\<close> with its message and its progress. \<open>INITIAL_SOLUTION_ERROR\<close> is
  sent with a message, and once with the error object itself
  (\<open>INITIAL_SOLUTION_ERROR_object\<close>).\<close>

datatype event =
    API_KEY_INVALID
  | INITIAL_START
  | NO_SCREENSHOTS
  | INITIAL_SOLUTION_ERROR jsstring
  | INITIAL_SOLUTION_ERROR_object js_error
  | PROBLEM_EXTRACTED "problem_info option"
  | SOLUTION_SUCCESS solution_data
  | DEBUG_START
  | DEBUG_SUCCESS solution_data
  | DEBUG_ERROR jsstring
  | ProcessingStatus jsstring nat

text \<open>The state the helper works on: its own fields, and what it reaches through
  \<open>deps\<close>, the screenshot helper and the configuration helper. An abort controller is a
  handle; \<open>aborted\<close> holds the handles whose \<open>abort()\<close> was called, \<open>controllers\<close> counts
  the controllers made so far. \<open>mainWindow\<close> says that there is a window and that it is
  not destroyed. The queues hold the screenshots as the data read from their files, and
  \<open>load_error\<close> is what reading the files throws, if it throws.\<close>

record helper =
  modelAdapter :: "adapter option"
  currentProcessingAbortController :: "nat option"
  currentExtraProcessingAbortController :: "nat option"
  aborted :: "nat set"
  controllers :: nat
  problemInfo :: "problem_info option"
  hasDebugged :: bool
  view :: view
  screenshotQueue :: "jsstring list"
  extraScreenshotQueue :: "jsstring list"
  stored_config :: config
  window_language :: "jsstring option"
  mainWindow :: bool
  load_error :: "js_error option"

definition initializeModelAdapter :: "helper \<Rightarrow> helper" where
  "initializeModelAdapter h =
     (let config = stored_config h;
          activeProvider = activeProvider config
      in case providers config activeProvider of
           None \<Rightarrow> h\<lparr>modelAdapter := None\<rparr>
         | Some providerConfig \<Rightarrow>
             if pc_apiKey providerConfig \<noteq> [] then
               (case createModelAdapter activeProvider (pc_apiKey providerConfig)
                       (pc_model providerConfig) of
                  Inr a \<Rightarrow> h\<lparr>modelAdapter := Some a\<rparr>
                | Inl _ \<Rightarrow> h\<lparr>modelAdapter := None\<rparr>)
             else h\<lparr>modelAdapter := None\<rparr>)"

text \<open>\<open>getLanguage\<close>: the language of the configuration, else the one of the window,
  else \<open>python\<close>.\<close>

definition getLanguage :: "helper \<Rightarrow> jsstring" where
  "getLanguage h =
     (if language (stored_config h) \<noteq> [] then language (stored_config h)
      else if mainWindow h then
        (case window_language h of None \<Rightarrow> js ''python'' | Some l \<Rightarrow> l)
      else js ''python'')"

subsection \<open>Cancelling\<close>

text \<open>\<open>cancelOngoingRequests\<close>, with the events it sends.\<close>

definition cancelOngoingRequests :: "helper \<Rightarrow> helper \<times> event list" where
  "cancelOngoingRequests h =
     (let h1 = (case currentProcessingAbortController h of
                  None \<Rightarrow> h
                | Some c \<Rightarrow> h\<lparr>aborted := insert c (aborted h),
                               currentProcessingAbortController := None\<rparr>);
          h2 = (case currentExtraProcessingAbortController h1 of
                  None \<Rightarrow> h1
                | Some c \<Rightarrow> h1\<lparr>aborted := insert c (aborted h1),
                                currentExtraProcessingAbortController := None\<rparr>);
          wasCancelled = (currentProcessingAbortController h \<noteq> None
                          \<or> currentExtraProcessingAbortController h \<noteq> None);
          h3 = h2\<lparr>hasDebugged := False, problemInfo := None\<rparr>
      in (h3, if wasCancelled \<and> mainWindow h then [NO_SCREENSHOTS] else []))"

subsection \<open>What happens while a call is awaited\<close>

text \<open>The helper suspends at its adapter calls. Between the start of a call and its
  result the configuration can be updated, on which the handler registered in the
  constructor runs \<open>initializeModelAdapter\<close>, and the requests can be cancelled.\<close>

datatype action = ConfigUpdated config | CancelRequests

definition apply_action :: "action \<Rightarrow> helper \<Rightarrow> helper \<times> event list" where
  "apply_action a h =
     (case a of
        ConfigUpdated cfg \<Rightarrow> (initializeModelAdapter (h\<lparr>stored_config := cfg\<rparr>), [])
      | CancelRequests \<Rightarrow> cancelOngoingRequests h)"

fun interfere :: "action list \<Rightarrow> helper \<Rightarrow> helper \<times> event list" where
  "interfere [] h = (h, [])"
| "interfere (a # as) h =
     (let (h1, ev1) = apply_action a h; (h2, ev2) = interfere as h1 in (h2, ev1 @ ev2))"

subsection \<open>A run on the main queue\<close>

text \<open>The messages of the two calls.\<close>

definition extraction_messages :: "jsstring \<Rightarrow> jsstring \<Rightarrow> jsstring list \<Rightarrow> model_message list" where
  "extraction_messages mode lang imageDataList =
     [\<lparr>role = System, content = Plain (createSystemPromptByMode mode)\<rparr>,
      \<lparr>role = User,
        content = Parts
          (TextContent (js ''Extract the problem details from these screenshots. Return in JSON format. Preferred coding language is '' @ lang @ js ''.'')
           # map (\<lambda>data. ImageContent (js ''data:image/png;base64,'' @ data)) imageDataList)\<rparr>]"

definition solution_messages :: "jsstring \<Rightarrow> problem_info \<Rightarrow> jsstring \<Rightarrow> model_message list" where
  "solution_messages mode info lang =
     [\<lparr>role = System,
        content = Plain (js ''You are an expert coding interview assistant. Provide clear, optimal solutions with detailed explanations.'')\<rparr>,
      \<lparr>role = User, content = Plain (createSolutionPromptByMode mode info lang)\<rparr>]"

definition call_options :: "nat \<Rightarrow> model_request_options" where
  "call_options sig = \<lparr>signal = Some sig, maxTokens = Some 4000, temperature = Some 0.2\<rparr>"

text \<open>\<open>/```json|```/g\<close>, which the extraction removes from the answer before parsing it.\<close>

definition json_fence_rx :: rx where
  "json_fence_rx = Alt (Str (js ''```json'')) (Str (js ''```''))"

text \<open>The error handlers: the \<open>catch\<close> of \<open>processScreenshotsHelper\<close> and the one of
  \<open>generateSolutionsHelper\<close>, each giving the error message of a failed result.\<close>

definition helper_catch :: "js_error \<Rightarrow> jsstring" where
  "helper_catch e =
     (if err_cancel e then js ''Processing was canceled by the user.''
      else if err_response_status e = Some 401 then
        js ''Invalid API key. Please check your settings.''
      else if err_response_status e = Some 429 then
        js ''API rate limit exceeded or insufficient credits. Please try again later.''
      else if err_response_status e = Some 500 then js ''Server error. Please try again later.''
      else if err_message e \<noteq> [] then err_message e
      else js ''Failed to process screenshots. Please try again.'')"

definition solutions_catch :: "js_error \<Rightarrow> jsstring" where
  "solutions_catch e =
     (if err_response_status e = Some 401 then js ''Invalid API key. Please check your settings.''
      else if err_response_status e = Some 429 then
        js ''API rate limit exceeded or insufficient credits. Please try again later.''
      else if err_message e \<noteq> [] then err_message e
      else js ''Failed to generate solution'')"

text \<open>A failed result of \<open>generateSolutionsHelper\<close> is thrown by
  \<open>processScreenshotsHelper\<close> as a new error, which its own \<open>catch\<close> turns into its
  failed result.\<close>

definition solutions_failed :: "jsstring \<Rightarrow> jsstring" where
  "solutions_failed err =
     helper_catch (new_Error (if err \<noteq> [] then err else js ''Failed to generate solutions''))"

text \<open>What \<open>processScreenshots\<close> does with the result of \<open>processScreenshotsHelper\<close>, and
  its \<open>finally\<close>.\<close>

definition run_failed :: "helper \<Rightarrow> jsstring \<Rightarrow> helper \<times> event list" where
  "run_failed h err =
     (h\<lparr>view := Queue, currentProcessingAbortController := None\<rparr>,
      [if js_includes err (js ''API Key'') \<or> js_includes err (js ''API key'')
       then API_KEY_INVALID else INITIAL_SOLUTION_ERROR err])"

text \<open>The \<open>catch\<close> of \<open>processScreenshots\<close> itself, for what is thrown outside
  \<open>processScreenshotsHelper\<close>, and its \<open>finally\<close>.\<close>

definition run_threw :: "helper \<Rightarrow> js_error \<Rightarrow> helper \<times> event list" where
  "run_threw h e =
     (h\<lparr>view := Queue, currentProcessingAbortController := None\<rparr>,
      [INITIAL_SOLUTION_ERROR_object e,
       INITIAL_SOLUTION_ERROR
         (if err_cancel e then js ''Processing was canceled by the user.''
          else if err_message e \<noteq> [] then err_message e
          else js ''Server error. Please try again.'')])"

definition run_succeeded :: "helper \<Rightarrow> solution_data \<Rightarrow> helper \<times> event list" where
  "run_succeeded h d =
     (h\<lparr>view := Solutions, currentProcessingAbortController := None\<rparr>, [SOLUTION_SUCCESS d])"

text \<open>A call that a run has started: the adapter it was started on (the value of
  \<open>this.modelAdapter\<close> when the call expression is evaluated), its messages and options,
  and the interview mode the run read at its start.\<close>

record pending_call =
  on_adapter :: adapter
  with_messages :: "model_message list"
  with_options :: model_request_options
  run_mode :: jsstring

datatype phase = Finished helper "event list" | Calling helper "event list" pending_call

text \<open>In the view \<open>queue\<close>: from the check of the queue in \<open>processScreenshots\<close> to
  the call of \<open>vision\<close> in \<open>processScreenshotsHelper\<close>.\<close>

definition primary_begin :: "helper \<Rightarrow> phase" where
  "primary_begin h1 =
     (if screenshotQueue h1 = [] then Finished h1 [INITIAL_START, NO_SCREENSHOTS]
      else
        (let c = controllers h1;
             h2 = h1\<lparr>currentProcessingAbortController := Some c, controllers := Suc c\<rparr>
         in case load_error h2 of
              Some e \<Rightarrow> (let (h', ev) = run_threw h2 e in Finished h' (INITIAL_START # ev))
            | None \<Rightarrow>
                (let lang = getLanguage h2;
                     interviewMode = getInterviewMode (stored_config h2);
                     h3 = (if modelAdapter h2 = None then initializeModelAdapter h2 else h2)
                 in case modelAdapter h3 of
                      None \<Rightarrow>
                        (let (h', ev) = run_failed h3
                           (js ''API key not configured or invalid. Please check your settings.'')
                         in Finished h' (INITIAL_START # ev))
                    | Some a \<Rightarrow>
                        Calling h3
                          [INITIAL_START,
                           ProcessingStatus (js ''Analyzing problem from screenshots...'') 20]
                          \<lparr>on_adapter = a,
                           with_messages =
                             extraction_messages interviewMode lang (screenshotQueue h3),
                           with_options = call_options c,
                           run_mode = interviewMode\<rparr>)))"

text \<open>From the result of \<open>vision\<close> to the call of \<open>complete\<close> in
  \<open>generateSolutionsHelper\<close>. \<open>json_parse\<close> is \<open>JSON.parse\<close>: \<open>None\<close> when it throws,
  \<open>Some None\<close> for a value that is not truthy, else the fields of the value.\<close>

definition primary_after_vision ::
  "(jsstring \<Rightarrow> problem_info option option) \<Rightarrow> helper \<Rightarrow> pending_call
     \<Rightarrow> js_error + model_response \<Rightarrow> phase" where
  "primary_after_vision json_parse h call outcome =
     (case outcome of
        Inl e \<Rightarrow> (let (h', ev) = run_failed h (helper_catch e) in Finished h' ev)
      | Inr extractionResponse \<Rightarrow>
          (let jsonText = trim (rx_remove_g False json_fence_rx (response_content extractionResponse))
           in case json_parse jsonText of
                None \<Rightarrow>
                  (let (h', ev) = run_failed h
                     (js ''Failed to parse problem information. Please try again or use clearer screenshots.'')
                   in Finished h' ev)
              | Some parsed \<Rightarrow>
                  (let h1 = h\<lparr>problemInfo := parsed\<rparr>;
                       ev1 = [ProcessingStatus
                                (js ''Problem analyzed successfully. Preparing to generate solution...'') 40]
                   in case parsed of
                        None \<Rightarrow>
                          (let (h', ev) = run_failed h1
                             (solutions_failed (solutions_catch (new_Error (js ''No problem info available''))))
                           in Finished h' (ev1 @ [PROBLEM_EXTRACTED None] @ ev))
                      | Some info \<Rightarrow>
                          (case modelAdapter h1 of
                             None \<Rightarrow>
                               (let (h', ev) = run_failed h1
                                  (solutions_failed (js ''API key not configured. Please check your settings.''))
                                in Finished h' (ev1 @ [PROBLEM_EXTRACTED (Some info)] @ ev))
                           | Some a \<Rightarrow>
                               Calling h1
                                 (ev1 @ [PROBLEM_EXTRACTED (Some info),
                                   ProcessingStatus
                                     (js ''Creating optimal solution with detailed explanations...'') 60])
                                 \<lparr>on_adapter = a,
                                  with_messages = solution_messages (run_mode call) info (getLanguage h1),
                                  with_options = with_options call,
                                  run_mode = run_mode call\<rparr>))))"

text \<open>From the result of \<open>complete\<close> to the end of \<open>processScreenshots\<close>.\<close>

definition primary_after_complete ::
  "helper \<Rightarrow> pending_call \<Rightarrow> js_error + model_response \<Rightarrow> helper \<times> event list" where
  "primary_after_complete h call outcome =
     (case outcome of
        Inl e \<Rightarrow> run_failed h (solutions_failed (solutions_catch e))
      | Inr solutionResponse \<Rightarrow>
          (case processSolutionResponse (response_content solutionResponse) (run_mode call) of
             Inl err \<Rightarrow> run_failed h (solutions_failed err)
           | Inr d \<Rightarrow>
               (let h1 = h\<lparr>extraScreenshotQueue := []\<rparr>;
                    (h2, ev) = run_succeeded h1 d
                in (h2, [ProcessingStatus (js ''Solution generated successfully'') 100,
                         SOLUTION_SUCCESS d] @ ev))))"

subsection \<open>A run on the extra queue\<close>

definition debug_messages ::
  "jsstring \<Rightarrow> problem_info \<Rightarrow> jsstring \<Rightarrow> jsstring list \<Rightarrow> model_message list" where
  "debug_messages mode info lang imageDataList =
     [\<lparr>role = System, content = Plain (createDebugSystemPromptByMode mode)\<rparr>,
      \<lparr>role = User,
        content = Parts
          (TextContent (createDebugUserPromptByMode mode info lang)
           # map (\<lambda>data. ImageContent (js ''data:image/png;base64,'' @ data)) imageDataList)\<rparr>]"

definition debug_catch :: "js_error \<Rightarrow> jsstring" where
  "debug_catch e =
     (if err_response_status e = Some 401 then js ''Invalid API key. Please check your settings.''
      else if err_response_status e = Some 429 then
        js ''API rate limit exceeded or insufficient credits. Please try again later.''
      else if err_message e \<noteq> [] then err_message e
      else js ''Failed to process debug request'')"

definition debug_failed :: "helper \<Rightarrow> jsstring \<Rightarrow> helper \<times> event list" where
  "debug_failed h err =
     (h\<lparr>currentExtraProcessingAbortController := None\<rparr>, [DEBUG_ERROR err])"

text \<open>The \<open>catch\<close> of \<open>processScreenshots\<close> in the view \<open>solutions\<close>.\<close>

definition debug_threw :: "helper \<Rightarrow> js_error \<Rightarrow> helper \<times> event list" where
  "debug_threw h e =
     (h\<lparr>currentExtraProcessingAbortController := None\<rparr>,
      [DEBUG_ERROR (if err_cancel e then js ''Extra processing was canceled by the user.''
                    else err_message e)])"

text \<open>In the view \<open>solutions\<close>: from the check of the extra queue to the call of
  \<open>vision\<close> in \<open>processExtraScreenshotsHelper\<close>.\<close>

definition debug_begin :: "helper \<Rightarrow> phase" where
  "debug_begin h1 =
     (if extraScreenshotQueue h1 = [] then Finished h1 [NO_SCREENSHOTS]
      else
        (let c = controllers h1;
             h2 = h1\<lparr>currentExtraProcessingAbortController := Some c, controllers := Suc c\<rparr>
         in case load_error h2 of
              Some e \<Rightarrow> (let (h', ev) = debug_threw h2 e in Finished h' (DEBUG_START # ev))
            | None \<Rightarrow>
                (let lang = getLanguage h2;
                     interviewMode = getInterviewMode (stored_config h2)
                 in case problemInfo h2 of
                      None \<Rightarrow>
                        (let (h', ev) = debug_failed h2
                           (debug_catch (new_Error (js ''No problem info available'')))
                         in Finished h' (DEBUG_START # ev))
                    | Some info \<Rightarrow>
                        (case modelAdapter h2 of
                           None \<Rightarrow>
                             (let (h', ev) = debug_failed h2
                                (js ''API key not configured. Please check your settings.'')
                              in Finished h' (DEBUG_START # ev))
                         | Some a \<Rightarrow>
                             Calling h2
                               [DEBUG_START,
                                ProcessingStatus (js ''Processing debug screenshots...'') 30,
                                ProcessingStatus
                                  (js ''Analyzing code and generating debug feedback...'') 60]
                               \<lparr>on_adapter = a,
                                with_messages = debug_messages interviewMode info lang
                                                  (screenshotQueue h2 @ extraScreenshotQueue h2),
                                with_options = call_options c,
                                run_mode = interviewMode\<rparr>))))"

text \<open>From the result of \<open>vision\<close> to the end of \<open>processScreenshots\<close>.\<close>

definition debug_after_vision :: "helper \<Rightarrow> js_error + model_response \<Rightarrow> helper \<times> event list" where
  "debug_after_vision h outcome =
     (case outcome of
        Inl e \<Rightarrow> debug_failed h (debug_catch e)
      | Inr debugResponse \<Rightarrow>
          (let response = debug_response (response_content debugResponse)
           in (h\<lparr>hasDebugged := True, currentExtraProcessingAbortController := None\<rparr>,
               [ProcessingStatus (js ''Debug analysis complete'') 100, DEBUG_SUCCESS response])))"

subsection \<open>\<open>processScreenshots\<close>\<close>

text \<open>The whole run: the helper's steps, the adapter calls between them, and the actions
  \<open>during_first\<close> and \<open>during_second\<close> that happen while the first and the second call
  are awaited. The record of a run has the final state, the events in the order they were
  sent, and the adapter of each call with the requests the call sent.\<close>

record run =
  final :: helper
  events :: "event list"
  calls :: "(adapter \<times> sent_request list) list"

definition primary_run ::
  "network \<Rightarrow> (jsstring \<Rightarrow> problem_info option option) \<Rightarrow> action list \<Rightarrow> action list
     \<Rightarrow> helper \<Rightarrow> run" where
  "primary_run net json_parse during_first during_second h =
     (case primary_begin h of
        Finished h' ev \<Rightarrow> \<lparr>final = h', events = ev, calls = []\<rparr>
      | Calling h1 ev1 call1 \<Rightarrow>
          (let (outcome1, sent1) =
                 vision net (on_adapter call1) (with_messages call1) (with_options call1);
               (h2, ev2) = interfere during_first h1
           in case primary_after_vision json_parse h2 call1 outcome1 of
                Finished h' ev \<Rightarrow>
                  \<lparr>final = h', events = ev1 @ ev2 @ ev, calls = [(on_adapter call1, sent1)]\<rparr>
              | Calling h3 ev3 call2 \<Rightarrow>
                  (let (outcome2, sent2) =
                         complete net (on_adapter call2) (with_messages call2) (with_options call2);
                       (h4, ev4) = interfere during_second h3;
                       (h5, ev5) = primary_after_complete h4 call2 outcome2
                   in \<lparr>final = h5, events = ev1 @ ev2 @ ev3 @ ev4 @ ev5,
                        calls = [(on_adapter call1, sent1), (on_adapter call2, sent2)]\<rparr>)))"

definition debug_run :: "network \<Rightarrow> action list \<Rightarrow> helper \<Rightarrow> run" where
  "debug_run net during_first h =
     (case debug_begin h of
        Finished h' ev \<Rightarrow> \<lparr>final = h', events = ev, calls = []\<rparr>
      | Calling h1 ev1 call1 \<Rightarrow>
          (let (outcome1, sent1) =
                 vision net (on_adapter call1) (with_messages call1) (with_options call1);
               (h2, ev2) = interfere during_first h1;
               (h3, ev3) = debug_after_vision h2 outcome1
           in \<lparr>final = h3, events = ev1 @ ev2 @ ev3, calls = [(on_adapter call1, sent1)]\<rparr>))"

definition processScreenshots ::
  "network \<Rightarrow> (jsstring \<Rightarrow> problem_info option option) \<Rightarrow> action list \<Rightarrow> action list
     \<Rightarrow> helper \<Rightarrow> run" where
  "processScreenshots net json_parse during_first during_second h0 =
     (if \<not> mainWindow h0 then \<lparr>final = h0, events = [], calls = []\<rparr>
      else
        (let h1 = (if modelAdapter h0 = None then initializeModelAdapter h0 else h0) in
         if modelAdapter h1 = None then \<lparr>final = h1, events = [API_KEY_INVALID], calls = []\<rparr>
         else if view h1 = Queue then primary_run net json_parse during_first during_second h1
         else debug_run net during_first h1))"

section \<open>Running the matcher\<close>

text \<open>
  The list of all the ways a pattern matches is the definition; what a run needs is its
  first element. \<open>mk ci r s k\<close> is the first way to match \<open>r\<close> from \<open>s\<close> that the
  continuation \<open>k\<close> accepts.
\<close>

fun find_first :: "('a \<Rightarrow> 'b option) \<Rightarrow> 'a list \<Rightarrow> 'b option" where
  "find_first k [] = None"
| "find_first k (x # xs) = (case k x of Some y \<Rightarrow> Some y | None \<Rightarrow> find_first k xs)"

definition mk :: "bool \<Rightarrow> rx \<Rightarrow> mstate \<Rightarrow> (mstate \<Rightarrow> 'a option) \<Rightarrow> 'a option" where
  "mk ci r s k = find_first k (ms ci r s)"

section \<open>Patterns with a capture in every match\<close>

text \<open>A pattern whose every match goes through its group, and a state of the matcher in
  which the group has captured.\<close>

fun sets_capture :: "rx \<Rightarrow> bool" where
  "sets_capture (Grp r) = True"
| "sets_capture (Seq r1 r2) = (sets_capture r1 \<or> sets_capture r2)"
| "sets_capture (Alt r1 r2) = (sets_capture r1 \<and> sets_capture r2)"
| "sets_capture _ = False"

definition has_capture :: "mstate \<Rightarrow> bool" where
  "has_capture s = (fst (snd s) \<noteq> None)"

section \<open>Names used in the statements\<close>

text \<open>The modes that \<open>get-interview-modes\<close> lists and the \<open>switch\<close> statements name;
  the ones among them that do not parse as the coding mode; the fence of a code block.\<close>

definition recognized_modes :: "jsstring list" where
  "recognized_modes =
     [js ''coding'', js ''system_design'', js ''react'', js ''sql'', js ''linux'',
      js ''certification'']"

definition other_modes :: "jsstring list" where
  "other_modes =
     [js ''system_design'', js ''react'', js ''sql'', js ''linux'', js ''certification'']"

definition fence :: jsstring where
  "fence = js ''```''"

text \<open>Plain string functions, with which the statements say what the patterns of the
  parser find. \<open>split_at ci l t\<close> is the text before the first occurrence of \<open>l\<close> in \<open>t\<close>
  and the text after it, \<open>None\<close> when \<open>l\<close> does not occur; \<open>ci\<close> is whether case is
  ignored. \<open>mentions t l\<close> is whether \<open>l\<close> occurs in \<open>t\<close>, ignoring case.\<close>

fun split_at :: "bool \<Rightarrow> jsstring \<Rightarrow> jsstring \<Rightarrow> (jsstring \<times> jsstring) option" where
  "split_at ci l [] = (if l = [] then Some ([], []) else None)"
| "split_at ci l (c # t) =
     (if starts_with ci l (c # t) then Some ([], drop (length l) (c # t))
      else case split_at ci l t of None \<Rightarrow> None | Some (p, r) \<Rightarrow> Some (c # p, r))"

definition mentions :: "jsstring \<Rightarrow> string \<Rightarrow> bool" where
  "mentions t l = (split_at True (js l) t \<noteq> None)"

text \<open>A text without the first of the tags that it starts with, if it starts with one.\<close>

fun strip_tag :: "jsstring list \<Rightarrow> jsstring \<Rightarrow> jsstring" where
  "strip_tag [] v = v"
| "strip_tag (l # ls) v = (if starts_with False l v then drop (length l) v else strip_tag ls v)"

text \<open>The first fenced block of a text: what stands between the first fence, with the tag
  after it, and the next fence, trimmed; \<open>None\<close> when the text has no fence, or none after
  its first one.\<close>

definition first_block :: "(jsstring \<Rightarrow> jsstring) \<Rightarrow> jsstring \<Rightarrow> jsstring option" where
  "first_block after_tag t =
     (case split_at False fence t of
        None \<Rightarrow> None
      | Some (pre, rest) \<Rightarrow>
          (case split_at False fence (after_tag rest) of
             None \<Rightarrow> None
           | Some (body, post) \<Rightarrow> Some (trim body)))"

text \<open>The text after the first place of a text where one of the labels stands, ignoring
  case; and the labelled section: that text up to the first occurrence of \<open>stop\<close>, or all
  of it when \<open>stop\<close> does not occur, trimmed.\<close>

fun after_first_label :: "jsstring list \<Rightarrow> jsstring \<Rightarrow> jsstring option" where
  "after_first_label ls [] = None"
| "after_first_label ls (c # t) =
     (case find (\<lambda>l. starts_with True l (c # t)) ls of
        Some l \<Rightarrow> Some (drop (length l) (c # t))
      | None \<Rightarrow> after_first_label ls t)"

definition labelled_section :: "jsstring list \<Rightarrow> jsstring \<Rightarrow> jsstring \<Rightarrow> jsstring option" where
  "labelled_section ls stop t =
     (case after_first_label ls t of
        None \<Rightarrow> None
      | Some rest \<Rightarrow>
          Some (trim (case split_at True stop rest of None \<Rightarrow> rest | Some (body, post) \<Rightarrow> body)))"

text \<open>The part of a fence pattern after its opening fence,
  \<open>TAG\s*([\s\S]*?)```\<close>, for the tag of the mode; and the state in which a group
  \<open>([\s\S]*?)\<close> before \<open>(?:stop|$)\<close> ends, from a state \<open>s\<close>: at the first occurrence of
  \<open>stop\<close>, or at the end of the input.\<close>

definition fence_tail :: "rx \<Rightarrow> rx" where
  "fence_tail TAG = Seq TAG (Seq (Star (Chr cls_s)) (Seq (Grp (Lazy any_unit)) (Str fence)))"

definition section_end :: "jsstring \<Rightarrow> mstate \<Rightarrow> mstate" where
  "section_end stop s =
     (case split_at True stop (snd (snd s)) of
        None \<Rightarrow> (fst s \<and> snd (snd s) = [], Some (snd (snd s)), [])
      | Some (body, post) \<Rightarrow> (False, Some body, post))"

text \<open>The events that end a run with a result, and with a failure.\<close>

definition is_success :: "event \<Rightarrow> bool" where
  "is_success ev = (case ev of SOLUTION_SUCCESS _ \<Rightarrow> True | DEBUG_SUCCESS _ \<Rightarrow> True | _ \<Rightarrow> False)"

definition is_failure :: "event \<Rightarrow> bool" where
  "is_failure ev =
     (case ev of
        INITIAL_SOLUTION_ERROR _ \<Rightarrow> True
      | INITIAL_SOLUTION_ERROR_object _ \<Rightarrow> True
      | DEBUG_ERROR _ \<Rightarrow> True
      | API_KEY_INVALID \<Rightarrow> True
      | _ \<Rightarrow> False)"

section \<open>Example states\<close>

text \<open>A configuration with keys for both providers, OpenAI active, and the same with Claude
  active; a helper with an adapter for the first, one screenshot in its queue and no run
  in progress; a network whose calls answer (OpenAI with a JSON text, Claude with a line
  of code), and one whose calls end with a cancellation error; \<open>JSON.parse\<close> at that JSON
  text, the only text that the examples parse.\<close>

definition openai_active :: config where
  "openai_active =
     \<lparr>activeProvider = js ''openai'',
      providers = [js ''openai'' \<mapsto> \<lparr>pc_apiKey = js ''sk-one'', pc_model = js ''gpt-4o''\<rparr>,
                   js ''claude'' \<mapsto> \<lparr>pc_apiKey = js ''sk-ant-two'',
                                        pc_model = js ''claude-3-opus-20240229''\<rparr>],
      language = js ''python'', interviewMode = js ''coding''\<rparr>"

definition switched_to_claude :: config where
  "switched_to_claude = openai_active\<lparr>activeProvider := js ''claude''\<rparr>"

definition idle_helper :: helper where
  "idle_helper =
     \<lparr>modelAdapter = Some (new_adapter OpenAI (js ''sk-one'') (js ''gpt-4o'')),
      currentProcessingAbortController = None,
      currentExtraProcessingAbortController = None,
      aborted = {}, controllers = 0, problemInfo = None, hasDebugged = False, view = Queue,
      screenshotQueue = [js ''QUJD''], extraScreenshotQueue = [],
      stored_config = openai_active, window_language = None, mainWindow = True,
      load_error = None\<rparr>"

definition extraction_answer :: jsstring where
  \<open>extraction_answer = js ''{"problem_statement": "Sum two numbers"}''\<close>

definition answering :: network where
  "answering =
     \<lparr>openai_create = (\<lambda>req. Inr \<lparr>oa_content = Some extraction_answer, oa_prompt_tokens = None,
                                   oa_completion_tokens = None, oa_total_tokens = None\<rparr>),
      claude_create = (\<lambda>req. Inr \<lparr>cl_text = js ''x = 1'', cl_input_tokens = 1,
                                   cl_output_tokens = 1\<rparr>)\<rparr>"

definition cancelled_error :: js_error where
  "cancelled_error =
     \<lparr>err_message = js ''canceled'', err_status = None, err_response_status = None,
      err_cancel = True\<rparr>"

definition cancelling :: network where
  "cancelling =
     \<lparr>openai_create = (\<lambda>req. Inl cancelled_error), claude_create = (\<lambda>req. Inl cancelled_error)\<rparr>"

definition parse_fields :: "jsstring \<Rightarrow> problem_info option option" where
  "parse_fields t =
     (if t = extraction_answer then Some (Some [''problem_statement'' \<mapsto> js ''Sum two numbers''])
      else None)"

section \<open>Equations of the matcher\<close>

text \<open>
  The equations of \<open>mk\<close>: it is computed as a backtracking matcher runs, without the
  lists of \<open>ms\<close>.
\<close>

lemma find_first_append:
  "find_first k (xs @ ys) =
     (case find_first k xs of Some y \<Rightarrow> Some y | None \<Rightarrow> find_first k ys)"
  by (induction xs) (auto split: option.splits)

lemma find_first_concat_map:
  "find_first k (concat (map f xs)) = find_first (\<lambda>x. find_first k (f x)) xs"
  by (induction xs) (auto simp: find_first_append split: option.splits)

lemma find_first_map: "find_first k (map f xs) = find_first (\<lambda>x. k (f x)) xs"
  by (induction xs) (auto split: option.splits)

lemma find_first_guarded:
  "find_first (\<lambda>x. find_first k (if P x then f x else [])) xs =
   find_first (\<lambda>x. if P x then find_first k (f x) else None) xs"
  by (induction xs) (auto split: option.splits)

lemma mk_Eps: "mk ci Eps s k = k s"
  by (simp add: mk_def ms.simps split: option.splits)

lemma mk_Chr_Nil: "mk ci (Chr f) (b, cap, []) k = None"
  by (simp add: mk_def ms.simps)

lemma mk_Chr_Cons:
  "mk ci (Chr f) (b, cap, c # t) k = (if in_class ci f c then k (False, cap, t) else None)"
  by (simp add: mk_def ms.simps split: option.splits)

lemma mk_NChr_Nil: "mk ci (NChr f) (b, cap, []) k = None"
  by (simp add: mk_def ms.simps)

lemma mk_NChr_Cons:
  "mk ci (NChr f) (b, cap, c # t) k = (if in_class ci f c then None else k (False, cap, t))"
  by (simp add: mk_def ms.simps split: option.splits)

lemma mk_Str:
  "mk ci (Str l) (b, cap, t) k =
     (if starts_with ci l t then k (b \<and> l = [], cap, drop (length l) t) else None)"
  by (simp add: mk_def ms.simps split: option.splits)

lemma mk_Seq: "mk ci (Seq r1 r2) s k = mk ci r1 s (\<lambda>s'. mk ci r2 s' k)"
  by (simp add: mk_def ms.simps find_first_concat_map)

lemma mk_Alt:
  "mk ci (Alt r1 r2) s k =
     (case mk ci r1 s k of Some y \<Rightarrow> Some y | None \<Rightarrow> mk ci r2 s k)"
  unfolding mk_def by (simp add: ms.simps find_first_append)

lemma mk_Star:
  "mk ci (Star r) s k =
     (case mk ci r s (\<lambda>s'. if length (snd (snd s')) < length (snd (snd s))
                            then mk ci (Star r) s' k else None) of
        Some y \<Rightarrow> Some y
      | None \<Rightarrow> k s)"
  unfolding mk_def
  by (subst ms.simps)
    (simp add: find_first_append find_first_concat_map find_first_guarded split: option.splits)

lemma mk_Lazy:
  "mk ci (Lazy r) s k =
     (case k s of
        Some y \<Rightarrow> Some y
      | None \<Rightarrow> mk ci r s (\<lambda>s'. if length (snd (snd s')) < length (snd (snd s))
                                  then mk ci (Lazy r) s' k else None))"
  unfolding mk_def
  by (subst ms.simps)
    (simp add: find_first_append find_first_concat_map find_first_guarded split: option.splits)

lemma mk_Grp:
  "mk ci (Grp r) (b, cap, t) k =
     mk ci r (b, cap, t)
       (\<lambda>s'. k (fst s', Some (take (length t - length (snd (snd s'))) t), snd (snd s')))"
  by (simp add: mk_def ms.simps find_first_map)

lemma mk_Ahead:
  "mk ci (Ahead r) s k = (case mk ci r s Some of None \<Rightarrow> None | Some _ \<Rightarrow> k s)"
  by (cases "ms ci r s") (simp_all add: mk_def ms.simps split: option.splits)

lemma mk_Bol: "mk ci Bol (b, cap, t) k = (if b then k (b, cap, t) else None)"
  by (simp add: mk_def ms.simps split: option.splits)

lemma mk_Eol: "mk ci Eol (b, cap, t) k = (if t = [] then k (b, cap, t) else None)"
  by (simp add: mk_def ms.simps split: option.splits)

lemma first_match_mk: "first_match ci r s = mk ci r s Some"
  by (cases "ms ci r s") (simp_all add: first_match_def mk_def)

lemmas run_rx =
  mk_Eps mk_Chr_Nil mk_Chr_Cons mk_NChr_Nil mk_NChr_Cons mk_Str mk_Seq mk_Alt mk_Star mk_Lazy
  mk_Grp mk_Ahead mk_Bol mk_Eol first_match_mk search.simps match_all.simps remove_all.simps
  rx_exec_def rx_replace_def rx_match_g_def rx_remove_g_def Many1_def Opt_def
  in_class_def same_unit_def upper_def lower_def js_def
  cls_s_def cls_w_def cls_d_def cls_any_def cls_bullet_def cls_space_def cls_AZ_def
  cls_alpha_def cls_line_end_def any_unit_def not_newline_def dot_def

lemmas run_js = trim_def js_split_def filter_Boolean_def capture1_def section_of_def

text \<open>The group of a pattern takes part in every match, when the pattern has it outside
  any quantifier and in every alternative: a match array of such a pattern has its
  element 1.\<close>

lemma ms_keeps_capture: "s' \<in> set (ms ci r s) \<Longrightarrow> has_capture s \<Longrightarrow> has_capture s'"
proof (induction ci r s arbitrary: s' rule: ms.induct)
  case (7 ci r1 r2 s)
  from "7.prems"(1) obtain s1 where s1: "s1 \<in> set (ms ci r1 s)" "s' \<in> set (ms ci r2 s1)"
    by (auto simp: ms.simps)
  from "7.IH"(1) [OF s1(1) "7.prems"(2)] have "has_capture s1" .
  with "7.IH"(2) [OF s1(1) s1(2)] show ?case .
next
  case (8 ci r1 r2 s)
  from "8.prems"(1) have "s' \<in> set (ms ci r1 s) \<or> s' \<in> set (ms ci r2 s)"
    by (simp add: ms.simps)
  then show ?case using "8.IH" "8.prems"(2) by blast
next
  case (9 ci r s)
  from "9.prems"(1) consider "s' = s"
    | s1 where "s1 \<in> set (ms ci r s)" "length (snd (snd s1)) < length (snd (snd s))"
        "s' \<in> set (ms ci (Star r) s1)"
    by (subst (asm) ms.simps) (auto split: if_splits)
  then show ?case
  proof cases
    case 1
    with "9.prems" show ?thesis by simp
  next
    case 2
    from "9.IH"(1) [OF 2(1) "9.prems"(2)] have "has_capture s1" .
    with "9.IH"(2) [OF 2(1) 2(2) 2(3)] show ?thesis .
  qed
next
  case (10 ci r s)
  from "10.prems"(1) consider "s' = s"
    | s1 where "s1 \<in> set (ms ci r s)" "length (snd (snd s1)) < length (snd (snd s))"
        "s' \<in> set (ms ci (Lazy r) s1)"
    by (subst (asm) ms.simps) (auto split: if_splits)
  then show ?case
  proof cases
    case 1
    with "10.prems" show ?thesis by simp
  next
    case 2
    from "10.IH"(1) [OF 2(1) "10.prems"(2)] have "has_capture s1" .
    with "10.IH"(2) [OF 2(1) 2(2) 2(3)] show ?thesis .
  qed
next
  case (12 ci r s)
  then show ?case by (auto simp: ms.simps split: list.splits)
qed (auto simp: ms.simps has_capture_def split: if_splits)

lemma ms_sets_capture: "sets_capture r \<Longrightarrow> s' \<in> set (ms ci r s) \<Longrightarrow> has_capture s'"
proof (induction r arbitrary: s s')
  case (Seq r1 r2)
  from Seq.prems(2) obtain s1 where s1: "s1 \<in> set (ms ci r1 s)" "s' \<in> set (ms ci r2 s1)"
    by (auto simp: ms.simps)
  show ?case
  proof (cases "sets_capture r2")
    case True
    then show ?thesis using Seq.IH(2) s1(2) by blast
  next
    case False
    with Seq.prems(1) have "sets_capture r1" by simp
    then have "has_capture s1" using Seq.IH(1) s1(1) by blast
    then show ?thesis using ms_keeps_capture s1(2) by blast
  qed
next
  case (Alt r1 r2)
  from Alt.prems(2) have "s' \<in> set (ms ci r1 s) \<or> s' \<in> set (ms ci r2 s)"
    by (simp add: ms.simps)
  moreover from Alt.prems(1) have "sets_capture r1" "sets_capture r2" by simp_all
  ultimately show ?case using Alt.IH by blast
next
  case (Grp r)
  then show ?case
    by (cases s) (auto simp: ms.simps has_capture_def)
qed simp_all

lemma first_match_sets_capture:
  "sets_capture r \<Longrightarrow> first_match ci r s = Some s' \<Longrightarrow> has_capture s'"
  using ms_sets_capture [of r s' ci s]
  by (auto simp: first_match_def split: list.splits)

lemma search_sets_capture:
  "sets_capture r \<Longrightarrow> search ci r b pre t = Some m \<Longrightarrow> capture m \<noteq> None"
proof (induction t arbitrary: b pre)
  case Nil
  then show ?case
    by (auto simp: search.simps has_capture_def split: option.splits
        dest!: first_match_sets_capture)
next
  case (Cons c t)
  then show ?case
    by (auto simp: search.simps has_capture_def split: option.splits
        dest!: first_match_sets_capture)
qed

lemma capture_present:
  "sets_capture r \<Longrightarrow> rx_exec ci r t = Some m \<Longrightarrow> \<exists>g. capture m = Some g"
  using search_sets_capture [of r ci True "[]" t m] by (auto simp: rx_exec_def)

lemma patterns_set_capture:
  "sets_capture code_fence_rx" "sets_capture react_fence_rx" "sets_capture sql_fence_rx"
  "sets_capture debug_fence_rx" "sets_capture thoughts_rx" "sets_capture timeComplexityPattern"
  "sets_capture spaceComplexityPattern" "sets_capture architecture_rx"
  "sets_capture components_rx" "sets_capture data_model_rx" "sets_capture scalability_rx"
  "sets_capture tradeoffs_rx" "sets_capture structure_rx" "sets_capture state_rx"
  "sets_capture features_rx" "sets_capture sql_explanation_rx" "sets_capture performance_rx"
  "sets_capture alternatives_rx" "sets_capture commands_rx" "sets_capture linux_explanation_rx"
  "sets_capture verification_rx" "sets_capture answer_rx" "sets_capture cert_explanation_rx"
  "sets_capture context_rx"
  by (simp_all add: code_fence_rx_def react_fence_rx_def sql_fence_rx_def debug_fence_rx_def
      thoughts_rx_def timeComplexityPattern_def spaceComplexityPattern_def architecture_rx_def
      components_rx_def data_model_rx_def scalability_rx_def tradeoffs_rx_def structure_rx_def
      state_rx_def features_rx_def sql_explanation_rx_def performance_rx_def
      alternatives_rx_def commands_rx_def linux_explanation_rx_def verification_rx_def
      answer_rx_def cert_explanation_rx_def context_rx_def label_to_colon_def key_components_def
      Opt_def Many1_def)

section \<open>What the matcher finds\<close>

text \<open>
  Where a pattern that starts with a literal can match, and where the search for it
  passes: \<open>split_at\<close> is \<open>None\<close> exactly when the literal stands nowhere.
\<close>

lemma split_at_None:
  "split_at ci l t = None \<Longrightarrow> suffix u t \<Longrightarrow> \<not> starts_with ci l u"
proof (induction t)
  case Nil
  then show ?case by (cases l) (simp_all split: if_splits)
next
  case (Cons c t)
  from Cons.prems(1) have 1: "\<not> starts_with ci l (c # t)" and 2: "split_at ci l t = None"
    by (simp_all split: if_splits option.splits prod.splits)
  from Cons.prems(2) have "u = c # t \<or> suffix u t"
    by (simp add: suffix_Cons)
  with 1 2 Cons.IH show ?case by blast
qed

lemma split_at_None_suffix:
  "split_at ci l t = None \<Longrightarrow> suffix u t \<Longrightarrow> split_at ci l u = None"
proof (induction t)
  case Nil
  then show ?case by simp
next
  case (Cons c t)
  from Cons.prems(1) have 2: "split_at ci l t = None"
    by (simp split: if_splits option.splits prod.splits)
  from Cons.prems(2) have "u = c # t \<or> suffix u t"
    by (simp add: suffix_Cons)
  with 2 Cons show ?case by blast
qed

lemma starts_with_append:
  "starts_with ci (a @ b) u = (starts_with ci a u \<and> starts_with ci b (drop (length a) u))"
proof (induction a arbitrary: u)
  case Nil
  then show ?case by simp
next
  case (Cons x a)
  then show ?case by (cases u) auto
qed

lemma starts_with_prefix: "starts_with False l u = prefix l u"
proof (induction l arbitrary: u)
  case Nil
  then show ?case by simp
next
  case (Cons a l)
  then show ?case by (cases u) (auto simp add: same_unit_def)
qed

lemma search_none:
  assumes "\<And>b u. suffix u t \<Longrightarrow> first_match ci r (b, None, u) = None"
  shows "search ci r b pre t = None"
  using assms
proof (induction t arbitrary: b pre)
  case Nil
  then show ?case by (simp add: search.simps)
next
  case (Cons c t)
  have "first_match ci r (b, None, c # t) = None"
    using Cons.prems by simp
  moreover have "search ci r False (pre @ [c]) t = None"
    by (rule Cons.IH) (simp add: Cons.prems suffix_Cons)
  ultimately show ?case by (simp add: search.simps)
qed

lemma search_split:
  assumes "split_at False l t = Some (p, r)"
  shows "search False (Seq (Str l) X) b acc t =
         search False (Seq (Str l) X) (b \<and> p = []) (acc @ p) (l @ r)"
  using assms
proof (induction t arbitrary: b acc p)
  case Nil
  then show ?case by (simp split: if_splits)
next
  case (Cons c t)
  show ?case
  proof (cases "starts_with False l (c # t)")
    case True
    with Cons.prems have "p = []" "r = drop (length l) (c # t)" by simp_all
    moreover from True have "c # t = l @ drop (length l) (c # t)"
      by (auto simp add: starts_with_prefix prefix_def)
    ultimately show ?thesis by simp
  next
    case False
    with Cons.prems obtain p' where p': "split_at False l t = Some (p', r)" "p = c # p'"
      by (auto split: option.splits)
    from False have "first_match False (Seq (Str l) X) (b, None, c # t) = None"
      by (simp add: first_match_mk mk_Seq mk_Str)
    then have "search False (Seq (Str l) X) b acc (c # t) =
        search False (Seq (Str l) X) False (acc @ [c]) t"
      by (simp add: search.simps)
    with Cons.IH [OF p'(1), of False "acc @ [c]"] p'(2) show ?thesis
      by simp
  qed
qed

lemma search_found:
  "first_match ci r (b, None, u) = Some s' \<Longrightarrow>
   map_option capture (search ci r b acc u) = Some (fst (snd s'))"
  by (cases u) (simp_all add: search.simps)

lemma suffix_drop_both: "suffix u v \<Longrightarrow> suffix (drop n u) (drop n v)"
proof -
  assume "suffix u v"
  then obtain p where v: "v = p @ u" by (auto simp: suffix_def)
  have "suffix (drop n u) (drop (n - length p) u)"
    by (metis drop_drop le_add_diff_inverse2 suffix_drop diff_le_self)
  then show ?thesis
    unfolding v drop_append using suffix_appendI by blast
qed

text \<open>
  Every way to match a pattern leaves a suffix of the input; so a continuation that fails
  on every suffix fails the pattern.
\<close>

lemma ms_suffix: "s' \<in> set (ms ci r s) \<Longrightarrow> suffix (snd (snd s')) (snd (snd s))"
proof (induction ci r s arbitrary: s' rule: ms.induct)
  case (7 ci r1 r2 s)
  from "7.prems"(1) obtain s1 where s1: "s1 \<in> set (ms ci r1 s)" "s' \<in> set (ms ci r2 s1)"
    by (auto simp: ms.simps)
  from "7.IH"(1) [OF s1(1)] "7.IH"(2) [OF s1(1) s1(2)] show ?case
    using suffix_order.trans by blast
next
  case (8 ci r1 r2 s)
  from "8.prems"(1) have "s' \<in> set (ms ci r1 s) \<or> s' \<in> set (ms ci r2 s)"
    by (simp add: ms.simps)
  then show ?case using "8.IH" by blast
next
  case (9 ci r s)
  from "9.prems"(1) consider "s' = s"
    | s1 where "s1 \<in> set (ms ci r s)" "length (snd (snd s1)) < length (snd (snd s))"
        "s' \<in> set (ms ci (Star r) s1)"
    by (subst (asm) ms.simps) (auto split: if_splits)
  then show ?case
  proof cases
    case 1
    then show ?thesis by simp
  next
    case 2
    from "9.IH"(1) [OF 2(1)] "9.IH"(2) [OF 2(1) 2(2) 2(3)] show ?thesis
      using suffix_order.trans by blast
  qed
next
  case (10 ci r s)
  from "10.prems"(1) consider "s' = s"
    | s1 where "s1 \<in> set (ms ci r s)" "length (snd (snd s1)) < length (snd (snd s))"
        "s' \<in> set (ms ci (Lazy r) s1)"
    by (subst (asm) ms.simps) (auto split: if_splits)
  then show ?case
  proof cases
    case 1
    then show ?thesis by simp
  next
    case 2
    from "10.IH"(1) [OF 2(1)] "10.IH"(2) [OF 2(1) 2(2) 2(3)] show ?thesis
      using suffix_order.trans by blast
  qed
next
  case (11 ci r b cap t)
  then show ?case by (auto simp: ms.simps)
next
  case (12 ci r s)
  then show ?case by (auto simp: ms.simps split: list.splits)
qed (auto simp: ms.simps suffix_drop suffix_ConsI split: if_splits)

lemma find_first_None: "(\<And>x. x \<in> set xs \<Longrightarrow> k x = None) \<Longrightarrow> find_first k xs = None"
  by (induction xs) simp_all

lemma mk_all_fail:
  "(\<And>s'. suffix (snd (snd s')) (snd (snd s)) \<Longrightarrow> k s' = None) \<Longrightarrow> mk ci r s k = None"
  unfolding mk_def by (rule find_first_None) (simp add: ms_suffix)

text \<open>
  The lazy \<open>[\s\S]*?\<close> tries the positions of the input from left to right. Before a
  literal \<open>stop\<close> the group \<open>([\s\S]*?)\<close> captures the text up to the first occurrence of
  \<open>stop\<close>, and fails when there is none; before \<open>(?:stop|$)\<close> it never fails, and captures
  the rest of the input when \<open>stop\<close> does not occur.
\<close>

lemma ms_Lazy_any:
  "ms ci (Lazy any_unit) (b, cap, []) = [(b, cap, [])]"
  "ms ci (Lazy any_unit) (b, cap, c # w) = (b, cap, c # w) # ms ci (Lazy any_unit) (False, cap, w)"
  by (subst ms.simps, simp add: any_unit_def ms.simps in_class_def cls_any_def)+

lemma lazy_to_stop:
  assumes "stop \<noteq> []" and "v = p @ w"
  shows "find_first
           (\<lambda>s'. mk ci (Str stop)
                   (fst s', Some (take (length v - length (snd (snd s'))) v), snd (snd s')) Some)
           (ms ci (Lazy any_unit) (b, cap, w)) =
         (case split_at ci stop w of
            None \<Rightarrow> None
          | Some (body, post) \<Rightarrow> Some (False, Some (p @ body), post))"
  using assms(2)
proof (induction w arbitrary: p b)
  case Nil
  with assms(1) show ?case
    by (cases stop) (simp_all add: ms_Lazy_any mk_Str)
next
  case (Cons c w)
  have v: "v = (p @ [c]) @ w" using Cons.prems by simp
  have t: "take (length v - length (c # w)) v = p" using Cons.prems by simp
  show ?case
  proof (cases "starts_with ci stop (c # w)")
    case True
    with assms(1) t show ?thesis
      by (simp add: ms_Lazy_any mk_Str)
  next
    case False
    with t Cons.IH [OF v, of False] show ?thesis
      by (simp add: ms_Lazy_any mk_Str split: option.splits)
  qed
qed

lemma grp_to_stop:
  assumes "stop \<noteq> []"
  shows "mk ci (Grp (Lazy any_unit)) s (\<lambda>s. mk ci (Str stop) s Some) =
         (case split_at ci stop (snd (snd s)) of
            None \<Rightarrow> None
          | Some (body, post) \<Rightarrow> Some (False, Some body, post))"
proof -
  obtain b cap w where s: "s = (b, cap, w)" by (cases s) auto
  show ?thesis
    unfolding s mk_Grp
    using lazy_to_stop [OF assms, of w "[]" w ci b cap]
    by (simp add: mk_def split: option.splits)
qed

lemma lazy_to_stop_or_end:
  assumes "stop \<noteq> []" and "v = p @ w"
  shows "find_first
           (\<lambda>s'. mk ci (Alt (Str stop) Eol)
                   (fst s', Some (take (length v - length (snd (snd s'))) v), snd (snd s')) Some)
           (ms ci (Lazy any_unit) (b, cap, w)) =
         Some (case split_at ci stop w of
                 None \<Rightarrow> (b \<and> w = [], Some (p @ w), [])
               | Some (body, post) \<Rightarrow> (False, Some (p @ body), post))"
  using assms(2)
proof (induction w arbitrary: p b)
  case Nil
  with assms(1) show ?case
    by (cases stop) (simp_all add: ms_Lazy_any mk_Str mk_Alt mk_Eol)
next
  case (Cons c w)
  have v: "v = (p @ [c]) @ w" using Cons.prems by simp
  have t: "take (length v - length (c # w)) v = p" using Cons.prems by simp
  show ?case
  proof (cases "starts_with ci stop (c # w)")
    case True
    with assms(1) t show ?thesis
      by (simp add: ms_Lazy_any mk_Str mk_Alt mk_Eol)
  next
    case False
    with t Cons.IH [OF v, of False] show ?thesis
      by (simp add: ms_Lazy_any mk_Str mk_Alt mk_Eol split: option.splits)
  qed
qed

lemma grp_to_stop_or_end:
  assumes "stop \<noteq> []"
  shows "mk ci (Grp (Lazy any_unit)) s (\<lambda>s. mk ci (Alt (Str stop) Eol) s Some) =
         Some (case split_at ci stop (snd (snd s)) of
                 None \<Rightarrow> (fst s \<and> snd (snd s) = [], Some (snd (snd s)), [])
               | Some (body, post) \<Rightarrow> (False, Some body, post))"
proof -
  obtain b cap w where s: "s = (b, cap, w)" by (cases s) auto
  show ?thesis
    unfolding s mk_Grp
    using lazy_to_stop_or_end [OF assms, of w "[]" w ci b cap]
    by (simp add: mk_def split: option.splits)
qed

lemma section_total:
  "stop \<noteq> [] \<Longrightarrow>
   mk True (Seq (Grp (Lazy any_unit)) (Alt (Str stop) Eol)) s Some = Some (section_end stop s)"
  unfolding mk_Seq section_end_def by (rule grp_to_stop_or_end)

lemma section_end_capture:
  "fst (snd (section_end stop (b, cap, v))) =
   Some (case split_at True stop v of None \<Rightarrow> v | Some (body, post) \<Rightarrow> body)"
  by (simp add: section_end_def split: option.splits)

text \<open>
  A greedy \<open>[...]*\<close> takes the longest repetition when the rest of the pattern accepts
  it.
\<close>

lemma mk_Star_class:
  assumes "k (False, cap, dropWhile f t) = Some y"
  shows "mk False (Star (Chr f)) (False, cap, t) k = Some y"
  using assms
proof (induction t)
  case Nil
  then show ?case
    by (subst mk_Star) (simp add: mk_Chr_Nil)
next
  case (Cons c t)
  show ?case
  proof (cases "f c")
    case True
    with Cons have "mk False (Star (Chr f)) (False, cap, t) k = Some y" by simp
    with True show ?thesis
      by (subst mk_Star) (simp add: mk_Chr_Cons in_class_def)
  next
    case False
    with Cons.prems show ?thesis
      by (subst mk_Star) (simp add: mk_Chr_Cons in_class_def)
  qed
qed

lemma mk_Opt_Many1_class:
  assumes "k (False, cap, dropWhile f t) = Some y"
  shows "mk False (Opt (Many1 (Chr f))) (False, cap, t) k = Some y"
proof (cases t)
  case Nil
  with assms show ?thesis
    by (simp add: Opt_def Many1_def mk_Alt mk_Seq mk_Chr_Nil mk_Eps)
next
  case (Cons c t')
  show ?thesis
  proof (cases "f c")
    case True
    with assms Cons have "mk False (Star (Chr f)) (False, cap, t') k = Some y"
      by (simp add: mk_Star_class)
    with True Cons show ?thesis
      by (simp add: Opt_def Many1_def mk_Alt mk_Seq mk_Chr_Cons in_class_def)
  next
    case False
    with assms Cons show ?thesis
      by (simp add: Opt_def Many1_def mk_Alt mk_Seq mk_Chr_Cons mk_Eps in_class_def)
  qed
qed

section \<open>Properties of the response parser\<close>

lemma big_o_needs_text: "rx_exec True big_o_rx [] = None"
  by (simp add: big_o_rx_def run_rx)

lemma complexity_statement_not_empty: "complexity_statement captured \<noteq> []"
proof (cases "rx_exec True big_o_rx (trim captured)")
  case None
  then show ?thesis
    by (simp add: complexity_statement_def Let_def js_def)
next
  case (Some m)
  then have "trim captured \<noteq> []"
    using big_o_needs_text by auto
  with Some show ?thesis
    by (simp add: complexity_statement_def Let_def js_def)
qed

lemma complexity_of_not_empty: "dflt \<noteq> [] \<Longrightarrow> complexity_of pattern dflt r \<noteq> []"
  by (simp add: complexity_of_def complexity_statement_not_empty split: option.splits)

lemma defaults_not_empty:
  "default_time_complexity \<noteq> []" "default_space_complexity \<noteq> []"
  by (simp_all add: default_time_complexity_def default_space_complexity_def js_def)

lemma processSolutionResponse_Inr: "\<exists>d. processSolutionResponse r mode = Inr d"
  by (simp add: processSolutionResponse_def processCodingSolution_def
      processSystemDesignSolution_def processReactSolution_def processSQLSolution_def
      processLinuxSolution_def processCertificationSolution_def Let_def)

lemma mode_names:
  "js ''system_design'' \<noteq> js ''coding''" "js ''react'' \<noteq> js ''coding''"
  "js ''react'' \<noteq> js ''system_design''" "js ''sql'' \<noteq> js ''coding''"
  "js ''sql'' \<noteq> js ''system_design''" "js ''sql'' \<noteq> js ''react''"
  "js ''linux'' \<noteq> js ''coding''" "js ''linux'' \<noteq> js ''system_design''"
  "js ''linux'' \<noteq> js ''react''" "js ''linux'' \<noteq> js ''sql''"
  "js ''certification'' \<noteq> js ''coding''" "js ''certification'' \<noteq> js ''system_design''"
  "js ''certification'' \<noteq> js ''react''" "js ''certification'' \<noteq> js ''sql''"
  "js ''certification'' \<noteq> js ''linux''"
  by (simp_all add: js_def)

lemma other_mode_names:
  "js ''system_design'' \<in> set other_modes" "js ''react'' \<in> set other_modes"
  "js ''sql'' \<in> set other_modes" "js ''linux'' \<in> set other_modes"
  "js ''certification'' \<in> set other_modes"
  by (simp_all add: other_modes_def)

lemma coding_dispatch:
  "mode \<notin> set other_modes \<Longrightarrow> processSolutionResponse r mode = processCodingSolution r"
  by (simp add: other_modes_def processSolutionResponse_def)

text \<open>
  A response that does not mention the label of a section, in any case of the letters:
  the pattern of the section matches nowhere in it.
\<close>

lemma not_mentioned:
  assumes "\<not> mentions t l" and "suffix u t"
  shows "\<not> starts_with True (js l) u"
proof -
  from assms(1) have "split_at True (js l) t = None"
    by (cases "split_at True (js l) t") (auto simp add: mentions_def)
  then show ?thesis
    using assms(2) by (rule split_at_None)
qed

lemmas fails_at_start = first_match_mk mk_Seq mk_Alt mk_Str

lemma thoughts_missing:
  assumes "\<not> mentions r ''Thoughts:''" "\<not> mentions r ''Key Insights:''"
    "\<not> mentions r ''Reasoning:''" "\<not> mentions r ''Approach:''"
  shows "rx_exec True thoughts_rx r = None"
  unfolding rx_exec_def
proof (rule search_none)
  fix b u
  assume u: "suffix u r"
  show "first_match True thoughts_rx (b, None, u) = None"
    using assms [THEN not_mentioned, OF u] by (simp add: thoughts_rx_def fails_at_start)
qed

lemma time_missing:
  assumes "\<not> mentions r ''Time complexity''"
  shows "rx_exec True timeComplexityPattern r = None"
  unfolding rx_exec_def
proof (rule search_none)
  fix b u
  assume u: "suffix u r"
  show "first_match True timeComplexityPattern (b, None, u) = None"
    using assms [THEN not_mentioned, OF u] by (simp add: timeComplexityPattern_def fails_at_start)
qed

lemma space_missing:
  assumes "\<not> mentions r ''Space complexity''"
  shows "rx_exec True spaceComplexityPattern r = None"
  unfolding rx_exec_def
proof (rule search_none)
  fix b u
  assume u: "suffix u r"
  show "first_match True spaceComplexityPattern (b, None, u) = None"
    using assms [THEN not_mentioned, OF u] by (simp add: spaceComplexityPattern_def fails_at_start)
qed

lemma components_missing:
  assumes "\<not> mentions r ''Key Components:''" "\<not> mentions r ''Major Components:''"
  shows "rx_exec True components_rx r = None"
  unfolding rx_exec_def
proof (rule search_none)
  fix b u
  assume u: "suffix u r"
  have k: "js ''Key Components:'' = js ''Key'' @ js '' Components:''"
    and m: "js ''Major Components:'' = js ''Major'' @ js '' Components:''"
    by (simp_all add: js_def)
  have "\<not> (starts_with True (js ''Key'') u
      \<and> starts_with True (js '' Components:'') (drop (length (js ''Key'')) u))"
    using not_mentioned [OF assms(1) u] unfolding k starts_with_append .
  moreover have "\<not> (starts_with True (js ''Major'') u
      \<and> starts_with True (js '' Components:'') (drop (length (js ''Major'')) u))"
    using not_mentioned [OF assms(2) u] unfolding m starts_with_append .
  ultimately show "first_match True components_rx (b, None, u) = None"
    by (auto simp add: components_rx_def key_components_def fails_at_start)
qed

lemma react_missing:
  assumes "\<not> mentions r ''Component Structure:''" "\<not> mentions r ''Key Features:''"
  shows "rx_exec True structure_rx r = None" and "rx_exec True features_rx r = None"
proof -
  show "rx_exec True structure_rx r = None"
    unfolding rx_exec_def
  proof (rule search_none)
    fix b u
    assume u: "suffix u r"
    show "first_match True structure_rx (b, None, u) = None"
      using assms [THEN not_mentioned, OF u] by (simp add: structure_rx_def fails_at_start)
  qed
  show "rx_exec True features_rx r = None"
    unfolding rx_exec_def
  proof (rule search_none)
    fix b u
    assume u: "suffix u r"
    show "first_match True features_rx (b, None, u) = None"
      using assms [THEN not_mentioned, OF u] by (simp add: features_rx_def fails_at_start)
  qed
qed

lemma explanation_missing:
  assumes "\<not> mentions r ''Explanation:''"
  shows "rx_exec True sql_explanation_rx r = None"
    and "rx_exec True linux_explanation_rx r = None"
    and "rx_exec True cert_explanation_rx r = None"
proof -
  have "first_match True sql_explanation_rx (b, None, u) = None
      \<and> first_match True linux_explanation_rx (b, None, u) = None
      \<and> first_match True cert_explanation_rx (b, None, u) = None" if "suffix u r" for b u
    using assms [THEN not_mentioned, OF that]
    by (simp add: sql_explanation_rx_def linux_explanation_rx_def cert_explanation_rx_def
        fails_at_start)
  then show "rx_exec True sql_explanation_rx r = None"
    and "rx_exec True linux_explanation_rx r = None"
    and "rx_exec True cert_explanation_rx r = None"
    unfolding rx_exec_def by (simp_all add: search_none)
qed

lemma performance_missing:
  assumes "\<not> mentions r ''Performance''"
  shows "rx_exec True performance_rx r = None"
  unfolding rx_exec_def
proof (rule search_none)
  fix b u
  assume u: "suffix u r"
  show "first_match True performance_rx (b, None, u) = None"
    using assms [THEN not_mentioned, OF u]
    by (simp add: performance_rx_def label_to_colon_def fails_at_start)
qed

lemma no_items: "section_items None = []" "section_paragraphs None = []" "section_text None = []"
  by (simp_all add: section_items_def section_paragraphs_def section_text_def section_of_def)

lemma complexity_of_missing: "rx_exec True p r = None \<Longrightarrow> complexity_of p dflt r = dflt"
  by (simp add: complexity_of_def section_of_def)

text \<open>
  The fields of the result of each parser: the thoughts and the complexity statements are
  never empty, and a field is its fallback when the pattern of its section does not match,
  as in a response that does not mention the label of the section.
\<close>

lemma fixed_not_empty:
  "js ''N/A for system design'' \<noteq> []" "js ''N/A for React components'' \<noteq> []"
  "js ''Depends on result set size and temporary tables used'' \<noteq> []"
  "js ''N/A for Linux commands'' \<noteq> []" "js ''N/A for certification exam'' \<noteq> []"
  by (simp_all add: js_def)

lemma coding_fallbacks:
  assumes "processCodingSolution r = Inr d"
  shows "thoughts d \<noteq> [] \<and> time_complexity d \<noteq> [] \<and> space_complexity d \<noteq> []
     \<and> (rx_exec True thoughts_rx r = None \<longrightarrow>
      thoughts d = [js ''Solution approach based on efficiency and readability''])
     \<and> (rx_exec True timeComplexityPattern r = None \<longrightarrow>
          time_complexity d = js ''O(n) - Linear time complexity because we only iterate through the array once. Each element is processed exactly one time, and the hashmap lookups are O(1) operations.'')
     \<and> (rx_exec True spaceComplexityPattern r = None \<longrightarrow>
          space_complexity d = js ''O(n) - Linear space complexity because we store elements in the hashmap. In the worst case, we might need to store all elements before finding the solution pair.'')
     \<and> (\<not> mentions r ''Thoughts:'' \<and> \<not> mentions r ''Key Insights:''
           \<and> \<not> mentions r ''Reasoning:'' \<and> \<not> mentions r ''Approach:'' \<longrightarrow>
          thoughts d = [js ''Solution approach based on efficiency and readability''])
     \<and> (\<not> mentions r ''Time complexity'' \<longrightarrow>
          time_complexity d = js ''O(n) - Linear time complexity because we only iterate through the array once. Each element is processed exactly one time, and the hashmap lookups are O(1) operations.'')
     \<and> (\<not> mentions r ''Space complexity'' \<longrightarrow>
          space_complexity d = js ''O(n) - Linear space complexity because we store elements in the hashmap. In the worst case, we might need to store all elements before finding the solution pair.'')"
proof -
  have d: "d = projr (processCodingSolution r)"
    using assms by simp
  show ?thesis
    unfolding d
    by (simp add: processCodingSolution_def Let_def complexity_of_not_empty defaults_not_empty
        thoughts_missing time_missing space_missing no_items complexity_of_missing
        default_time_complexity_def [symmetric] default_space_complexity_def [symmetric])
qed

lemma design_fallbacks:
  assumes "processSystemDesignSolution r = Inr d"
  shows "thoughts d \<noteq> [] \<and> time_complexity d \<noteq> [] \<and> space_complexity d \<noteq> []
     \<and> (rx_exec True components_rx r = None \<longrightarrow>
      thoughts d = [js ''System design approach based on requirements''])
     \<and> (\<not> mentions r ''Key Components:'' \<and> \<not> mentions r ''Major Components:'' \<longrightarrow>
          thoughts d = [js ''System design approach based on requirements''])
     \<and> time_complexity d = js ''N/A for system design''
     \<and> space_complexity d = js ''N/A for system design''"
proof -
  have d: "d = projr (processSystemDesignSolution r)"
    using assms by simp
  show ?thesis
    unfolding d
    by (simp add: processSystemDesignSolution_def Let_def components_missing no_items fixed_not_empty)
qed

lemma react_fallbacks:
  assumes "processReactSolution r = Inr d"
  shows "thoughts d \<noteq> [] \<and> time_complexity d \<noteq> [] \<and> space_complexity d \<noteq> []
     \<and> (rx_exec True structure_rx r = None \<and> rx_exec True features_rx r = None \<longrightarrow>
      thoughts d = [js ''React component design based on requirements''])
     \<and> (\<not> mentions r ''Component Structure:'' \<and> \<not> mentions r ''Key Features:'' \<longrightarrow>
          thoughts d = [js ''React component design based on requirements''])
     \<and> time_complexity d = js ''N/A for React components''
     \<and> space_complexity d = js ''N/A for React components''"
proof -
  have d: "d = projr (processReactSolution r)"
    using assms by simp
  show ?thesis
    unfolding d
    by (simp add: processReactSolution_def Let_def react_missing no_items fixed_not_empty)
qed

lemma sql_fallbacks:
  assumes "processSQLSolution r = Inr d"
  shows "thoughts d \<noteq> [] \<and> time_complexity d \<noteq> [] \<and> space_complexity d \<noteq> []
     \<and> (rx_exec True sql_explanation_rx r = None \<longrightarrow>
      thoughts d = [js ''SQL query design based on requirements''])
     \<and> (\<not> mentions r ''Explanation:'' \<longrightarrow>
          thoughts d = [js ''SQL query design based on requirements''])
     \<and> (rx_exec True performance_rx r = None \<longrightarrow>
          time_complexity d = js ''Depends on database indexes and query execution plan'')
     \<and> (\<not> mentions r ''Performance'' \<longrightarrow>
          time_complexity d = js ''Depends on database indexes and query execution plan'')
     \<and> space_complexity d = js ''Depends on result set size and temporary tables used''"
proof -
  have d: "d = projr (processSQLSolution r)"
    using assms by simp
  show ?thesis
    unfolding d
    by (simp add: processSQLSolution_def Let_def explanation_missing performance_missing no_items
        fixed_not_empty js_def)
qed

lemma linux_fallbacks:
  assumes "processLinuxSolution r = Inr d"
  shows "thoughts d \<noteq> [] \<and> time_complexity d \<noteq> [] \<and> space_complexity d \<noteq> []
     \<and> (rx_exec True linux_explanation_rx r = None \<longrightarrow>
      thoughts d = [js ''Linux commands based on requirements''])
     \<and> (\<not> mentions r ''Explanation:'' \<longrightarrow>
          thoughts d = [js ''Linux commands based on requirements''])
     \<and> time_complexity d = js ''N/A for Linux commands''
     \<and> space_complexity d = js ''N/A for Linux commands''"
proof -
  have d: "d = projr (processLinuxSolution r)"
    using assms by simp
  show ?thesis
    unfolding d
    by (simp add: processLinuxSolution_def Let_def explanation_missing no_items fixed_not_empty)
qed

lemma certification_fallbacks:
  assumes "processCertificationSolution r = Inr d"
  shows "thoughts d \<noteq> [] \<and> time_complexity d \<noteq> [] \<and> space_complexity d \<noteq> []
     \<and> (rx_exec True cert_explanation_rx r = None \<longrightarrow>
      thoughts d = [js ''Certification answer based on knowledge''])
     \<and> (\<not> mentions r ''Explanation:'' \<longrightarrow>
          thoughts d = [js ''Certification answer based on knowledge''])
     \<and> time_complexity d = js ''N/A for certification exam''
     \<and> space_complexity d = js ''N/A for certification exam''"
proof -
  have d: "d = projr (processCertificationSolution r)"
    using assms by simp
  show ?thesis
    unfolding d
    by (simp add: processCertificationSolution_def Let_def explanation_missing no_items fixed_not_empty)
qed

text \<open>
  C6. For every response text and every mode string, the parser of the solution pass
  returns a successful result, never a failure, and the result is built from fixed
  fallbacks. Its list of thoughts is never empty, and it is the one fallback sentence of
  the mode when the pattern of the mode's narrative section matches nowhere in the
  response, as it does when the response mentions none of the labels of the section. In
  the coding mode, and for every mode outside the recognized ones, each complexity
  statement is the default statement when its pattern does not match, as when the response
  does not mention its label; in the SQL mode the time complexity is the fixed sentence
  when the pattern of the performance section does not match, as when the response does
  not mention \<open>Performance\<close>; every other complexity statement is the fixed text of the mode.
\<close>

theorem processSolutionResponse_never_fails:
  "\<exists>d. processSolutionResponse r mode = Inr d
     \<and> thoughts d \<noteq> [] \<and> time_complexity d \<noteq> [] \<and> space_complexity d \<noteq> []
     \<and> (mode \<notin> set other_modes \<longrightarrow>
          (rx_exec True thoughts_rx r = None \<longrightarrow>
           thoughts d = [js ''Solution approach based on efficiency and readability''])
          \<and> (rx_exec True timeComplexityPattern r = None \<longrightarrow>
               time_complexity d = js ''O(n) - Linear time complexity because we only iterate through the array once. Each element is processed exactly one time, and the hashmap lookups are O(1) operations.'')
          \<and> (rx_exec True spaceComplexityPattern r = None \<longrightarrow>
               space_complexity d = js ''O(n) - Linear space complexity because we store elements in the hashmap. In the worst case, we might need to store all elements before finding the solution pair.'')
          \<and> (\<not> mentions r ''Thoughts:'' \<and> \<not> mentions r ''Key Insights:''
                \<and> \<not> mentions r ''Reasoning:'' \<and> \<not> mentions r ''Approach:'' \<longrightarrow>
               thoughts d = [js ''Solution approach based on efficiency and readability''])
          \<and> (\<not> mentions r ''Time complexity'' \<longrightarrow>
               time_complexity d = js ''O(n) - Linear time complexity because we only iterate through the array once. Each element is processed exactly one time, and the hashmap lookups are O(1) operations.'')
          \<and> (\<not> mentions r ''Space complexity'' \<longrightarrow>
               space_complexity d = js ''O(n) - Linear space complexity because we store elements in the hashmap. In the worst case, we might need to store all elements before finding the solution pair.''))
     \<and> (mode = js ''system_design'' \<longrightarrow>
          (rx_exec True components_rx r = None \<longrightarrow>
           thoughts d = [js ''System design approach based on requirements''])
          \<and> (\<not> mentions r ''Key Components:'' \<and> \<not> mentions r ''Major Components:'' \<longrightarrow>
               thoughts d = [js ''System design approach based on requirements''])
          \<and> time_complexity d = js ''N/A for system design''
          \<and> space_complexity d = js ''N/A for system design'')
     \<and> (mode = js ''react'' \<longrightarrow>
          (rx_exec True structure_rx r = None \<and> rx_exec True features_rx r = None \<longrightarrow>
           thoughts d = [js ''React component design based on requirements''])
          \<and> (\<not> mentions r ''Component Structure:'' \<and> \<not> mentions r ''Key Features:'' \<longrightarrow>
               thoughts d = [js ''React component design based on requirements''])
          \<and> time_complexity d = js ''N/A for React components''
          \<and> space_complexity d = js ''N/A for React components'')
     \<and> (mode = js ''sql'' \<longrightarrow>
          (rx_exec True sql_explanation_rx r = None \<longrightarrow>
           thoughts d = [js ''SQL query design based on requirements''])
          \<and> (\<not> mentions r ''Explanation:'' \<longrightarrow>
               thoughts d = [js ''SQL query design based on requirements''])
          \<and> (rx_exec True performance_rx r = None \<longrightarrow>
               time_complexity d = js ''Depends on database indexes and query execution plan'')
          \<and> (\<not> mentions r ''Performance'' \<longrightarrow>
               time_complexity d = js ''Depends on database indexes and query execution plan'')
          \<and> space_complexity d = js ''Depends on result set size and temporary tables used'')
     \<and> (mode = js ''linux'' \<longrightarrow>
          (rx_exec True linux_explanation_rx r = None \<longrightarrow>
           thoughts d = [js ''Linux commands based on requirements''])
          \<and> (\<not> mentions r ''Explanation:'' \<longrightarrow>
               thoughts d = [js ''Linux commands based on requirements''])
          \<and> time_complexity d = js ''N/A for Linux commands''
          \<and> space_complexity d = js ''N/A for Linux commands'')
     \<and> (mode = js ''certification'' \<longrightarrow>
          (rx_exec True cert_explanation_rx r = None \<longrightarrow>
           thoughts d = [js ''Certification answer based on knowledge''])
          \<and> (\<not> mentions r ''Explanation:'' \<longrightarrow>
               thoughts d = [js ''Certification answer based on knowledge''])
          \<and> time_complexity d = js ''N/A for certification exam''
          \<and> space_complexity d = js ''N/A for certification exam'')"
proof -
  obtain d where eq: "processSolutionResponse r mode = Inr d"
    using processSolutionResponse_Inr by blast
  consider (coding) "mode \<notin> set other_modes"
    | (design) "mode = js ''system_design''" | (react) "mode = js ''react''"
    | (sql) "mode = js ''sql''" | (linux) "mode = js ''linux''"
    | (cert) "mode = js ''certification''"
    by (auto simp add: other_modes_def)
  then show ?thesis
  proof cases
    case coding
    then have m: "mode \<noteq> js ''system_design''" "mode \<noteq> js ''react''" "mode \<noteq> js ''sql''"
      "mode \<noteq> js ''linux''" "mode \<noteq> js ''certification''"
      by (simp_all add: other_modes_def)
    from eq coding have p: "processCodingSolution r = Inr d"
      by (simp add: coding_dispatch)
    show ?thesis
      apply (rule exI [of _ d])
      apply (simp only: coding m simp_thms)
      apply (rule conjI [OF eq coding_fallbacks [OF p]])
      done
  next
    case design
    from eq design have p: "processSystemDesignSolution r = Inr d"
      by (simp add: processSolutionResponse_def mode_names)
    show ?thesis
      unfolding design
      apply (rule exI [of _ d])
      apply (simp only: mode_names mode_names [THEN not_sym] other_mode_names simp_thms)
      apply (rule conjI [OF eq [unfolded design] design_fallbacks [OF p]])
      done
  next
    case react
    from eq react have p: "processReactSolution r = Inr d"
      by (simp add: processSolutionResponse_def mode_names)
    show ?thesis
      unfolding react
      apply (rule exI [of _ d])
      apply (simp only: mode_names mode_names [THEN not_sym] other_mode_names simp_thms)
      apply (rule conjI [OF eq [unfolded react] react_fallbacks [OF p]])
      done
  next
    case sql
    from eq sql have p: "processSQLSolution r = Inr d"
      by (simp add: processSolutionResponse_def mode_names)
    show ?thesis
      unfolding sql
      apply (rule exI [of _ d])
      apply (simp only: mode_names mode_names [THEN not_sym] other_mode_names simp_thms)
      apply (rule conjI [OF eq [unfolded sql] sql_fallbacks [OF p]])
      done
  next
    case linux
    from eq linux have p: "processLinuxSolution r = Inr d"
      by (simp add: processSolutionResponse_def mode_names)
    show ?thesis
      unfolding linux
      apply (rule exI [of _ d])
      apply (simp only: mode_names mode_names [THEN not_sym] other_mode_names simp_thms)
      apply (rule conjI [OF eq [unfolded linux] linux_fallbacks [OF p]])
      done
  next
    case cert
    from eq cert have p: "processCertificationSolution r = Inr d"
      by (simp add: processSolutionResponse_def mode_names)
    show ?thesis
      unfolding cert
      apply (rule exI [of _ d])
      apply (simp only: mode_names mode_names [THEN not_sym] other_mode_names simp_thms)
      apply (rule conjI [OF eq [unfolded cert] certification_fallbacks [OF p]])
      done
  qed
qed

theorem processSolutionResponse_never_fails_witness:
  "js ''behavioral'' \<notin> set other_modes
   \<and> \<not> mentions (js ''x = 1'') ''Thoughts:'' \<and> \<not> mentions (js ''x = 1'') ''Key Insights:''
   \<and> \<not> mentions (js ''x = 1'') ''Reasoning:'' \<and> \<not> mentions (js ''x = 1'') ''Approach:''
   \<and> \<not> mentions (js ''x = 1'') ''Time complexity''
   \<and> \<not> mentions (js ''x = 1'') ''Space complexity''
   \<and> \<not> mentions (js ''x = 1'') ''Explanation:'' \<and> \<not> mentions (js ''x = 1'') ''Performance''
   \<and> (\<exists>d. processSolutionResponse (js ''x = 1'') (js ''behavioral'') = Inr d
          \<and> thoughts d = [js ''Solution approach based on efficiency and readability'']
          \<and> time_complexity d = js ''O(n) - Linear time complexity because we only iterate through the array once. Each element is processed exactly one time, and the hashmap lookups are O(1) operations.''
          \<and> space_complexity d = js ''O(n) - Linear space complexity because we store elements in the hashmap. In the worst case, we might need to store all elements before finding the solution pair.'')
   \<and> (\<exists>d. processSolutionResponse (js ''x = 1'') (js ''sql'') = Inr d
          \<and> thoughts d = [js ''SQL query design based on requirements'']
          \<and> time_complexity d = js ''Depends on database indexes and query execution plan''
          \<and> space_complexity d = js ''Depends on result set size and temporary tables used'')"
proof -
  have b: "js ''behavioral'' \<notin> set other_modes"
    by (simp add: other_modes_def js_def)
  have n: "\<not> mentions (js ''x = 1'') ''Thoughts:''" "\<not> mentions (js ''x = 1'') ''Key Insights:''"
    "\<not> mentions (js ''x = 1'') ''Reasoning:''" "\<not> mentions (js ''x = 1'') ''Approach:''"
    "\<not> mentions (js ''x = 1'') ''Time complexity''" "\<not> mentions (js ''x = 1'') ''Space complexity''"
    "\<not> mentions (js ''x = 1'') ''Explanation:''" "\<not> mentions (js ''x = 1'') ''Performance''"
    by (simp_all add: mentions_def js_def same_unit_def upper_def)
  have 1: "\<exists>d. processSolutionResponse (js ''x = 1'') (js ''behavioral'') = Inr d
          \<and> thoughts d = [js ''Solution approach based on efficiency and readability'']
          \<and> time_complexity d = js ''O(n) - Linear time complexity because we only iterate through the array once. Each element is processed exactly one time, and the hashmap lookups are O(1) operations.''
          \<and> space_complexity d = js ''O(n) - Linear space complexity because we store elements in the hashmap. In the worst case, we might need to store all elements before finding the solution pair.''"
    using processSolutionResponse_never_fails [of "js ''x = 1''" "js ''behavioral''"]
    by (clarsimp simp add: b n)
  have 2: "\<exists>d. processSolutionResponse (js ''x = 1'') (js ''sql'') = Inr d
          \<and> thoughts d = [js ''SQL query design based on requirements'']
          \<and> time_complexity d = js ''Depends on database indexes and query execution plan''
          \<and> space_complexity d = js ''Depends on result set size and temporary tables used''"
    using processSolutionResponse_never_fails [of "js ''x = 1''" "js ''sql''"]
    by (clarsimp simp add: n)
  show ?thesis
    using b n 1 2 by simp
qed

text \<open>
  C10. For every text of a debug answer the thoughts of the debug result are at most five:
  the first five matches of the bullet pattern, each after the source's replacement of a
  marker at its start, and trimmed (a match that starts with a line break keeps its
  marker); and when the pattern matches nowhere in the answer, the thoughts are the one
  sentence \<open>Debug analysis based on your screenshots\<close>.
\<close>

theorem debug_thoughts_at_most_five:
  "length (thoughts (debug_response r)) \<le> 5
   \<and> (rx_match_g False debug_bullet_rx r = [] \<longrightarrow>
        thoughts (debug_response r) = [js ''Debug analysis based on your screenshots''])
   \<and> (rx_match_g False debug_bullet_rx r \<noteq> [] \<longrightarrow>
        thoughts (debug_response r) =
          take 5 (map (\<lambda>point. trim (rx_replace False debug_prefix_rx [] point))
                    (rx_match_g False debug_bullet_rx r)))"
  by (cases "rx_match_g False debug_bullet_rx r")
    (simp_all add: debug_response_def debug_thoughts_def Let_def)

theorem debug_thoughts_at_most_five_witness:
  "rx_match_g False debug_bullet_rx (js ''The loop never ends.'') = []
   \<and> thoughts (debug_response (js ''The loop never ends.'')) =
       [js ''Debug analysis based on your screenshots'']
   \<and> rx_match_g False debug_bullet_rx (js ''Fix:\<newline>- a\<newline>- b\<newline>3. c\<newline>* d\<newline>- e\<newline>- f'') \<noteq> []
   \<and> thoughts (debug_response (js ''Fix:\<newline>- a\<newline>- b\<newline>3. c\<newline>* d\<newline>- e\<newline>- f'')) =
       [js ''- a'', js ''- b'', js ''3. c'', js ''* d'', js ''- e'']"
proof -
  have none: "rx_match_g False debug_bullet_rx (js ''The loop never ends.'') = []"
    by (simp add: debug_bullet_rx_def bullet_marker_def run_rx)
  have six: "rx_match_g False debug_bullet_rx (js ''Fix:\<newline>- a\<newline>- b\<newline>3. c\<newline>* d\<newline>- e\<newline>- f'') =
      [js ''\<newline>- a'', js ''\<newline>- b'', js ''\<newline>3. c'', js ''\<newline>* d'', js ''\<newline>- e'', js ''\<newline>- f'']"
    by (simp add: debug_bullet_rx_def bullet_marker_def run_rx)
  have strip: "map (\<lambda>point. trim (rx_replace False debug_prefix_rx [] point))
      [js ''\<newline>- a'', js ''\<newline>- b'', js ''\<newline>3. c'', js ''\<newline>* d'', js ''\<newline>- e'', js ''\<newline>- f''] =
      [js ''- a'', js ''- b'', js ''3. c'', js ''* d'', js ''- e'', js ''- f'']"
    by (simp add: debug_prefix_rx_def bullet_marker_def run_rx run_js)
  show ?thesis
    using debug_thoughts_at_most_five [of "js ''The loop never ends.''"]
      debug_thoughts_at_most_five [of "js ''Fix:\<newline>- a\<newline>- b\<newline>3. c\<newline>* d\<newline>- e\<newline>- f''"]
    unfolding none six strip by simp
qed

text \<open>
  C7, at a response whose last line is the time complexity, with no line break after it:
  the pattern of the time complexity asks for a line break after the text it captures, so
  it does not match, and the time complexity of the result is the default statement, which
  has neither the notation nor the explanation of the response.
\<close>

theorem time_complexity_on_last_line:
  "map_sum id time_complexity
     (processCodingSolution (js ''Time complexity: O(log n) - binary search'')) =
     Inr default_time_complexity
   \<and> js_includes default_time_complexity (js ''O(log n)'') = False
   \<and> js_includes default_time_complexity (js ''binary search'') = False"
proof -
  have "rx_exec True timeComplexityPattern (js ''Time complexity: O(log n) - binary search'') = None"
    by (simp add: timeComplexityPattern_def run_rx)
  then have "map_sum id time_complexity
     (processCodingSolution (js ''Time complexity: O(log n) - binary search'')) =
     Inr default_time_complexity"
    by (simp add: processCodingSolution_def Let_def complexity_of_def section_of_def)
  moreover have "js_includes default_time_complexity (js ''O(log n)'') = False"
    by (simp add: default_time_complexity_def js_def same_unit_def)
  moreover have "js_includes default_time_complexity (js ''binary search'') = False"
    by (simp add: default_time_complexity_def js_def same_unit_def)
  ultimately show ?thesis by simp
qed

lemma time_complexity_before_line_break:
  "map_sum id time_complexity
     (processCodingSolution (js ''Time complexity: O(log n) - binary search\<newline>'')) =
     Inr (js ''O(log n) - binary search'')"
proof -
  have "rx_exec True timeComplexityPattern (js ''Time complexity: O(log n) - binary search\<newline>'') =
      Some \<lparr>before = [], matched = js ''Time complexity: O(log n) - binary search'',
            capture = Some (js ''O(log n) - binary search''), after = js ''\<newline>''\<rparr>"
    by (simp add: timeComplexityPattern_def run_rx)
  moreover have "complexity_statement (js ''O(log n) - binary search'') = js ''O(log n) - binary search''"
    by (simp add: complexity_statement_def Let_def big_o_rx_def run_rx run_js)
  ultimately show ?thesis
    by (simp add: processCodingSolution_def Let_def complexity_of_def section_of_def js_def)
qed

text \<open>The other cases of the complexity fields: an \<open>O(n) - \<close> put before a text without
  a notation, and a \<open> - \<close> put after the notation of a text with neither a dash nor the
  word \<open>because\<close>.\<close>

lemma complexity_statement_synthesized:
  "rx_exec True big_o_rx (trim c) = None \<Longrightarrow> complexity_statement c = js ''O(n) - '' @ trim c"
  by (simp add: complexity_statement_def Let_def)

lemma complexity_statement_separator:
  assumes "rx_exec True big_o_rx (trim c) = Some m"
    and "\<not> js_includes (trim c) (js ''-'')" and "\<not> js_includes (trim c) (js ''because'')"
  shows "complexity_statement c =
           matched m @ js '' - '' @ trim (replace_first (matched m) [] (trim c))"
  using assms by (simp add: complexity_statement_def Let_def)

lemma complexity_statement_examples:
  "complexity_statement (js ''linear in the input'') = js ''O(n) - linear in the input''"
  "complexity_statement (js ''O(n), linear scan'') = js ''O(n) - , linear scan''"
  "complexity_statement (js ''O(1) - constant work'') = js ''O(1) - constant work''"
  by (simp_all add: complexity_statement_def Let_def big_o_rx_def run_rx run_js)

section \<open>Properties of the prompt templates\<close>

text \<open>
  A mode outside the recognized ones, at one problem: the solution prompt is the short
  template of the \<open>default\<close> branch, not the template of the coding mode.
\<close>

theorem unknown_mode_solution_prompt_differs:
  "js ''behavioral'' \<notin> set recognized_modes
   \<and> createSolutionPromptByMode (js ''behavioral'')
       [''problem_statement'' \<mapsto> js ''Sum two numbers''] (js ''python'')
     = js ''\<newline>Generate a detailed solution for the following problem:\<newline>\<newline>PROBLEM STATEMENT:\<newline>Sum two numbers\<newline>\<newline>I need a comprehensive solution with clear explanations.\<newline>''
   \<and> createSolutionPromptByMode (js ''behavioral'')
       [''problem_statement'' \<mapsto> js ''Sum two numbers''] (js ''python'')
     \<noteq> createSolutionPromptByMode (js ''coding'')
       [''problem_statement'' \<mapsto> js ''Sum two numbers''] (js ''python'')"
  by (simp add: recognized_modes_def createSolutionPromptByMode_def tpl_def tpl_or_def js_def)

text \<open>
  C1, amended. For every mode string outside the recognized set nothing fails: the
  extraction system prompt, the debug system prompt and the parsing of the response are
  those of the coding mode, while the solution prompt and the debug user prompt are the
  templates of their \<open>default\<close> branches, which are not the coding ones: the solution
  prompt has the problem statement alone, the debug user prompt no problem at all.
\<close>

theorem unknown_mode_templates:
  assumes "mode \<notin> set recognized_modes"
  shows "createSystemPromptByMode mode = createSystemPromptByMode (js ''coding'')
    \<and> createDebugSystemPromptByMode mode = createDebugSystemPromptByMode (js ''coding'')
    \<and> processSolutionResponse r mode = processSolutionResponse r (js ''coding'')
    \<and> createSolutionPromptByMode mode info lang =
        js ''\<newline>Generate a detailed solution for the following problem:\<newline>\<newline>PROBLEM STATEMENT:\<newline>''
          @ tpl info ''problem_statement''
          @ js ''\<newline>\<newline>I need a comprehensive solution with clear explanations.\<newline>''
    \<and> createDebugUserPromptByMode mode info lang =
        js ''I need help with debugging or improving my solution. Here are screenshots of my code, the errors or test cases. Please provide a detailed analysis with:\<newline>1. What issues you found\<newline>2. Specific improvements and corrections\<newline>3. Any optimizations that would make the solution better\<newline>4. A clear explanation of the changes needed''"
proof -
  from assms have m: "mode \<noteq> js ''coding''" "mode \<noteq> js ''system_design''" "mode \<noteq> js ''react''"
    "mode \<noteq> js ''sql''" "mode \<noteq> js ''linux''" "mode \<noteq> js ''certification''"
    by (simp_all add: recognized_modes_def)
  have 1: "createSystemPromptByMode mode = createSystemPromptByMode (js ''coding'')"
    using m by (simp add: createSystemPromptByMode_def)
  have 2: "createDebugSystemPromptByMode mode = createDebugSystemPromptByMode (js ''coding'')"
    using m by (simp add: createDebugSystemPromptByMode_def)
  have 3: "processSolutionResponse r mode = processSolutionResponse r (js ''coding'')"
    using m by (simp add: processSolutionResponse_def)
  have 4: "createSolutionPromptByMode mode info lang =
        js ''\<newline>Generate a detailed solution for the following problem:\<newline>\<newline>PROBLEM STATEMENT:\<newline>''
          @ tpl info ''problem_statement''
          @ js ''\<newline>\<newline>I need a comprehensive solution with clear explanations.\<newline>''"
    using m by (simp add: createSolutionPromptByMode_def)
  have 5: "createDebugUserPromptByMode mode info lang =
        js ''I need help with debugging or improving my solution. Here are screenshots of my code, the errors or test cases. Please provide a detailed analysis with:\<newline>1. What issues you found\<newline>2. Specific improvements and corrections\<newline>3. Any optimizations that would make the solution better\<newline>4. A clear explanation of the changes needed''"
    using m by (simp add: createDebugUserPromptByMode_def)
  from 1 2 3 4 5 show ?thesis by simp
qed

theorem unknown_mode_templates_witness:
  "js ''behavioral'' \<notin> set recognized_modes
   \<and> createSystemPromptByMode (js ''behavioral'') = createSystemPromptByMode (js ''coding'')
   \<and> createDebugSystemPromptByMode (js ''behavioral'') = createDebugSystemPromptByMode (js ''coding'')
   \<and> processSolutionResponse (js ''x = 1'') (js ''behavioral'') =
       processSolutionResponse (js ''x = 1'') (js ''coding'')"
proof -
  have h: "js ''behavioral'' \<notin> set recognized_modes"
    by (simp add: recognized_modes_def js_def)
  show ?thesis
    using h unknown_mode_templates [OF h, of "js ''x = 1''" Map.empty "js ''python''"] by simp
qed

text \<open>
  A mode that is not set is the coding mode itself.
\<close>

lemma empty_mode_is_coding: "interviewMode cfg = [] \<Longrightarrow> getInterviewMode cfg = js ''coding''"
  by (simp add: getInterviewMode_def config_getInterviewMode_def)

section \<open>The code field\<close>

lemma fence_units: "fence = [96, 96, 96]"
  by (simp add: fence_def js_def)

text \<open>
  A pattern that starts with a literal matches nowhere in a text without the literal.
\<close>

lemma search_without_literal:
  assumes "\<not> js_includes t l" and "l \<noteq> []"
  shows "search False (Seq (Str l) X) b pre t = None"
  using assms
proof (induction t arbitrary: b pre)
  case Nil
  then obtain a l' where "l = a # l'" by (cases l) auto
  then show ?case
    by (simp add: search.simps first_match_def ms.simps)
next
  case (Cons c t)
  then have "\<not> starts_with False l (c # t)" and "\<not> js_includes t l"
    by simp_all
  with Cons show ?case
    by (simp add: search.simps first_match_def ms.simps)
qed

lemma no_fence_no_match:
  assumes "\<not> js_includes r (js ''```'')"
  shows "rx_exec False code_fence_rx r = None"
    and "rx_exec False react_fence_rx r = None"
    and "rx_exec False sql_fence_rx r = None"
    and "rx_exec False debug_fence_rx r = None"
proof -
  have ne: "js ''```'' \<noteq> []" by (simp add: js_def)
  show "rx_exec False code_fence_rx r = None"
    unfolding rx_exec_def code_fence_rx_def seqs.simps
    by (rule search_without_literal [OF assms ne])
  show "rx_exec False react_fence_rx r = None"
    unfolding rx_exec_def react_fence_rx_def seqs.simps
    by (rule search_without_literal [OF assms ne])
  show "rx_exec False sql_fence_rx r = None"
    unfolding rx_exec_def sql_fence_rx_def seqs.simps
    by (rule search_without_literal [OF assms ne])
  show "rx_exec False debug_fence_rx r = None"
    unfolding rx_exec_def debug_fence_rx_def seqs.simps
    by (rule search_without_literal [OF assms ne])
qed

text \<open>
  The text before a fence, without a backtick, is passed over, and so is white space
  before the block.
\<close>

lemma split_at_skip:
  assumes "96 \<notin> set p"
  shows "split_at False fence (p @ v) =
         (case split_at False fence v of None \<Rightarrow> None | Some (a, r) \<Rightarrow> Some (p @ a, r))"
  using assms
proof (induction p)
  case Nil
  then show ?case by (simp split: option.splits)
next
  case (Cons c p)
  then have "\<not> starts_with False fence (c # p @ v)"
    by (simp add: fence_units same_unit_def)
  with Cons show ?case
    by (simp split: option.splits)
qed

lemma split_at_dropWhile:
  assumes "\<not> f 96"
  shows "split_at False fence (dropWhile f v) =
         (case split_at False fence v of None \<Rightarrow> None | Some (a, r) \<Rightarrow> Some (dropWhile f a, r))"
proof (induction v)
  case Nil
  then show ?case by (simp add: fence_units)
next
  case (Cons c v)
  show ?case
  proof (cases "f c")
    case True
    with assms have "c \<noteq> 96" by auto
    then have "\<not> starts_with False fence (c # v)"
      by (simp add: fence_units same_unit_def)
    with True Cons show ?thesis
      by (simp split: option.splits)
  next
    case False
    then show ?thesis
      by (simp split: option.splits)
  qed
qed

lemma trim_dropWhile: "trim (dropWhile cls_s s) = trim s"
  by (simp add: trim_def)

text \<open>
  A pattern \<open>```TAG\s*([\s\S]*?)```\<close>, for a tag that cannot hold a backtick and that
  the matcher takes off as \<open>td\<close> does. From its opening fence the pattern matches when a
  fence follows, and captures the text up to the first one; the search finds the first
  fence of the text, and no later start matches when that one does not.
\<close>

lemma tail_exact:
  assumes tag_ok: "\<And>k y cap v. k (False, cap, td v) = Some (y :: mstate) \<Longrightarrow>
      mk False TAG (False, cap, v) k = Some y"
    and td_suffix: "\<And>v. \<exists>p. v = p @ td v \<and> 96 \<notin> set p"
  shows "mk False (fence_tail TAG) (False, cap, rest) Some =
         (case split_at False fence (dropWhile cls_s (td rest)) of
            None \<Rightarrow> None
          | Some (body, post) \<Rightarrow> Some (False, Some body, post))"
proof -
  let ?K2 = "\<lambda>s. mk False (Grp (Lazy any_unit)) s (\<lambda>s. mk False (Str fence) s Some)"
  let ?K1 = "\<lambda>s. mk False (Star (Chr cls_s)) s ?K2"
  have ne: "fence \<noteq> []" by (simp add: fence_units)
  have unfold: "mk False (fence_tail TAG) (False, cap, rest) Some =
      mk False TAG (False, cap, rest) ?K1"
    by (simp add: fence_tail_def mk_Seq)
  show ?thesis
  proof (cases "split_at False fence (dropWhile cls_s (td rest))")
    case (Some bp)
    obtain body post where bp: "bp = (body, post)" by (cases bp) auto
    have "?K2 (False, cap, dropWhile cls_s (td rest)) = Some (False, Some body, post)"
      using Some bp by (simp add: grp_to_stop [OF ne])
    then have "?K1 (False, cap, td rest) = Some (False, Some body, post)"
      by (rule mk_Star_class)
    then have "mk False TAG (False, cap, rest) ?K1 = Some (False, Some body, post)"
      by (rule tag_ok)
    with Some bp unfold show ?thesis by simp
  next
    case None
    obtain p where p: "rest = p @ td rest" "96 \<notin> set p"
      using td_suffix by blast
    have "td rest = takeWhile cls_s (td rest) @ dropWhile cls_s (td rest)" by simp
    moreover have "96 \<notin> set (takeWhile cls_s (td rest))"
    proof
      assume "96 \<in> set (takeWhile cls_s (td rest))"
      then have "cls_s 96" by (rule set_takeWhileD [THEN conjunct2])
      then show False by (simp add: cls_s_def)
    qed
    ultimately have "split_at False fence (td rest) = None"
      using None split_at_skip [of "takeWhile cls_s (td rest)" "dropWhile cls_s (td rest)"]
      by simp
    then have none: "split_at False fence rest = None"
      using p split_at_skip [of p "td rest"] by simp
    have k2: "?K2 s = None" if "suffix (snd (snd s)) rest" for s
      using split_at_None_suffix [OF none that] by (simp add: grp_to_stop [OF ne])
    have k1: "?K1 s = None" if "suffix (snd (snd s)) rest" for s
      by (rule mk_all_fail) (use that k2 suffix_order.trans in blast)
    have "mk False TAG (False, cap, rest) ?K1 = None"
      by (rule mk_all_fail) (simp add: k1)
    with None unfold show ?thesis by simp
  qed
qed

lemma first_at_fence:
  assumes tag_ok: "\<And>k y cap v. k (False, cap, td v) = Some (y :: mstate) \<Longrightarrow>
      mk False TAG (False, cap, v) k = Some y"
    and td_suffix: "\<And>v. \<exists>p. v = p @ td v \<and> 96 \<notin> set p"
  shows "first_match False (Seq (Str fence) (fence_tail TAG)) (b, None, u) =
         (if starts_with False fence u
          then case split_at False fence (dropWhile cls_s (td (drop (length fence) u))) of
                 None \<Rightarrow> None
               | Some (body, post) \<Rightarrow> Some (False, Some body, post)
          else None)"
proof -
  have ne: "fence \<noteq> []" by (simp add: fence_units)
  show ?thesis
    using tail_exact [of td TAG None "drop (length fence) u", OF tag_ok td_suffix]
    by (simp add: first_match_mk mk_Seq mk_Str ne)
qed

lemma fence_search:
  assumes tag_ok: "\<And>k y cap v. k (False, cap, td v) = Some (y :: mstate) \<Longrightarrow>
      mk False TAG (False, cap, v) k = Some y"
    and td_suffix: "\<And>v. \<exists>p. v = p @ td v \<and> 96 \<notin> set p"
  shows "map_option capture (search False (Seq (Str fence) (fence_tail TAG)) b acc t) =
         (case split_at False fence t of
            None \<Rightarrow> None
          | Some (pre, rest) \<Rightarrow>
              (case split_at False fence (dropWhile cls_s (td rest)) of
                 None \<Rightarrow> None
               | Some (body, post) \<Rightarrow> Some (Some body)))"
proof (cases "split_at False fence t")
  case None
  have "search False (Seq (Str fence) (fence_tail TAG)) b acc t = None"
  proof (rule search_none)
    fix b u
    assume "suffix u t"
    then have "\<not> starts_with False fence u"
      using None split_at_None by blast
    then show "first_match False (Seq (Str fence) (fence_tail TAG)) (b, None, u) = None"
      by (simp add: first_at_fence [of td TAG, OF tag_ok td_suffix])
  qed
  with None show ?thesis by simp
next
  case (Some pr)
  obtain pre rest where pr: "pr = (pre, rest)" by (cases pr) auto
  have at: "search False (Seq (Str fence) (fence_tail TAG)) b acc t =
      search False (Seq (Str fence) (fence_tail TAG)) (b \<and> pre = []) (acc @ pre) (fence @ rest)"
    using Some pr by (simp add: search_split)
  have st: "starts_with False fence (fence @ rest)" "drop (length fence) (fence @ rest) = rest"
    by (simp_all add: starts_with_prefix)
  show ?thesis
  proof (cases "split_at False fence (dropWhile cls_s (td rest))")
    case inner: (Some bp)
    obtain body post where bp: "bp = (body, post)" by (cases bp) auto
    have "first_match False (Seq (Str fence) (fence_tail TAG)) (b \<and> pre = [], None, fence @ rest) =
        Some (False, Some body, post)"
      using inner bp st by (simp add: first_at_fence [of td TAG, OF tag_ok td_suffix])
    then have "map_option capture
        (search False (Seq (Str fence) (fence_tail TAG)) (b \<and> pre = []) (acc @ pre) (fence @ rest)) =
        Some (Some body)"
      using search_found by fastforce
    with Some pr inner bp at show ?thesis by simp
  next
    case inner: None
    obtain p where p: "rest = p @ td rest" "96 \<notin> set p"
      using td_suffix by blast
    have "td rest = takeWhile cls_s (td rest) @ dropWhile cls_s (td rest)" by simp
    moreover have "96 \<notin> set (takeWhile cls_s (td rest))"
    proof
      assume "96 \<in> set (takeWhile cls_s (td rest))"
      then have "cls_s 96" by (rule set_takeWhileD [THEN conjunct2])
      then show False by (simp add: cls_s_def)
    qed
    ultimately have "split_at False fence (td rest) = None"
      using inner split_at_skip [of "takeWhile cls_s (td rest)" "dropWhile cls_s (td rest)"]
      by simp
    then have none: "split_at False fence rest = None"
      using p split_at_skip [of p "td rest"] by simp
    have "search False (Seq (Str fence) (fence_tail TAG)) (b \<and> pre = []) (acc @ pre) (fence @ rest) =
        None"
    proof (rule search_none)
      fix b u
      assume "suffix u (fence @ rest)"
      then have "suffix (drop (length fence) u) rest"
        using suffix_drop_both [of u "fence @ rest" "length fence"] by simp
      then have 1: "split_at False fence (drop (length fence) u) = None"
        using none split_at_None_suffix by blast
      obtain q where q: "drop (length fence) u = q @ td (drop (length fence) u)"
        using td_suffix by blast
      have "suffix (dropWhile cls_s (td (drop (length fence) u))) (td (drop (length fence) u))"
        by (rule suffix_dropWhile)
      moreover have "suffix (td (drop (length fence) u)) (drop (length fence) u)"
        using q by (metis suffixI)
      ultimately have "suffix (dropWhile cls_s (td (drop (length fence) u))) (drop (length fence) u)"
        using suffix_order.trans by blast
      then have "split_at False fence (dropWhile cls_s (td (drop (length fence) u))) = None"
        using 1 split_at_None_suffix by blast
      then show "first_match False (Seq (Str fence) (fence_tail TAG)) (b, None, u) = None"
        by (simp add: first_at_fence [of td TAG, OF tag_ok td_suffix])
    qed
    with Some pr inner at show ?thesis by simp
  qed
qed

lemma fenced_code:
  assumes tag_ok: "\<And>k y cap v. k (False, cap, td v) = Some (y :: mstate) \<Longrightarrow>
      mk False TAG (False, cap, v) k = Some y"
    and td_suffix: "\<And>v. \<exists>p. v = p @ td v \<and> 96 \<notin> set p"
  shows "(case rx_exec False (Seq (Str fence) (fence_tail TAG)) t of
            None \<Rightarrow> dflt
          | Some m \<Rightarrow> trim (capture1 m)) =
         (case first_block td t of None \<Rightarrow> dflt | Some c \<Rightarrow> c)"
proof -
  have s: "\<not> cls_s 96" by (simp add: cls_s_def)
  have c: "map_option capture (rx_exec False (Seq (Str fence) (fence_tail TAG)) t) =
      (case split_at False fence t of
         None \<Rightarrow> None
       | Some (pre, rest) \<Rightarrow>
           (case split_at False fence (td rest) of
              None \<Rightarrow> None
            | Some (body, post) \<Rightarrow> Some (Some (dropWhile cls_s body))))"
  proof -
    have "map_option capture (rx_exec False (Seq (Str fence) (fence_tail TAG)) t) =
        (case split_at False fence t of
           None \<Rightarrow> None
         | Some (pre, rest) \<Rightarrow>
             (case split_at False fence (dropWhile cls_s (td rest)) of
                None \<Rightarrow> None
              | Some (body, post) \<Rightarrow> Some (Some body)))"
      unfolding rx_exec_def by (rule fence_search [OF tag_ok td_suffix])
    then show ?thesis
      by (simp add: split_at_dropWhile [of cls_s, OF s] split: option.splits)
  qed
  show ?thesis
  proof (cases "rx_exec False (Seq (Str fence) (fence_tail TAG)) t")
    case None
    with c show ?thesis
      by (auto simp add: first_block_def split: option.splits prod.splits)
  next
    case (Some m)
    with c show ?thesis
      by (auto simp add: first_block_def capture1_def trim_dropWhile
          split: option.splits prod.splits)
  qed
qed

text \<open>
  The tags of the three fence patterns: a word, one of five names, and \<open>sql\<close>.
\<close>

lemma word_tag:
  "k (False, cap, dropWhile cls_w v) = Some (y :: mstate) \<Longrightarrow>
     mk False (Opt (Many1 (Chr cls_w))) (False, cap, v) k = Some y"
  "\<exists>p. v = p @ dropWhile cls_w v \<and> 96 \<notin> set p"
proof -
  show "k (False, cap, dropWhile cls_w v) = Some y \<Longrightarrow>
     mk False (Opt (Many1 (Chr cls_w))) (False, cap, v) k = Some y"
    by (rule mk_Opt_Many1_class)
  have "96 \<notin> set (takeWhile cls_w v)"
  proof
    assume "96 \<in> set (takeWhile cls_w v)"
    then have "cls_w 96" by (rule set_takeWhileD [THEN conjunct2])
    then show False by (simp add: cls_w_def)
  qed
  moreover have "v = takeWhile cls_w v @ dropWhile cls_w v" by simp
  ultimately show "\<exists>p. v = p @ dropWhile cls_w v \<and> 96 \<notin> set p" by blast
qed

lemma strip_tag_suffix:
  assumes "\<And>l. l \<in> set ls \<Longrightarrow> 96 \<notin> set l"
  shows "\<exists>p. v = p @ strip_tag ls v \<and> 96 \<notin> set p"
  using assms
proof (induction ls)
  case Nil
  then show ?case by simp
next
  case (Cons l ls)
  show ?case
  proof (cases "starts_with False l v")
    case True
    then have "v = l @ drop (length l) v"
      by (auto simp add: starts_with_prefix prefix_def)
    moreover have "96 \<notin> set l" using Cons.prems by simp
    ultimately show ?thesis using True by auto
  next
    case False
    with Cons show ?thesis by simp
  qed
qed

lemma react_tag:
  "k (False, cap, strip_tag
        [js ''jsx'', js ''tsx'', js ''javascript'', js ''js'', js ''react''] v) = Some (y :: mstate) \<Longrightarrow>
     mk False (Opt (alts [Str (js ''jsx''), Str (js ''tsx''), Str (js ''javascript''),
                          Str (js ''js''), Str (js ''react'')])) (False, cap, v) k = Some y"
  "\<exists>p. v = p @ strip_tag
        [js ''jsx'', js ''tsx'', js ''javascript'', js ''js'', js ''react''] v \<and> 96 \<notin> set p"
proof -
  have ne: "js ''jsx'' \<noteq> []" "js ''tsx'' \<noteq> []" "js ''javascript'' \<noteq> []" "js ''js'' \<noteq> []"
    "js ''react'' \<noteq> []"
    by (simp_all add: js_def)
  show "k (False, cap, strip_tag
        [js ''jsx'', js ''tsx'', js ''javascript'', js ''js'', js ''react''] v) = Some y \<Longrightarrow>
     mk False (Opt (alts [Str (js ''jsx''), Str (js ''tsx''), Str (js ''javascript''),
                          Str (js ''js''), Str (js ''react'')])) (False, cap, v) k = Some y"
    by (simp add: Opt_def mk_Alt mk_Str mk_Eps ne split: if_splits)
  show "\<exists>p. v = p @ strip_tag
        [js ''jsx'', js ''tsx'', js ''javascript'', js ''js'', js ''react''] v \<and> 96 \<notin> set p"
    by (rule strip_tag_suffix) (auto simp add: js_def)
qed

lemma sql_tag:
  "k (False, cap, strip_tag [js ''sql''] v) = Some (y :: mstate) \<Longrightarrow>
     mk False (Opt (Str (js ''sql''))) (False, cap, v) k = Some y"
  "\<exists>p. v = p @ strip_tag [js ''sql''] v \<and> 96 \<notin> set p"
proof -
  have ne: "js ''sql'' \<noteq> []" by (simp add: js_def)
  show "k (False, cap, strip_tag [js ''sql''] v) = Some y \<Longrightarrow>
     mk False (Opt (Str (js ''sql''))) (False, cap, v) k = Some y"
    by (simp add: Opt_def mk_Alt mk_Str mk_Eps ne split: if_splits)
  show "\<exists>p. v = p @ strip_tag [js ''sql''] v \<and> 96 \<notin> set p"
    by (rule strip_tag_suffix) (auto simp add: js_def)
qed

lemma coding_code:
  "(case rx_exec False code_fence_rx r of None \<Rightarrow> dflt | Some m \<Rightarrow> trim (capture1 m)) =
   (case first_block (dropWhile cls_w) r of None \<Rightarrow> dflt | Some c \<Rightarrow> c)"
proof -
  have "code_fence_rx = Seq (Str fence) (fence_tail (Opt (Many1 (Chr cls_w))))"
    by (simp add: code_fence_rx_def fence_tail_def fence_def)
  then show ?thesis
    using fenced_code [where td = "dropWhile cls_w" and t = r and dflt = dflt, OF word_tag]
    by simp
qed

lemma react_code:
  "(case rx_exec False react_fence_rx r of None \<Rightarrow> dflt | Some m \<Rightarrow> trim (capture1 m)) =
   (case first_block (strip_tag
        [js ''jsx'', js ''tsx'', js ''javascript'', js ''js'', js ''react'']) r of None \<Rightarrow> dflt | Some c \<Rightarrow> c)"
proof -
  have "react_fence_rx =
      Seq (Str fence)
        (fence_tail (Opt (alts [Str (js ''jsx''), Str (js ''tsx''), Str (js ''javascript''),
                                Str (js ''js''), Str (js ''react'')])))"
    by (simp add: react_fence_rx_def fence_tail_def fence_def)
  then show ?thesis
    using fenced_code [where td = "strip_tag
        [js ''jsx'', js ''tsx'', js ''javascript'', js ''js'', js ''react'']" and t = r and dflt = dflt, OF react_tag]
    by simp
qed

lemma sql_code:
  "(case rx_exec False sql_fence_rx r of None \<Rightarrow> dflt | Some m \<Rightarrow> trim (capture1 m)) =
   (case first_block (strip_tag [js ''sql'']) r of None \<Rightarrow> dflt | Some c \<Rightarrow> c)"
proof -
  have "sql_fence_rx = Seq (Str fence) (fence_tail (Opt (Str (js ''sql''))))"
    by (simp add: sql_fence_rx_def fence_tail_def fence_def)
  then show ?thesis
    using fenced_code [where td = "strip_tag [js ''sql'']" and t = r and dflt = dflt, OF sql_tag]
    by simp
qed

text \<open>
  A pattern \<open>(?:L1|L2|L3):([\s\S]*?)(?:stop|$)\<close> with the flag \<open>i\<close>: it matches at the
  first place where a label with its colon stands, and captures up to \<open>stop\<close> or the end.
\<close>

lemma labelled_search:
  assumes nonempty: "[] \<notin> set ls"
    and fm: "\<And>b u. map_option (\<lambda>s'. fst (snd s')) (first_match True P (b, None, u)) =
      map_option (\<lambda>l. Some (sec (drop (length l) u))) (find (\<lambda>l. starts_with True l u) ls)"
  shows "map_option capture (search True P b acc t) =
         map_option (\<lambda>rest. Some (sec rest)) (after_first_label ls t)"
proof (induction t arbitrary: b acc)
  case Nil
  have "find (\<lambda>l. starts_with True l []) ls = None"
    using nonempty
  proof (induction ls)
    case Nil
    then show ?case by simp
  next
    case (Cons l ls)
    then show ?case by (cases l) auto
  qed
  with fm [of b "[]"] have "first_match True P (b, None, []) = None"
    by simp
  then show ?case by (simp add: search.simps)
next
  case (Cons c t)
  show ?case
  proof (cases "find (\<lambda>l. starts_with True l (c # t)) ls")
    case None
    with fm [of b "c # t"] have "first_match True P (b, None, c # t) = None"
      by simp
    with None Cons.IH show ?thesis
      by (simp add: search.simps)
  next
    case (Some l)
    with fm [of b "c # t"] obtain s' where
      "first_match True P (b, None, c # t) = Some s'" "fst (snd s') = Some (sec (drop (length l) (c # t)))"
      by auto
    with Some show ?thesis
      by (simp add: search.simps)
  qed
qed

lemma labelled_text:
  assumes nonempty: "[] \<notin> set ls"
    and fm: "\<And>b u. map_option (\<lambda>s'. fst (snd s')) (first_match True P (b, None, u)) =
      map_option
        (\<lambda>l. Some (case split_at True stop (drop (length l) u) of
                     None \<Rightarrow> drop (length l) u
                   | Some (body, post) \<Rightarrow> body))
        (find (\<lambda>l. starts_with True l u) ls)"
  shows "section_text (rx_exec True P t) =
         (case labelled_section ls stop t of None \<Rightarrow> [] | Some s \<Rightarrow> s)"
proof -
  let ?sec = "\<lambda>v. case split_at True stop v of None \<Rightarrow> v | Some (body, post) \<Rightarrow> body"
  have "map_option capture (rx_exec True P t) =
      map_option (\<lambda>rest. Some (?sec rest)) (after_first_label ls t)"
    unfolding rx_exec_def by (rule labelled_search [OF nonempty]) (rule fm)
  then show ?thesis
    by (cases "rx_exec True P t"; cases "after_first_label ls t")
      (simp_all add: section_text_def labelled_section_def capture1_def)
qed

lemma three_labels:
  assumes "\<And>s. mk True T s Some = Some (F s)"
    and "a1 \<noteq> []" "a2 \<noteq> []" "a3 \<noteq> []"
  shows "first_match True (Seq (Alt (Str a1) (Alt (Str a2) (Str a3))) (Seq (Str c) T)) (b, None, u) =
     map_option (\<lambda>l. F (False, None, drop (length l) u))
       (find (\<lambda>l. starts_with True l u) [a1 @ c, a2 @ c, a3 @ c])"
  by (simp add: first_match_mk mk_Seq mk_Alt mk_Str assms starts_with_append add.commute)

lemma commands_section:
  "section_text (rx_exec True commands_rx r) =
   (case labelled_section [js ''Solution Commands:'', js ''Commands:'', js ''Command:'']
           (js ''Explanation:'') r of
      None \<Rightarrow> [] | Some s \<Rightarrow> s)"
proof (rule labelled_text)
  show "[] \<notin> set [js ''Solution Commands:'', js ''Commands:'', js ''Command:'']"
    by (simp add: js_def)
next
  fix b u
  have ne: "js ''Explanation:'' \<noteq> []" "js ''Solution Commands'' \<noteq> []" "js ''Commands'' \<noteq> []"
    "js ''Command'' \<noteq> []"
    by (simp_all add: js_def)
  have l: "js ''Solution Commands:'' = js ''Solution Commands'' @ js '':''"
    "js ''Commands:'' = js ''Commands'' @ js '':''"
    "js ''Command:'' = js ''Command'' @ js '':''"
    by (simp_all add: js_def)
  have rx: "commands_rx =
      Seq (Alt (Str (js ''Solution Commands'')) (Alt (Str (js ''Commands'')) (Str (js ''Command''))))
        (Seq (Str (js '':'')) (Seq (Grp (Lazy any_unit)) (Alt (Str (js ''Explanation:'')) Eol)))"
    by (simp add: commands_rx_def)
  show "map_option (\<lambda>s'. fst (snd s')) (first_match True commands_rx (b, None, u)) =
      map_option
        (\<lambda>l. Some (case split_at True (js ''Explanation:'') (drop (length l) u) of
                     None \<Rightarrow> drop (length l) u
                   | Some (body, post) \<Rightarrow> body))
        (find (\<lambda>l. starts_with True l u)
           [js ''Solution Commands:'', js ''Commands:'', js ''Command:''])"
    unfolding l rx three_labels [OF section_total [OF ne(1)] ne(2-4)]
    by (simp add: option.map_comp comp_def section_end_capture)
qed

lemma answer_section:
  "section_text (rx_exec True answer_rx r) =
   (case labelled_section [js ''Answer:'', js ''Correct Answer:'', js ''Solution:'']
           (js ''Explanation:'') r of
      None \<Rightarrow> [] | Some s \<Rightarrow> s)"
proof (rule labelled_text)
  show "[] \<notin> set [js ''Answer:'', js ''Correct Answer:'', js ''Solution:'']"
    by (simp add: js_def)
next
  fix b u
  have ne: "js ''Explanation:'' \<noteq> []" "js ''Answer'' \<noteq> []" "js ''Correct Answer'' \<noteq> []"
    "js ''Solution'' \<noteq> []"
    by (simp_all add: js_def)
  have l: "js ''Answer:'' = js ''Answer'' @ js '':''"
    "js ''Correct Answer:'' = js ''Correct Answer'' @ js '':''"
    "js ''Solution:'' = js ''Solution'' @ js '':''"
    by (simp_all add: js_def)
  have rx: "answer_rx =
      Seq (Alt (Str (js ''Answer'')) (Alt (Str (js ''Correct Answer'')) (Str (js ''Solution''))))
        (Seq (Str (js '':'')) (Seq (Grp (Lazy any_unit)) (Alt (Str (js ''Explanation:'')) Eol)))"
    by (simp add: answer_rx_def)
  show "map_option (\<lambda>s'. fst (snd s')) (first_match True answer_rx (b, None, u)) =
      map_option
        (\<lambda>l. Some (case split_at True (js ''Explanation:'') (drop (length l) u) of
                     None \<Rightarrow> drop (length l) u
                   | Some (body, post) \<Rightarrow> body))
        (find (\<lambda>l. starts_with True l u)
           [js ''Answer:'', js ''Correct Answer:'', js ''Solution:''])"
    unfolding l rx three_labels [OF section_total [OF ne(1)] ne(2-4)]
    by (simp add: option.map_comp comp_def section_end_capture)
qed

text \<open>
  Without a fence the code field is empty in the SQL and the React mode, and with an empty
  fenced block in the coding mode, for responses that are not empty.
\<close>

theorem code_field_can_be_empty:
  "js_includes (js ''SELECT 1'') (js ''```'') = False
   \<and> map_sum id code (processSolutionResponse (js ''SELECT 1'') (js ''sql'')) = Inr []
   \<and> map_sum id code (processSolutionResponse (js ''SELECT 1'') (js ''react'')) = Inr []
   \<and> map_sum id code (processSolutionResponse (js ''``````'') (js ''coding'')) = Inr []"
proof -
  have n: "\<not> js_includes (js ''SELECT 1'') (js ''```'')"
    by (simp add: js_def same_unit_def)
  have e: "rx_exec False code_fence_rx (js ''``````'') =
      Some \<lparr>before = [], matched = js ''``````'', capture = Some [], after = []\<rparr>"
    by (simp add: code_fence_rx_def run_rx)
  show ?thesis
    using n e
    by (simp add: processSolutionResponse_def processSQLSolution_def processReactSolution_def
        processCodingSolution_def no_fence_no_match Let_def mode_names capture1_def trim_def)
qed

text \<open>
  C5, amended. In the coding mode and for every mode outside the recognized ones, the
  code field is the first fenced block of the response: the text between the first fence,
  after the word that follows it (the language tag), and the next fence, trimmed, whatever
  stands before the block, in it or after it; and it is the entire response when the
  response has no fence, or no fence after its first one. In the React and the SQL mode
  it is the first fenced block as well, with one of the mode's tags taken off, and it is
  empty when there is no block. In the system design mode it is always empty. In the
  Linux and the certification mode it is the trimmed text after the first label of the
  commands (of the answer) up to the next \<open>Explanation:\<close> or the end of the response,
  and it is empty when no label occurs; a fence plays no part. So a response that is not
  empty can have an empty code field.
\<close>

theorem code_field_by_mode:
  "(mode \<notin> set other_modes \<longrightarrow>
      map_sum id code (processSolutionResponse r mode) =
        Inr (case first_block (dropWhile cls_w) r of None \<Rightarrow> r | Some c \<Rightarrow> c))
   \<and> map_sum id code (processSolutionResponse r (js ''react'')) =
       Inr (case first_block
                   (strip_tag [js ''jsx'', js ''tsx'', js ''javascript'', js ''js'', js ''react'']) r of
              None \<Rightarrow> [] | Some c \<Rightarrow> c)
   \<and> map_sum id code (processSolutionResponse r (js ''sql'')) =
       Inr (case first_block (strip_tag [js ''sql'']) r of None \<Rightarrow> [] | Some c \<Rightarrow> c)
   \<and> map_sum id code (processSolutionResponse r (js ''system_design'')) = Inr []
   \<and> map_sum id code (processSolutionResponse r (js ''linux'')) =
       Inr (case labelled_section [js ''Solution Commands:'', js ''Commands:'', js ''Command:'']
                   (js ''Explanation:'') r of
              None \<Rightarrow> [] | Some s \<Rightarrow> s)
   \<and> map_sum id code (processSolutionResponse r (js ''certification'')) =
       Inr (case labelled_section [js ''Answer:'', js ''Correct Answer:'', js ''Solution:'']
                   (js ''Explanation:'') r of
              None \<Rightarrow> [] | Some s \<Rightarrow> s)"
proof -
  have coding: "map_sum id code (processSolutionResponse r mode) =
        Inr (case first_block (dropWhile cls_w) r of None \<Rightarrow> r | Some c \<Rightarrow> c)"
    if "mode \<notin> set other_modes"
    using that by (simp add: coding_dispatch processCodingSolution_def Let_def coding_code)
  have react: "map_sum id code (processSolutionResponse r (js ''react'')) =
       Inr (case first_block
                   (strip_tag [js ''jsx'', js ''tsx'', js ''javascript'', js ''js'', js ''react'']) r of
              None \<Rightarrow> [] | Some c \<Rightarrow> c)"
    by (simp add: processSolutionResponse_def processReactSolution_def Let_def mode_names
        react_code)
  have sql: "map_sum id code (processSolutionResponse r (js ''sql'')) =
       Inr (case first_block (strip_tag [js ''sql'']) r of None \<Rightarrow> [] | Some c \<Rightarrow> c)"
    by (simp add: processSolutionResponse_def processSQLSolution_def Let_def mode_names sql_code)
  have design: "map_sum id code (processSolutionResponse r (js ''system_design'')) = Inr []"
    by (simp add: processSolutionResponse_def processSystemDesignSolution_def Let_def mode_names)
  have linux: "map_sum id code (processSolutionResponse r (js ''linux'')) =
       Inr (case labelled_section [js ''Solution Commands:'', js ''Commands:'', js ''Command:'']
                   (js ''Explanation:'') r of
              None \<Rightarrow> [] | Some s \<Rightarrow> s)"
    by (simp add: processSolutionResponse_def processLinuxSolution_def Let_def mode_names
        commands_section)
  have cert: "map_sum id code (processSolutionResponse r (js ''certification'')) =
       Inr (case labelled_section [js ''Answer:'', js ''Correct Answer:'', js ''Solution:'']
                   (js ''Explanation:'') r of
              None \<Rightarrow> [] | Some s \<Rightarrow> s)"
    by (simp add: processSolutionResponse_def processCertificationSolution_def Let_def mode_names
        answer_section)
  show ?thesis
    using coding react sql design linux cert by blast
qed

lemmas run_text = first_block_def labelled_section_def fence_def js_def same_unit_def upper_def
  trim_def cls_s_def cls_w_def

theorem code_field_by_mode_witness:
  "js ''behavioral'' \<notin> set other_modes
   \<and> map_sum id code
       (processSolutionResponse (js ''Use `x`: ```js\<newline>foo\<newline>``` Done'') (js ''behavioral'')) =
       Inr (js ''foo'')
   \<and> map_sum id code
       (processSolutionResponse (js ''```py\<newline>a = `t`;\<newline>``` end'') (js ''behavioral'')) =
       Inr (js ''a = `t`;'')
   \<and> map_sum id code (processSolutionResponse (js ''```js\<newline>foo'') (js ''behavioral'')) =
       Inr (js ''```js\<newline>foo'')
   \<and> map_sum id code (processSolutionResponse (js ''x = 1'') (js ''behavioral'')) = Inr (js ''x = 1'')
   \<and> map_sum id code
       (processSolutionResponse (js ''Use `x`: ```js\<newline>foo\<newline>``` Done'') (js ''react'')) =
       Inr (js ''foo'')
   \<and> map_sum id code (processSolutionResponse (js ''```js\<newline>foo'') (js ''react'')) = Inr []
   \<and> map_sum id code
       (processSolutionResponse (js ''Run:\<newline>```sql\<newline>SELECT 1\<newline>```'') (js ''sql'')) =
       Inr (js ''SELECT 1'')
   \<and> map_sum id code
       (processSolutionResponse (js ''Commands: ls -l\<newline>Explanation: lists'') (js ''linux'')) =
       Inr (js ''ls -l'')
   \<and> map_sum id code (processSolutionResponse (js ''```sh\<newline>ls -l\<newline>```'') (js ''linux'')) = Inr []
   \<and> map_sum id code
       (processSolutionResponse (js ''Correct answer: B\<newline>Explanation: ...'') (js ''certification'')) =
       Inr (js ''B'')"
proof -
  have b: "js ''behavioral'' \<notin> set other_modes"
    by (simp add: other_modes_def js_def)
  have 1: "map_sum id code
       (processSolutionResponse (js ''Use `x`: ```js\<newline>foo\<newline>``` Done'') (js ''behavioral'')) =
       Inr (js ''foo'')"
    "map_sum id code
       (processSolutionResponse (js ''Use `x`: ```js\<newline>foo\<newline>``` Done'') (js ''react'')) =
       Inr (js ''foo'')"
    using code_field_by_mode [of "js ''behavioral''" "js ''Use `x`: ```js\<newline>foo\<newline>``` Done''"] b
    by (simp_all add: run_text)
  have 2: "map_sum id code
       (processSolutionResponse (js ''```py\<newline>a = `t`;\<newline>``` end'') (js ''behavioral'')) =
       Inr (js ''a = `t`;'')"
    using code_field_by_mode [of "js ''behavioral''" "js ''```py\<newline>a = `t`;\<newline>``` end''"] b
    by (simp add: run_text)
  have 3: "map_sum id code (processSolutionResponse (js ''```js\<newline>foo'') (js ''behavioral'')) =
       Inr (js ''```js\<newline>foo'')"
    "map_sum id code (processSolutionResponse (js ''```js\<newline>foo'') (js ''react'')) = Inr []"
    using code_field_by_mode [of "js ''behavioral''" "js ''```js\<newline>foo''"] b
    by (simp_all add: run_text)
  have 4: "map_sum id code (processSolutionResponse (js ''x = 1'') (js ''behavioral'')) =
       Inr (js ''x = 1'')"
    using code_field_by_mode [of "js ''behavioral''" "js ''x = 1''"] b
    by (simp add: run_text)
  have 5: "map_sum id code
       (processSolutionResponse (js ''Run:\<newline>```sql\<newline>SELECT 1\<newline>```'') (js ''sql'')) =
       Inr (js ''SELECT 1'')"
    using code_field_by_mode [of "js ''sql''" "js ''Run:\<newline>```sql\<newline>SELECT 1\<newline>```''"]
    by (simp add: run_text)
  have 6: "map_sum id code
       (processSolutionResponse (js ''Commands: ls -l\<newline>Explanation: lists'') (js ''linux'')) =
       Inr (js ''ls -l'')"
    using code_field_by_mode [of "js ''linux''" "js ''Commands: ls -l\<newline>Explanation: lists''"]
    by (simp add: run_text)
  have 7: "map_sum id code (processSolutionResponse (js ''```sh\<newline>ls -l\<newline>```'') (js ''linux'')) =
       Inr []"
    using code_field_by_mode [of "js ''linux''" "js ''```sh\<newline>ls -l\<newline>```''"]
    by (simp add: run_text)
  have 8: "map_sum id code
       (processSolutionResponse (js ''Correct answer: B\<newline>Explanation: ...'') (js ''certification'')) =
       Inr (js ''B'')"
    using code_field_by_mode [of "js ''certification''" "js ''Correct answer: B\<newline>Explanation: ...''"]
    by (simp add: run_text)
  show ?thesis
    using b 1 2 3 4 5 6 7 8 by simp
qed

section \<open>Properties of the Claude message conversion\<close>

lemma filter_hd_find:
  "(case filter P xs of [] \<Rightarrow> a | m # _ \<Rightarrow> f m) = (case find P xs of None \<Rightarrow> a | Some m \<Rightarrow> f m)"
  by (induction xs) simp_all

lemma text_parts:
  "map item_text (filter is_text items) =
   concat (map (\<lambda>item. case item of TextContent t \<Rightarrow> [t] | ImageContent u \<Rightarrow> []) items)"
  by (induction items) (simp_all add: item_text_def is_text_def split: message_content.splits)

text \<open>
  C9. For every input message list, \<open>convertToClaudeMessages\<close> keeps one system prompt,
  taken from the first system-role message whatever system messages follow it: its string,
  or its text parts joined by line breaks when its content is a list of parts; the prompt
  is empty when there is no system message. The converted messages are the non-system
  messages, in their order and number: the role of each is \<open>assistant\<close> for an assistant
  message and \<open>user\<close> otherwise, and its content is one text block for a string, and for a
  list of parts a text block for each text part and a base64 image block for each image
  part, the \<open>data:image/png;base64,\<close> of the URL taken off.
\<close>

theorem convertToClaudeMessages_shape:
  "system (convertToClaudeMessages msgs) =
     (case find (\<lambda>m. role m = System) msgs of
        None \<Rightarrow> []
      | Some m \<Rightarrow>
          (case content m of
             Plain s \<Rightarrow> s
           | Parts items \<Rightarrow>
               join (js ''\<newline>'')
                 (concat (map (\<lambda>item. case item of TextContent t \<Rightarrow> [t] | ImageContent u \<Rightarrow> [])
                            items))))
   \<and> length (messages (convertToClaudeMessages msgs)) =
       length (filter (\<lambda>m. role m \<noteq> System) msgs)
   \<and> map cm_role (messages (convertToClaudeMessages msgs)) =
       map (\<lambda>m. if role m = Assistant then js ''assistant'' else js ''user'')
         (filter (\<lambda>m. role m \<noteq> System) msgs)
   \<and> map cm_content (messages (convertToClaudeMessages msgs)) =
       map (\<lambda>m. case content m of
                   Plain s \<Rightarrow> [ClaudeText s]
                 | Parts items \<Rightarrow>
                     map (\<lambda>item. case item of
                                    TextContent t \<Rightarrow> ClaudeText t
                                  | ImageContent url \<Rightarrow>
                                      ClaudeImage (js ''base64'') (js ''image/png'')
                                        (replace_first (js ''data:image/png;base64,'') [] url))
                       items)
         (filter (\<lambda>m. role m \<noteq> System) msgs)
   \<and> set (map cm_role (messages (convertToClaudeMessages msgs)))
       \<subseteq> {js ''user'', js ''assistant''}"
proof -
  let ?ns = "filter (\<lambda>m. role m \<noteq> System) msgs"
  have out: "messages (convertToClaudeMessages msgs) = map convert_message ?ns"
    by (simp add: convertToClaudeMessages_def Let_def)
  have sys: "system (convertToClaudeMessages msgs) =
     (case find (\<lambda>m. role m = System) msgs of
        None \<Rightarrow> []
      | Some m \<Rightarrow>
          (case content m of
             Plain s \<Rightarrow> s
           | Parts items \<Rightarrow>
               join (js ''\<newline>'')
                 (concat (map (\<lambda>item. case item of TextContent t \<Rightarrow> [t] | ImageContent u \<Rightarrow> [])
                            items))))"
    by (simp add: convertToClaudeMessages_def Let_def filter_hd_find system_text_def text_parts
        cong: option.case_cong content.case_cong)
  have roles: "map cm_role (map convert_message xs) =
      map (\<lambda>m. if role m = Assistant then js ''assistant'' else js ''user'') xs" for xs
    by (induction xs) (simp_all add: convert_message_def)
  have conts: "map cm_content (map convert_message xs) =
      map (\<lambda>m. case content m of
                   Plain s \<Rightarrow> [ClaudeText s]
                 | Parts items \<Rightarrow>
                     map (\<lambda>item. case item of
                                    TextContent t \<Rightarrow> ClaudeText t
                                  | ImageContent url \<Rightarrow>
                                      ClaudeImage (js ''base64'') (js ''image/png'')
                                        (replace_first (js ''data:image/png;base64,'') [] url))
                       items) xs" for xs
    by (induction xs)
      (simp_all add: convert_message_def convert_content_def convert_item_def
        split: content.splits cong: message_content.case_cong)
  have sub: "set (map (\<lambda>m. if role m = Assistant then js ''assistant'' else js ''user'') xs)
      \<subseteq> {js ''user'', js ''assistant''}" for xs :: "model_message list"
    by (induction xs) auto
  show ?thesis
    unfolding out roles conts using sys sub [of ?ns] by simp
qed

theorem convertToClaudeMessages_shape_witness:
  "system (convertToClaudeMessages
     [\<lparr>role = User, content = Plain (js ''hi'')\<rparr>,
      \<lparr>role = System,
        content = Parts [TextContent (js ''first''), ImageContent (js ''data:image/png;base64,QUJD''),
                         TextContent (js ''line'')]\<rparr>,
      \<lparr>role = Assistant,
        content = Parts [TextContent (js ''see''), ImageContent (js ''data:image/png;base64,QUJD'')]\<rparr>,
      \<lparr>role = System, content = Plain (js ''second'')\<rparr>]) = js ''first\<newline>line''
   \<and> map cm_role (messages (convertToClaudeMessages
     [\<lparr>role = User, content = Plain (js ''hi'')\<rparr>,
      \<lparr>role = System,
        content = Parts [TextContent (js ''first''), ImageContent (js ''data:image/png;base64,QUJD''),
                         TextContent (js ''line'')]\<rparr>,
      \<lparr>role = Assistant,
        content = Parts [TextContent (js ''see''), ImageContent (js ''data:image/png;base64,QUJD'')]\<rparr>,
      \<lparr>role = System, content = Plain (js ''second'')\<rparr>])) = [js ''user'', js ''assistant'']
   \<and> map cm_content (messages (convertToClaudeMessages
     [\<lparr>role = User, content = Plain (js ''hi'')\<rparr>,
      \<lparr>role = System,
        content = Parts [TextContent (js ''first''), ImageContent (js ''data:image/png;base64,QUJD''),
                         TextContent (js ''line'')]\<rparr>,
      \<lparr>role = Assistant,
        content = Parts [TextContent (js ''see''), ImageContent (js ''data:image/png;base64,QUJD'')]\<rparr>,
      \<lparr>role = System, content = Plain (js ''second'')\<rparr>])) =
     [[ClaudeText (js ''hi'')],
      [ClaudeText (js ''see''), ClaudeImage (js ''base64'') (js ''image/png'') (js ''QUJD'')]]"
  using convertToClaudeMessages_shape
     [of "[\<lparr>role = User, content = Plain (js ''hi'')\<rparr>,
      \<lparr>role = System,
        content = Parts [TextContent (js ''first''), ImageContent (js ''data:image/png;base64,QUJD''),
                         TextContent (js ''line'')]\<rparr>,
      \<lparr>role = Assistant,
        content = Parts [TextContent (js ''see''), ImageContent (js ''data:image/png;base64,QUJD'')]\<rparr>,
      \<lparr>role = System, content = Plain (js ''second'')\<rparr>]"]
  by (simp add: js_def same_unit_def)

lemma convertToClaudeMessages_example:
  "convertToClaudeMessages
     [\<lparr>role = User, content = Plain (js ''hi'')\<rparr>,
      \<lparr>role = System, content = Plain (js ''first'')\<rparr>,
      \<lparr>role = Assistant,
        content = Parts [TextContent (js ''see''), ImageContent (js ''data:image/png;base64,QUJD'')]\<rparr>,
      \<lparr>role = System, content = Plain (js ''second'')\<rparr>] =
   \<lparr>messages =
      [\<lparr>cm_role = js ''user'', cm_content = [ClaudeText (js ''hi'')]\<rparr>,
       \<lparr>cm_role = js ''assistant'',
         cm_content = [ClaudeText (js ''see''),
                       ClaudeImage (js ''base64'') (js ''image/png'') (js ''QUJD'')]\<rparr>],
    system = js ''first''\<rparr>"
  by (simp add: convertToClaudeMessages_def convert_message_def convert_content_def
      convert_item_def system_text_def js_def same_unit_def)

section \<open>Properties of the adapters\<close>

lemmas example_defs = openai_active_def switched_to_claude_def idle_helper_def answering_def
  cancelled_error_def cancelling_def parse_fields_def extraction_answer_def

lemmas adapter_defs = new_adapter_def initializeClient_def validateModel_def models_of_def
  OPENAI_MODELS_def CLAUDE_MODELS_def default_model_def supportsVision_def createModelAdapter_def
  initializeModelAdapter_def

text \<open>
  An OpenAI adapter without a key, on a model without vision: \<open>vision\<close> fails with the
  error of the missing client, not with the one of the missing capability.
\<close>

theorem openai_vision_without_client:
  "supportsVision (new_adapter OpenAI [] (js ''gpt-3.5-turbo'')) = False
   \<and> vision answering (new_adapter OpenAI [] (js ''gpt-3.5-turbo'')) [] (call_options 0) =
       (Inl (new_Error (js ''OpenAI client not initialized'')), [])
   \<and> new_Error (js ''OpenAI client not initialized'') \<noteq>
       unsupported_vision (new_adapter OpenAI [] (js ''gpt-3.5-turbo''))"
  by (simp add: vision_def openai_vision_def adapter_defs unsupported_vision_def new_Error_def
      js_def)

text \<open>
  C8, amended. For every adapter whose current model has \<open>supportsVision() = false\<close>,
  every call of \<open>vision\<close> fails at once and sends no request to the provider: with the
  error that the model does not support vision capabilities, except for an OpenAI adapter
  that has no client, whose calls fail with \<open>OpenAI client not initialized\<close> first.
\<close>

theorem vision_unsupported_fails_before_any_request:
  assumes "\<not> supportsVision a"
  shows "vision net a msgs options =
     (Inl (if provider a = OpenAI \<and> \<not> client a
           then new_Error (js ''OpenAI client not initialized'')
           else unsupported_vision a), [])"
  using assms
  by (cases "provider a") (simp_all add: vision_def openai_vision_def claude_vision_def)

theorem vision_unsupported_fails_before_any_request_witness:
  "\<not> supportsVision (new_adapter OpenAI (js ''sk-one'') (js ''gpt-3.5-turbo''))
   \<and> vision answering (new_adapter OpenAI (js ''sk-one'') (js ''gpt-3.5-turbo'')) [] (call_options 0) =
       (Inl (new_Error (js ''Model gpt-3.5-turbo does not support vision capabilities'')), [])"
proof -
  have h: "\<not> supportsVision (new_adapter OpenAI (js ''sk-one'') (js ''gpt-3.5-turbo''))"
    by (simp add: adapter_defs js_def)
  have c: "client (new_adapter OpenAI (js ''sk-one'') (js ''gpt-3.5-turbo''))"
    by (simp add: adapter_defs js_def)
  have m: "unsupported_vision (new_adapter OpenAI (js ''sk-one'') (js ''gpt-3.5-turbo'')) =
      new_Error (js ''Model gpt-3.5-turbo does not support vision capabilities'')"
    by (simp add: unsupported_vision_def adapter_defs js_def)
  show ?thesis
    using h c m vision_unsupported_fails_before_any_request [OF h, of answering "[]" "call_options 0"]
    by simp
qed

text \<open>
  Every model of the Claude table supports vision, and the constructor and \<open>setModel\<close>
  keep the model in the table: a Claude adapter always supports vision.
\<close>

lemma claude_adapter_supports_vision: "supportsVision (new_adapter Claude key m)"
  by (auto simp: adapter_defs js_def)

lemma claude_setModel_supports_vision: "provider a = Claude \<Longrightarrow> supportsVision (setModel m a)"
  by (auto simp: setModel_def adapter_defs js_def)

section \<open>Properties of cancelling\<close>

lemmas run_defs = processScreenshots_def primary_run_def primary_begin_def
  primary_after_vision_def primary_after_complete_def run_failed_def run_threw_def
  run_succeeded_def
  getLanguage_def getInterviewMode_def config_getInterviewMode_def call_options_def
  vision_def complete_def openai_vision_def openai_complete_def openai_send_def
  claude_vision_def claude_complete_def apply_action_def

text \<open>
  A session that succeeded, the final state of a run without interference: it has no
  abort controller and it has its problem information, which \<open>cancelOngoingRequests\<close>
  clears.
\<close>

theorem cancel_after_success_changes_state:
  "currentProcessingAbortController
     (final (processScreenshots answering parse_fields [] [] idle_helper)) = None
   \<and> view (final (processScreenshots answering parse_fields [] [] idle_helper)) = Solutions
   \<and> problemInfo (final (processScreenshots answering parse_fields [] [] idle_helper)) =
       Some [''problem_statement'' \<mapsto> js ''Sum two numbers'']
   \<and> problemInfo (fst (cancelOngoingRequests
         (final (processScreenshots answering parse_fields [] [] idle_helper)))) = None"
proof -
  obtain d where d: "processSolutionResponse extraction_answer (js ''coding'') = Inr d"
    using processSolutionResponse_Inr by blast
  have f: "final (processScreenshots answering parse_fields [] [] idle_helper) =
      idle_helper\<lparr>currentProcessingAbortController := None, controllers := Suc 0,
        problemInfo := Some [''problem_statement'' \<mapsto> js ''Sum two numbers''],
        view := Solutions\<rparr>"
    using d
    by (simp add: run_defs example_defs adapter_defs rethrow_def Let_def js_def run_rx
        json_fence_rx_def run_js)
  show ?thesis
    unfolding f by (simp add: cancelOngoingRequests_def idle_helper_def Let_def)
qed

text \<open>
  \<open>cancelOngoingRequests\<close> calls \<open>abort()\<close> on the abort controller of each run in
  progress and drops it, clears the problem information and resets \<open>hasDebugged\<close>
  whether or not a run is in progress, and notifies the window when there was a
  controller; a second call right after it changes nothing and sends nothing.
\<close>

theorem cancelOngoingRequests_twice:
  "currentProcessingAbortController (fst (cancelOngoingRequests h)) = None
   \<and> currentExtraProcessingAbortController (fst (cancelOngoingRequests h)) = None
   \<and> problemInfo (fst (cancelOngoingRequests h)) = None
   \<and> hasDebugged (fst (cancelOngoingRequests h)) = False
   \<and> aborted (fst (cancelOngoingRequests h)) =
       aborted h \<union> set_option (currentProcessingAbortController h)
         \<union> set_option (currentExtraProcessingAbortController h)
   \<and> snd (cancelOngoingRequests h) =
       (if (currentProcessingAbortController h \<noteq> None
            \<or> currentExtraProcessingAbortController h \<noteq> None) \<and> mainWindow h
        then [NO_SCREENSHOTS] else [])
   \<and> cancelOngoingRequests (fst (cancelOngoingRequests h)) = (fst (cancelOngoingRequests h), [])"
  by (cases "currentProcessingAbortController h"; cases "currentExtraProcessingAbortController h")
    (auto simp: cancelOngoingRequests_def Let_def)

theorem cancelOngoingRequests_twice_witness:
  "snd (cancelOngoingRequests
          (idle_helper\<lparr>currentProcessingAbortController := Some 0, controllers := 1,
                        problemInfo := Some [''problem_statement'' \<mapsto> js ''Sum two numbers'']\<rparr>)) =
     [NO_SCREENSHOTS]
   \<and> aborted (fst (cancelOngoingRequests
          (idle_helper\<lparr>currentProcessingAbortController := Some 0, controllers := 1,
                        problemInfo := Some [''problem_statement'' \<mapsto> js ''Sum two numbers'']\<rparr>))) =
     {0}
   \<and> problemInfo (fst (cancelOngoingRequests
          (idle_helper\<lparr>currentProcessingAbortController := Some 0, controllers := 1,
                        problemInfo := Some [''problem_statement'' \<mapsto> js ''Sum two numbers'']\<rparr>))) =
     None
   \<and> cancelOngoingRequests (fst (cancelOngoingRequests
          (idle_helper\<lparr>currentProcessingAbortController := Some 0, controllers := 1,
                        problemInfo := Some [''problem_statement'' \<mapsto> js ''Sum two numbers'']\<rparr>))) =
     (fst (cancelOngoingRequests
          (idle_helper\<lparr>currentProcessingAbortController := Some 0, controllers := 1,
                        problemInfo := Some [''problem_statement'' \<mapsto> js ''Sum two numbers'']\<rparr>)), [])"
  using cancelOngoingRequests_twice
    [of "idle_helper\<lparr>currentProcessingAbortController := Some 0, controllers := 1,
                      problemInfo := Some [''problem_statement'' \<mapsto> js ''Sum two numbers'']\<rparr>"]
  by (simp add: idle_helper_def)

section \<open>Properties of a run\<close>

text \<open>
  The configuration switches to Claude while the extraction call, made on the OpenAI
  adapter, is awaited: the solution call of the same run is made on the Claude adapter.
\<close>

theorem swap_during_extraction_changes_adapter:
  "map (provider \<circ> fst)
     (calls (processScreenshots answering parse_fields [ConfigUpdated switched_to_claude] []
        idle_helper)) = [OpenAI, Claude]"
  by (simp add: run_defs example_defs adapter_defs Let_def js_def same_unit_def run_rx
      json_fence_rx_def run_js split: sum.splits)

lemma primary_begin_adapter:
  assumes "primary_begin h = Calling h1 ev1 call1"
  shows "modelAdapter h1 = Some (on_adapter call1)"
    and "modelAdapter h = Some a \<Longrightarrow> on_adapter call1 = a"
  using assms
  by (auto simp: primary_begin_def Let_def run_failed_def run_threw_def
      split: if_splits option.splits)

lemma primary_after_vision_adapter:
  assumes "primary_after_vision jp h2 call1 outcome = Calling h3 ev3 call2"
  shows "modelAdapter h2 = Some (on_adapter call2)"
  using assms
  by (auto simp: primary_after_vision_def Let_def run_failed_def
      split: sum.splits option.splits)

lemma primary_run_calls:
  assumes "primary_begin h = Calling h1 ev1 call1"
    and "primary_after_vision jp (fst (interfere during_first h1)) call1
           (fst (vision net (on_adapter call1) (with_messages call1) (with_options call1))) =
         Calling h3 ev3 call2"
  shows "map fst (calls (primary_run net jp during_first during_second h)) =
         [on_adapter call1, on_adapter call2]"
  using assms by (simp add: primary_run_def case_prod_beta Let_def)

lemma config_updated_adapter:
  "modelAdapter (fst (interfere [ConfigUpdated cfg] h)) =
     modelAdapter (initializeModelAdapter (h\<lparr>stored_config := cfg\<rparr>))"
  by (simp add: apply_action_def)

text \<open>
  C2, amended. Each adapter call of a run is made on the adapter that is the helper's
  current one when the call starts: the extraction call on the adapter at the start of
  the run, the solution call on the adapter after whatever happened while the extraction
  call was awaited. With no update of the configuration in between, both calls use the
  same adapter; after an update, the solution call of the run in progress uses the new
  adapter, as does a run started later.
\<close>

theorem each_call_uses_current_adapter:
  assumes "primary_begin h = Calling h1 ev1 call1"
    and "primary_after_vision jp (fst (interfere during_first h1)) call1
           (fst (vision net (on_adapter call1) (with_messages call1) (with_options call1))) =
         Calling h3 ev3 call2"
  shows "map fst (calls (primary_run net jp during_first during_second h)) =
           [on_adapter call1, on_adapter call2]
       \<and> modelAdapter h1 = Some (on_adapter call1)
       \<and> modelAdapter (fst (interfere during_first h1)) = Some (on_adapter call2)
       \<and> (modelAdapter h \<noteq> None \<longrightarrow> modelAdapter h = Some (on_adapter call1))
       \<and> (during_first = [] \<longrightarrow> on_adapter call2 = on_adapter call1)"
proof -
  have 1: "map fst (calls (primary_run net jp during_first during_second h)) =
           [on_adapter call1, on_adapter call2]"
    using assms by (rule primary_run_calls)
  have 2: "modelAdapter h1 = Some (on_adapter call1)"
    using assms(1) by (rule primary_begin_adapter(1))
  have 3: "modelAdapter (fst (interfere during_first h1)) = Some (on_adapter call2)"
    using assms(2) by (rule primary_after_vision_adapter)
  have 4: "modelAdapter h \<noteq> None \<longrightarrow> modelAdapter h = Some (on_adapter call1)"
    using primary_begin_adapter(2) [OF assms(1)] by auto
  have 5: "during_first = [] \<longrightarrow> on_adapter call2 = on_adapter call1"
    using 2 3 by auto
  from 1 2 3 4 5 show ?thesis by simp
qed

theorem each_call_uses_current_adapter_witness:
  "\<exists>h1 ev1 call1 h3 ev3 call2.
     primary_begin idle_helper = Calling h1 ev1 call1
     \<and> primary_after_vision parse_fields (fst (interfere [ConfigUpdated switched_to_claude] h1)) call1
           (fst (vision answering (on_adapter call1) (with_messages call1) (with_options call1))) =
         Calling h3 ev3 call2
     \<and> map fst (calls (primary_run answering parse_fields [ConfigUpdated switched_to_claude] []
           idle_helper)) = [on_adapter call1, on_adapter call2]
     \<and> on_adapter call1 = new_adapter OpenAI (js ''sk-one'') (js ''gpt-4o'')
     \<and> on_adapter call2 = new_adapter Claude (js ''sk-ant-two'') (js ''claude-3-opus-20240229'')"
proof -
  obtain h1 ev1 call1 where b: "primary_begin idle_helper = Calling h1 ev1 call1"
    and h1: "h1 = idle_helper\<lparr>currentProcessingAbortController := Some 0, controllers := Suc 0\<rparr>"
    and c1: "on_adapter call1 = new_adapter OpenAI (js ''sk-one'') (js ''gpt-4o'')"
    by (simp add: primary_begin_def idle_helper_def Let_def)
  have v: "\<exists>r. fst (vision answering (on_adapter call1) (with_messages call1) (with_options call1)) =
      Inr r \<and> response_content r = extraction_answer"
    unfolding c1
    by (simp add: vision_def openai_vision_def openai_send_def adapter_defs answering_def
        Let_def js_def)
  then obtain r where r: "fst (vision answering (on_adapter call1) (with_messages call1)
      (with_options call1)) = Inr r" and rc: "response_content r = extraction_answer"
    by blast
  have t: "trim (rx_remove_g False json_fence_rx extraction_answer) = extraction_answer"
    by (simp add: extraction_answer_def js_def same_unit_def run_rx json_fence_rx_def run_js)
  have a: "modelAdapter (fst (interfere [ConfigUpdated switched_to_claude] h1)) =
      Some (new_adapter Claude (js ''sk-ant-two'') (js ''claude-3-opus-20240229''))"
    unfolding h1
    by (simp add: apply_action_def initializeModelAdapter_def createModelAdapter_def
        example_defs Let_def js_def)
  obtain h3 ev3 call2 where n: "primary_after_vision parse_fields
      (fst (interfere [ConfigUpdated switched_to_claude] h1)) call1
      (fst (vision answering (on_adapter call1) (with_messages call1) (with_options call1))) =
      Calling h3 ev3 call2"
    unfolding r using a rc t by (simp add: primary_after_vision_def parse_fields_def Let_def)
  have c2: "on_adapter call2 = new_adapter Claude (js ''sk-ant-two'') (js ''claude-3-opus-20240229'')"
    using each_call_uses_current_adapter [OF b n] a by simp
  have m: "map fst (calls (primary_run answering parse_fields [ConfigUpdated switched_to_claude] []
           idle_helper)) = [on_adapter call1, on_adapter call2]"
    using each_call_uses_current_adapter [OF b n, of "[]"] by simp
  show ?thesis
    using b n m c1 c2 by - (rule exI conjI | assumption)+
qed

text \<open>
  The branch of the helper for an error that \<open>axios.isCancel\<close> accepts. If a provider call
  ended with such an error, the run would end with the failure event
  \<open>INITIAL_SOLUTION_ERROR\<close> and the message \<open>Processing was canceled by the user.\<close>. No
  call of \<open>cancelOngoingRequests\<close> makes a provider call end so: the outcome of a call
  does not depend on the abort controllers, since the adapters do not pass the signal on.
\<close>

lemma cancelled_extraction_sends_error:
  "events (processScreenshots cancelling parse_fields [] [] idle_helper) =
     [INITIAL_START,
      ProcessingStatus (js ''Analyzing problem from screenshots...'') 20,
      INITIAL_SOLUTION_ERROR (js ''Processing was canceled by the user.'')]"
  by (simp add: run_defs example_defs adapter_defs helper_catch_def rethrow_def Let_def js_def
      same_unit_def)

lemma cancel_message_has_no_key:
  "js_includes (js ''Processing was canceled by the user.'') (js ''API Key'') = False"
  "js_includes (js ''Processing was canceled by the user.'') (js ''API key'') = False"
  by (simp_all add: js_def same_unit_def)

lemma run_failed_events:
  "\<exists>ev. snd (run_failed h err) = [ev] \<and> is_failure ev \<and> \<not> is_success ev"
  by (simp add: run_failed_def is_failure_def is_success_def)

lemma cancellation_is_reported_as_failure:
  assumes "primary_begin h = Calling h1 ev1 call1"
    and "fst (vision net (on_adapter call1) (with_messages call1) (with_options call1)) = Inl e"
    and "err_cancel e"
  shows "events (primary_run net jp during_first during_second h) =
           ev1 @ snd (interfere during_first h1)
             @ [INITIAL_SOLUTION_ERROR (js ''Processing was canceled by the user.'')]
       \<and> ev1 = [INITIAL_START, ProcessingStatus (js ''Analyzing problem from screenshots...'') 20]
       \<and> (\<exists>ev. snd (primary_after_complete h' call' (Inl e)) = [ev] \<and> is_failure ev
             \<and> \<not> is_success ev)"
proof -
  have ev1: "ev1 = [INITIAL_START, ProcessingStatus (js ''Analyzing problem from screenshots...'') 20]"
    using assms(1)
    by (auto simp: primary_begin_def Let_def run_failed_def run_threw_def
      split: if_splits option.splits)
  have "primary_after_vision jp h2 call1 (Inl e) =
      Finished (h2\<lparr>view := Queue, currentProcessingAbortController := None\<rparr>)
        [INITIAL_SOLUTION_ERROR (js ''Processing was canceled by the user.'')]" for h2
    using assms(3)
    by (simp add: primary_after_vision_def helper_catch_def run_failed_def cancel_message_has_no_key)
  then have run: "events (primary_run net jp during_first during_second h) =
           ev1 @ snd (interfere during_first h1)
             @ [INITIAL_SOLUTION_ERROR (js ''Processing was canceled by the user.'')]"
    using assms(1,2) by (simp add: primary_run_def case_prod_beta Let_def)
  have "\<exists>ev. snd (primary_after_complete h' call' (Inl e)) = [ev] \<and> is_failure ev
      \<and> \<not> is_success ev"
    using run_failed_events by (simp add: primary_after_complete_def)
  with ev1 run show ?thesis by simp
qed

lemma cancellation_is_reported_as_failure_example:
  "\<exists>h1 ev1 call1.
     primary_begin idle_helper = Calling h1 ev1 call1
     \<and> fst (vision cancelling (on_adapter call1) (with_messages call1) (with_options call1)) =
         Inl cancelled_error
     \<and> err_cancel cancelled_error
     \<and> events (primary_run cancelling parse_fields [] [] idle_helper) =
         [INITIAL_START, ProcessingStatus (js ''Analyzing problem from screenshots...'') 20,
          INITIAL_SOLUTION_ERROR (js ''Processing was canceled by the user.'')]"
proof -
  obtain h1 ev1 call1 where b: "primary_begin idle_helper = Calling h1 ev1 call1"
    and c1: "on_adapter call1 = new_adapter OpenAI (js ''sk-one'') (js ''gpt-4o'')"
    by (simp add: primary_begin_def idle_helper_def Let_def)
  have v: "fst (vision cancelling (on_adapter call1) (with_messages call1) (with_options call1)) =
      Inl cancelled_error"
    unfolding c1
    by (simp add: vision_def openai_vision_def openai_send_def adapter_defs cancelling_def
        cancelled_error_def rethrow_def Let_def js_def)
  have c: "err_cancel cancelled_error"
    by (simp add: cancelled_error_def)
  show ?thesis
    using b v c cancellation_is_reported_as_failure [OF b v c, of parse_fields "[]" "[]"]
    by auto
qed

text \<open>
  C4, at a call of \<open>cancelOngoingRequests\<close> while the extraction call of a run is awaited.
  The call aborts the controller of the run, drops it, clears the problem information and
  notifies the window. The adapters do not pass the signal of their options on to the
  provider, so the extraction call is not ended: it returns its answer, and the run goes
  on. It stores the problem information again, makes the solution call, sends its success
  events after the notice of the cancellation, and ends in the solutions view.
\<close>

theorem cancel_during_extraction_does_not_end_the_run:
  "\<exists>d. events (processScreenshots answering parse_fields [CancelRequests] [] idle_helper) =
     [INITIAL_START,
      ProcessingStatus (js ''Analyzing problem from screenshots...'') 20,
      NO_SCREENSHOTS,
      ProcessingStatus (js ''Problem analyzed successfully. Preparing to generate solution...'') 40,
      PROBLEM_EXTRACTED (Some [''problem_statement'' \<mapsto> js ''Sum two numbers'']),
      ProcessingStatus (js ''Creating optimal solution with detailed explanations...'') 60,
      ProcessingStatus (js ''Solution generated successfully'') 100,
      SOLUTION_SUCCESS d, SOLUTION_SUCCESS d]
   \<and> final (processScreenshots answering parse_fields [CancelRequests] [] idle_helper) =
     idle_helper\<lparr>aborted := {0}, controllers := Suc 0,
       problemInfo := Some [''problem_statement'' \<mapsto> js ''Sum two numbers''],
       view := Solutions\<rparr>
   \<and> map (length \<circ> snd)
       (calls (processScreenshots answering parse_fields [CancelRequests] [] idle_helper)) = [1, 1]"
proof -
  obtain d where d: "processSolutionResponse extraction_answer (js ''coding'') = Inr d"
    using processSolutionResponse_Inr by blast
  show ?thesis
    apply (rule exI [of _ d])
    using d
    by (simp add: run_defs example_defs adapter_defs cancelOngoingRequests_def rethrow_def
        Let_def js_def same_unit_def run_rx json_fence_rx_def run_js)
qed

text \<open>
  C3, at a call of \<open>cancelOngoingRequests\<close> while the solution call of a run is awaited.
  The call aborts the controller of the run and sends the notice of the cancellation,
  \<open>NO_SCREENSHOTS\<close>. The solution call is not ended by it, and the run goes on: after the
  notice it sends the progress event of a finished solution and its two success events.
  The run sends no failure event.
\<close>

theorem cancel_during_solution_is_followed_by_success:
  "\<exists>d. events (processScreenshots answering parse_fields [] [CancelRequests] idle_helper) =
     [INITIAL_START,
      ProcessingStatus (js ''Analyzing problem from screenshots...'') 20,
      ProcessingStatus (js ''Problem analyzed successfully. Preparing to generate solution...'') 40,
      PROBLEM_EXTRACTED (Some [''problem_statement'' \<mapsto> js ''Sum two numbers'']),
      ProcessingStatus (js ''Creating optimal solution with detailed explanations...'') 60,
      NO_SCREENSHOTS,
      ProcessingStatus (js ''Solution generated successfully'') 100,
      SOLUTION_SUCCESS d, SOLUTION_SUCCESS d]
   \<and> aborted (final (processScreenshots answering parse_fields [] [CancelRequests] idle_helper)) = {0}
   \<and> filter is_failure
       (events (processScreenshots answering parse_fields [] [CancelRequests] idle_helper)) = []"
proof -
  obtain d where d: "processSolutionResponse extraction_answer (js ''coding'') = Inr d"
    using processSolutionResponse_Inr by blast
  show ?thesis
    apply (rule exI [of _ d])
    using d
    by (simp add: run_defs example_defs adapter_defs cancelOngoingRequests_def rethrow_def
        Let_def js_def same_unit_def run_rx json_fence_rx_def run_js is_failure_def)
qed

end
